(* ===== verification/Prelude.thy ===== *)
theory Prelude
  imports Main "HOL-Library.Sublist"
begin

text \<open>
  The shared vocabulary of the development. Python strings are modelled as
  byte strings (\<open>pystr\<close>, the UTF-8 encoding of the Python \<open>str\<close>); the
  Python operations the application applies to them (\<open>str.lower\<close>, the
  substring test \<open>in\<close>), to dictionaries (\<open>d[k]\<close>, \<open>k in d\<close>) and to
  lists (\<open>xs[i]\<close>, \<open>xs.index(x)\<close>) are defined here with the exceptions
  they raise as values of \<open>py_error + 'a\<close>. A Streamlit script run ends
  normally, by \<open>st.rerun()\<close>, or by an uncaught exception; the type
  \<open>'s outcome\<close> records which, together with the session state at that
  point (Streamlit keeps every mutation of \<open>st.session_state\<close> made before
  the run stopped).
\<close>

named_theorems model_simps "equations that evaluate the model on concrete inputs"

section \<open>Python errors and results\<close>

datatype py_error =
    KeyError
  | IndexError
  | ValueError
  | UnboundLocalError
  | StreamlitAPIException
  | StopIteration

fun py_then :: "py_error + 'a \<Rightarrow> ('a \<Rightarrow> py_error + 'b) \<Rightarrow> py_error + 'b" where
  "py_then (Inl e) f = Inl e"
| "py_then (Inr a) f = f a"

section \<open>Python strings\<close>

type_synonym pystr = string

abbreviation apos :: char where
  "apos \<equiv> CHR 0x27"

definition ascii_lower :: "char \<Rightarrow> char" where
  "ascii_lower c =
     (if 65 \<le> (of_char c :: nat) \<and> (of_char c :: nat) \<le> 90
      then char_of (of_char c + (32::nat)) else c)"

text \<open>
  The second byte of the UTF-8 encoding of an upper-case letter of the Latin-1
  supplement (U+00C0 to U+00DE without the multiplication sign U+00D7), whose
  lower-case form is 32 code points further.
\<close>

definition latin1_upper_cont :: "char \<Rightarrow> bool" where
  "latin1_upper_cont d =
     (128 \<le> (of_char d :: nat) \<and> (of_char d :: nat) \<le> 158 \<and> (of_char d :: nat) \<noteq> 151)"

text \<open>
  \<open>str.lower\<close> on UTF-8 bytes: ASCII letters, the Latin-1 supplement, and
  the dotted capital I (U+0130), which Python lowers to the two code points
  \<open>i\<close> and U+0307. These are all the case mappings that can create or
  destroy an occurrence of the application's keywords, which consist of
  lower-case ASCII letters, \<open>\<acute>o\<close> and \<open>\<grave>u\<close>.
\<close>

fun py_lower :: "pystr \<Rightarrow> pystr" where
  "py_lower [] = []"
| "py_lower [c] = [ascii_lower c]"
| "py_lower (c # d # cs) =
     (if c = CHR 0xC3 \<and> latin1_upper_cont d
      then c # char_of (of_char d + (32::nat)) # py_lower cs
      else if c = CHR 0xC4 \<and> d = CHR 0xB0
      then CHR ''i'' # CHR 0xCC # CHR 0x87 # py_lower cs
      else ascii_lower c # py_lower (d # cs))"

text \<open>The substring test \<open>needle in haystack\<close>, scanning the positions.\<close>

fun py_in :: "pystr \<Rightarrow> pystr \<Rightarrow> bool" where
  "py_in n [] = (n = [])"
| "py_in n (c # cs) = (prefix n (c # cs) \<or> py_in n cs)"

section \<open>Dictionaries and lists\<close>

text \<open>
  A Python dictionary with its insertion order is an association list whose
  keys are distinct; \<open>d[k]\<close> raises \<open>KeyError\<close> on a missing key.
\<close>

definition py_getitem :: "('k \<times> 'v) list \<Rightarrow> 'k \<Rightarrow> py_error + 'v" where
  "py_getitem d k = (case map_of d k of None \<Rightarrow> Inl KeyError | Some v \<Rightarrow> Inr v)"

definition py_has_key :: "('k \<times> 'v) list \<Rightarrow> 'k \<Rightarrow> bool" where
  "py_has_key d k = (k \<in> set (map fst d))"

definition py_index_get :: "'a list \<Rightarrow> nat \<Rightarrow> py_error + 'a" where
  "py_index_get xs i = (if i < length xs then Inr (xs ! i) else Inl IndexError)"

fun py_list_index :: "'a list \<Rightarrow> 'a \<Rightarrow> py_error + nat" where
  "py_list_index [] x = Inl ValueError"
| "py_list_index (y # ys) x =
     (if y = x then Inr 0 else py_then (py_list_index ys x) (\<lambda>i. Inr (Suc i)))"

text \<open>
  \<open>random.randint(lo, hi)\<close> with its draw: \<open>ValueError\<close> for an empty range.
\<close>

definition py_randint :: "int \<Rightarrow> int \<Rightarrow> int \<Rightarrow> py_error + int" where
  "py_randint lo hi draw = (if hi < lo then Inl ValueError else Inr draw)"

section \<open>Outcome of a script run\<close>

datatype 's outcome =
    Continue 's
  | Rerun 's
  | Raised py_error 's

fun then_do :: "'s outcome \<Rightarrow> ('s \<Rightarrow> 's outcome) \<Rightarrow> 's outcome" where
  "then_do (Continue s) f = f s"
| "then_do (Rerun s) f = Rerun s"
| "then_do (Raised e s) f = Raised e s"

fun outcome_state :: "'s outcome \<Rightarrow> 's" where
  "outcome_state (Continue s) = s"
| "outcome_state (Rerun s) = s"
| "outcome_state (Raised e s) = s"

text \<open>A Python expression that may raise, evaluated in the middle of a run.\<close>

definition or_raise :: "py_error + 'a \<Rightarrow> 's \<Rightarrow> ('a \<Rightarrow> 's outcome) \<Rightarrow> 's outcome" where
  "or_raise r s f = (case r of Inl e \<Rightarrow> Raised e s | Inr a \<Rightarrow> f a)"

text \<open>A run that does not end in \<open>st.rerun()\<close>.\<close>

definition no_rerun :: "'s outcome \<Rightarrow> bool" where
  "no_rerun r \<longleftrightarrow> (\<forall>s. r \<noteq> Rerun s)"

section \<open>Generic lemmas\<close>

text \<open>The facts that evaluate \<open>py_lower\<close> on literal strings.\<close>

lemmas lower_eval = ascii_lower_def latin1_upper_cont_def char_of_def bit_simps

lemma py_in_iff_sublist: "py_in n h \<longleftrightarrow> sublist n h"
  by (induction h) (simp_all add: sublist_Cons_right)

lemma py_in_append_right [intro]: "py_in n h \<Longrightarrow> py_in n (h @ t)"
  by (simp add: py_in_iff_sublist sublist_append)

lemma py_in_append_left [intro]: "py_in n t \<Longrightarrow> py_in n (h @ t)"
  by (simp add: py_in_iff_sublist sublist_append)

lemma py_getitem_Some [simp]: "map_of d k = Some v \<Longrightarrow> py_getitem d k = Inr v"
  by (simp add: py_getitem_def)

lemma py_getitem_None [simp]: "map_of d k = None \<Longrightarrow> py_getitem d k = Inl KeyError"
  by (simp add: py_getitem_def)

lemma py_has_key_map_of: "py_has_key d k \<longleftrightarrow> map_of d k \<noteq> None"
  by (simp add: py_has_key_def map_of_eq_None_iff)

lemma py_index_get_ok [simp]: "i < length xs \<Longrightarrow> py_index_get xs i = Inr (xs ! i)"
  by (simp add: py_index_get_def)

lemma py_index_get_out [simp]: "length xs \<le> i \<Longrightarrow> py_index_get xs i = Inl IndexError"
  by (simp add: py_index_get_def)

lemma py_list_index_distinct:
  "distinct xs \<Longrightarrow> i < length xs \<Longrightarrow> py_list_index xs (xs ! i) = Inr i"
proof (induction xs arbitrary: i)
  case Nil
  then show ?case by simp
next
  case (Cons y ys)
  then show ?case
    by (cases i) auto
qed

lemma py_list_index_Inr: "py_list_index xs x = Inr i \<Longrightarrow> i < length xs \<and> xs ! i = x"
  by (induction xs arbitrary: i) (auto split: if_splits sum.splits elim: py_then.elims)

lemma or_raise_Inr [simp]: "or_raise (Inr a) s f = f a"
  by (simp add: or_raise_def)

lemma or_raise_Inl [simp]: "or_raise (Inl e) s f = Raised e s"
  by (simp add: or_raise_def)

lemma then_do_Continue_iff:
  "then_do r f = Continue s' \<longleftrightarrow> (\<exists>s. r = Continue s \<and> f s = Continue s')"
  by (cases r) auto

lemma then_do_Rerun_iff:
  "then_do r f = Rerun s' \<longleftrightarrow> r = Rerun s' \<or> (\<exists>s. r = Continue s \<and> f s = Rerun s')"
  by (cases r) auto

lemma no_rerun_simps [simp]:
  "no_rerun (Continue s)" "no_rerun (Raised e s)" "\<not> no_rerun (Rerun s)"
  by (simp_all add: no_rerun_def)

lemma no_rerun_then_do [intro]:
  "no_rerun r \<Longrightarrow> (\<And>s. no_rerun (f s)) \<Longrightarrow> no_rerun (then_do r f)"
  by (cases r) (simp_all add: no_rerun_def)

lemma no_rerun_or_raise [intro]:
  "(\<And>a. no_rerun (f a)) \<Longrightarrow> no_rerun (or_raise x s f)"
  by (cases x) simp_all

end
