(* ===== verification/Catalog.thy ===== *)
theory Catalog
  imports Prelude
begin

text \<open>
  The static content of the application (src/app.py): the \<open>LANGUAGES\<close>
  dictionary of vocabulary lists and cultural tips (lines 124--170), the
  tongue twisters and common phrases of the pronunciation page, and the
  question bank of the cultural quiz. Each dictionary is an association list in
  the source's insertion order; strings are UTF-8 byte strings, with the
  accented letters spelt out by the abbreviations below.
\<close>

section \<open>UTF-8 encodings of the non-ASCII letters of the content\<close>

abbreviation inv_excl :: pystr where "inv_excl \<equiv> [CHR 0xC2, CHR 0xA1]"
abbreviation inv_quest :: pystr where "inv_quest \<equiv> [CHR 0xC2, CHR 0xBF]"
abbreviation sz :: pystr where "sz \<equiv> [CHR 0xC3, CHR 0x9F]"
abbreviation a_grave :: pystr where "a_grave \<equiv> [CHR 0xC3, CHR 0xA0]"
abbreviation a_acute :: pystr where "a_acute \<equiv> [CHR 0xC3, CHR 0xA1]"
abbreviation a_circ :: pystr where "a_circ \<equiv> [CHR 0xC3, CHR 0xA2]"
abbreviation a_uml :: pystr where "a_uml \<equiv> [CHR 0xC3, CHR 0xA4]"
abbreviation e_grave :: pystr where "e_grave \<equiv> [CHR 0xC3, CHR 0xA8]"
abbreviation e_acute :: pystr where "e_acute \<equiv> [CHR 0xC3, CHR 0xA9]"
abbreviation i_acute :: pystr where "i_acute \<equiv> [CHR 0xC3, CHR 0xAD]"
abbreviation i_circ :: pystr where "i_circ \<equiv> [CHR 0xC3, CHR 0xAE]"
abbreviation o_acute :: pystr where "o_acute \<equiv> [CHR 0xC3, CHR 0xB3]"
abbreviation o_uml :: pystr where "o_uml \<equiv> [CHR 0xC3, CHR 0xB6]"
abbreviation u_grave :: pystr where "u_grave \<equiv> [CHR 0xC3, CHR 0xB9]"
abbreviation u_circ :: pystr where "u_circ \<equiv> [CHR 0xC3, CHR 0xBB]"
abbreviation u_uml :: pystr where "u_uml \<equiv> [CHR 0xC3, CHR 0xBC]"
abbreviation oe_lig :: pystr where "oe_lig \<equiv> [CHR 0xC5, CHR 0x93]"

section \<open>The LANGUAGES dictionary\<close>

type_synonym language_data = "(pystr \<times> pystr list) list"

definition spanish_data :: language_data where
  "spanish_data =
    [(''greetings'', [''Hola'', ''Buenos d'' @ i_acute @ ''as'', ''Buenas tardes'', ''Buenas noches'']),
     (''basics'', [''Por favor'', ''Gracias'', ''De nada'', ''Perd'' @ o_acute @ ''n'', ''Lo siento'']),
     (''questions'',
       [inv_quest @ ''C'' @ o_acute @ ''mo est'' @ a_acute @ ''s?'',
        inv_quest @ ''C'' @ o_acute @ ''mo te llamas?'',
        inv_quest @ ''D'' @ o_acute @ ''nde vives?'',
        inv_quest @ ''Qu'' @ e_acute @ '' haces?'']),
     (''family'', [''madre'', ''padre'', ''hermano'', ''hermana'', ''hijo'', ''hija'']),
     (''numbers'', [''uno'', ''dos'', ''tres'', ''cuatro'', ''cinco'', ''seis'', ''siete'', ''ocho'',
                    ''nueve'', ''diez'']),
     (''colors'', [''rojo'', ''azul'', ''verde'', ''amarillo'', ''negro'', ''blanco'', ''rosa'', ''naranja'']),
     (''food'', [''comida'', ''agua'', ''pan'', ''leche'', ''carne'', ''pollo'', ''pescado'', ''verduras'']),
     (''cultural_tips'',
       [''In Spanish-speaking countries, it'' @ [apos] @ ''s common to greet with a kiss on the cheek or a hug, even in business settings.'',
        ''The siesta tradition is still observed in many Spanish-speaking countries, with businesses closing from 2-4 PM.'',
        ''Family gatherings are extremely important in Hispanic culture, often lasting several hours with multiple generations present.'',
        ''Punctuality varies by country - in some places, arriving 15-30 minutes late is considered normal for social events.''])]"

definition french_data :: language_data where
  "french_data =
    [(''greetings'', [''Bonjour'', ''Bonsoir'', ''Salut'', ''Bonne nuit'']),
     (''basics'', [''S'' @ [apos] @ ''il vous pla'' @ i_circ @ ''t'', ''Merci'', ''De rien'', ''Pardon'', ''Excusez-moi'']),
     (''questions'', [''Comment allez-vous?'', ''Comment vous appelez-vous?'', ''O'' @ u_grave @ '' habitez-vous?'']),
     (''family'', [''m'' @ e_grave @ ''re'', ''p'' @ e_grave @ ''re'', ''fr'' @ e_grave @ ''re'', ''s'' @ oe_lig @ ''ur'',
                   ''fils'', ''fille'']),
     (''numbers'', [''un'', ''deux'', ''trois'', ''quatre'', ''cinq'', ''six'', ''sept'', ''huit'', ''neuf'', ''dix'']),
     (''colors'', [''rouge'', ''bleu'', ''vert'', ''jaune'', ''noir'', ''blanc'', ''rose'', ''orange'']),
     (''food'', [''nourriture'', ''eau'', ''pain'', ''lait'', ''viande'', ''poulet'', ''poisson'', ''l'' @ e_acute @ ''gumes'']),
     (''cultural_tips'',
       [''French people value proper greetings - always say '' @ [apos] @ ''Bonjour'' @ [apos] @ '' when entering shops or meeting someone.'',
        ''Lunch is sacred in France, typically lasting 1-2 hours with multiple courses.'',
        ''The French appreciate when foreigners attempt to speak French, even if imperfect.'',
        ''Tipping is not mandatory in France as service is included, but rounding up is appreciated.''])]"

definition german_data :: language_data where
  "german_data =
    [(''greetings'', [''Guten Tag'', ''Guten Morgen'', ''Guten Abend'', ''Gute Nacht'']),
     (''basics'', [''Bitte'', ''Danke'', ''Bitte sch'' @ o_uml @ ''n'', ''Entschuldigung'', ''Es tut mir leid'']),
     (''questions'', [''Wie geht es Ihnen?'', ''Wie hei'' @ sz @ ''en Sie?'', ''Wo wohnen Sie?'']),
     (''family'', [''Mutter'', ''Vater'', ''Bruder'', ''Schwester'', ''Sohn'', ''Tochter'']),
     (''numbers'', [''eins'', ''zwei'', ''drei'', ''vier'', ''f'' @ u_uml @ ''nf'', ''sechs'', ''sieben'', ''acht'',
                    ''neun'', ''zehn'']),
     (''colors'', [''rot'', ''blau'', ''gr'' @ u_uml @ ''n'', ''gelb'', ''schwarz'', ''wei'' @ sz, ''rosa'', ''orange'']),
     (''food'', [''Essen'', ''Wasser'', ''Brot'', ''Milch'', ''Fleisch'', ''Huhn'', ''Fisch'', ''Gem'' @ u_uml @ ''se'']),
     (''cultural_tips'',
       [''Germans value punctuality highly - being late is considered disrespectful.'',
        ''Direct communication is preferred in German culture - beating around the bush is uncommon.'',
        ''Sunday is a day of rest in Germany - most shops are closed and loud activities are avoided.'',
        ''Germans often separate work and personal life strictly - don'' @ [apos] @ ''t be offended by formal interactions.''])]"

definition LANGUAGES :: "(pystr \<times> language_data) list" where
  "LANGUAGES = [(''Spanish'', spanish_data), (''French'', french_data), (''German'', german_data)]"

section \<open>Content local to the pages\<close>

text \<open>The tongue twisters of the pronunciation page (lines 719--735).\<close>

definition twisters :: "(pystr \<times> pystr list) list" where
  "twisters =
    [(''Spanish'', [''Tres tristes tigres tragaban trigo en un trigal'', ''El perro de San Roque no tiene rabo'',
                    ''Pablito clav'' @ o_acute @ '' un clavito'']),
     (''French'', [''Les chaussettes de l'' @ [apos] @ ''archiduchesse'', ''Un chasseur sachant chasser'',
                   ''Ces six saucissons-ci sont si secs'']),
     (''German'', [''Fischers Fritz fischt frische Fische'', ''Brautkleid bleibt Brautkleid'', ''Zehn zahme Ziegen''])]"

text \<open>The common phrases of the pronunciation page (lines 681--690).\<close>

definition phrases :: "pystr list" where
  "phrases =
    [''Hello, how are you?'', ''Thank you very much'', ''Where is the bathroom?'',
     ''I don'' @ [apos] @ ''t understand'', ''Can you help me?'', ''What time is it?'',
     ''I'' @ [apos] @ ''m sorry'', ''Excuse me'']"

text \<open>A question of the cultural quiz: the dictionary of lines 842--847.\<close>

record quiz_question =
  question :: pystr
  options :: "pystr list"
  correct :: nat
  explanation :: pystr

definition quiz_questions :: "(pystr \<times> quiz_question list) list" where
  "quiz_questions =
    [(''Spanish'',
       [\<lparr>question = ''What time do people typically eat dinner in Spain?'',
         options = [''6 PM'', ''8 PM'', ''10 PM'', ''12 AM''], correct = 2,
         explanation = ''In Spain, dinner is typically eaten very late, often around 10 PM or later.''\<rparr>,
        \<lparr>question = ''What is the appropriate greeting in most Spanish-speaking countries?'',
         options = [''Handshake'', ''Bow'', ''Kiss on cheek'', ''Wave''], correct = 2,
         explanation = ''A kiss on the cheek (or air kiss) is common, even in business settings.''\<rparr>]),
     (''French'',
       [\<lparr>question = ''What should you always do when entering a French shop?'',
         options = [''Smile and wave'', ''Say '' @ [apos] @ ''Bonjour'' @ [apos], ''Nod silently'',
                    ''Ask for help immediately''], correct = 1,
         explanation = ''Always greet with '' @ [apos] @ ''Bonjour'' @ [apos] @ '' - it'' @ [apos] @ ''s considered rude not to greet in France.''\<rparr>,
        \<lparr>question = ''How long is a typical French lunch break?'',
         options = [''30 minutes'', ''1 hour'', ''1-2 hours'', ''3 hours''], correct = 2,
         explanation = ''French lunch breaks are typically 1-2 hours, reflecting the importance of meals.''\<rparr>]),
     (''German'',
       [\<lparr>question = ''How important is punctuality in German culture?'',
         options = [''Not important'', ''Somewhat important'', ''Very important'', ''Only for business''], correct = 2,
         explanation = ''Punctuality is extremely important in German culture and being late is considered disrespectful.''\<rparr>,
        \<lparr>question = ''What happens to most German shops on Sundays?'',
         options = [''Open as usual'', ''Close early'', ''Most are closed'', ''Only food shops open''], correct = 2,
         explanation = ''Most shops in Germany are closed on Sundays as it'' @ [apos] @ ''s considered a day of rest.''\<rparr>])]"

end
