(* ===== verification/Progress.thy ===== *)
theory Progress
  imports Catalog
begin

text \<open>
  The learner's progress model: the \<open>user_profile\<close> dictionary that
  src/app.py keeps in \<open>st.session_state\<close> (lines 97--112), the level score
  and the adaptive difficulty derived from it (lines 193--212), and the pure
  read-outs of the progress-analytics page: the achievement table
  (lines 1008--1021) and the recommendation (lines 997--1003).
\<close>

section \<open>The profile\<close>

record profile =
  name :: pystr
  native_language :: pystr
  target_language :: pystr
  level :: pystr
  daily_goal :: nat
  interests :: "pystr list"
  streak :: nat
  total_points :: nat
  lessons_completed :: nat
  conversations_had :: nat
  pronunciation_scores :: "int list"
  vocabulary_mastered :: "pystr list"
  last_login :: pystr

text \<open>The profile created on the first run; \<open>now\<close> is \<open>datetime.now().isoformat()\<close>.\<close>

definition initial_profile :: "pystr \<Rightarrow> profile" where
  "initial_profile now =
     \<lparr>name = '''', native_language = ''English'', target_language = ''Spanish'',
      level = ''Beginner'', daily_goal = 20, interests = [], streak = 0, total_points = 0,
      lessons_completed = 0, conversations_had = 0, pronunciation_scores = [],
      vocabulary_mastered = [], last_login = now\<rparr>"

section \<open>Level score and adaptive difficulty\<close>

definition get_user_level_score :: "profile \<Rightarrow> nat" where
  "get_user_level_score p =
     lessons_completed p * 10 + conversations_had p * 15 +
     length (vocabulary_mastered p) * 5 + total_points p"

datatype difficulty = Beginner | Intermediate | Advanced

definition get_adaptive_difficulty :: "profile \<Rightarrow> difficulty" where
  "get_adaptive_difficulty p =
     (let score = get_user_level_score p
      in if score < 100 then Beginner
         else if score < 300 then Intermediate
         else Advanced)"

text \<open>The tiers are ordered from Beginner to Advanced.\<close>

fun difficulty_rank :: "difficulty \<Rightarrow> nat" where
  "difficulty_rank Beginner = 0"
| "difficulty_rank Intermediate = 1"
| "difficulty_rank Advanced = 2"

instantiation difficulty :: linorder
begin

definition less_eq_difficulty :: "difficulty \<Rightarrow> difficulty \<Rightarrow> bool" where
  "less_eq_difficulty a b = (difficulty_rank a \<le> difficulty_rank b)"

definition less_difficulty :: "difficulty \<Rightarrow> difficulty \<Rightarrow> bool" where
  "less_difficulty a b = (difficulty_rank a < difficulty_rank b)"

instance
proof
  fix a b c :: difficulty
  show "(a < b) = (a \<le> b \<and> \<not> b \<le> a)"
    by (auto simp: less_eq_difficulty_def less_difficulty_def)
  show "a \<le> a" by (simp add: less_eq_difficulty_def)
  show "a \<le> b \<Longrightarrow> b \<le> c \<Longrightarrow> a \<le> c" by (simp add: less_eq_difficulty_def)
  show "a \<le> b \<Longrightarrow> b \<le> a \<Longrightarrow> a = b"
    by (cases a; cases b) (simp_all add: less_eq_difficulty_def)
  show "a \<le> b \<or> b \<le> a" by (auto simp: less_eq_difficulty_def)
qed

end

section \<open>Achievements and recommendation\<close>

record achievement =
  ach_name :: pystr
  description :: pystr
  unlocked :: bool

definition achievements :: "profile \<Rightarrow> achievement list" where
  "achievements p =
    [\<lparr>ach_name = ''First Steps'', description = ''Complete your first lesson'',
      unlocked = (lessons_completed p \<ge> 1)\<rparr>,
     \<lparr>ach_name = ''Chatterbox'', description = ''Have 5 conversations'',
      unlocked = (conversations_had p \<ge> 5)\<rparr>,
     \<lparr>ach_name = ''Word Master'', description = ''Master 20 vocabulary words'',
      unlocked = (length (vocabulary_mastered p) \<ge> 20)\<rparr>,
     \<lparr>ach_name = ''Pronunciation Pro'', description = ''Score 90+ on pronunciation'',
      unlocked = list_ex (\<lambda>score. score \<ge> 90) (pronunciation_scores p)\<rparr>,
     \<lparr>ach_name = ''Streak Keeper'', description = ''Maintain a 7-day streak'',
      unlocked = (streak p \<ge> 7)\<rparr>,
     \<lparr>ach_name = ''Point Collector'', description = ''Earn 500 total points'',
      unlocked = (total_points p \<ge> 500)\<rparr>]"

text \<open>The names the analytics page shows with a trophy (the loop of lines 1017--1021).\<close>

definition unlocked_badges :: "profile \<Rightarrow> pystr list" where
  "unlocked_badges p = map ach_name (filter unlocked (achievements p))"

text \<open>The three recommendation messages of lines 997--1003, by their thresholds.\<close>

datatype recommendation = FocusOnFoundation | TryChallengingPractice | ContinueAdvanced

definition recommendation_for :: "profile \<Rightarrow> recommendation" where
  "recommendation_for p =
     (let score = get_user_level_score p
      in if score < 50 then FocusOnFoundation
         else if score < 150 then TryChallengingPractice
         else ContinueAdvanced)"

section \<open>Lemmas\<close>

lemma difficulty_Beginner_iff:
  "get_adaptive_difficulty p = Beginner \<longleftrightarrow> get_user_level_score p < 100"
  by (simp add: get_adaptive_difficulty_def Let_def)

lemma difficulty_Intermediate_iff:
  "get_adaptive_difficulty p = Intermediate \<longleftrightarrow>
     100 \<le> get_user_level_score p \<and> get_user_level_score p < 300"
  by (simp add: get_adaptive_difficulty_def Let_def)

lemma difficulty_Advanced_iff:
  "get_adaptive_difficulty p = Advanced \<longleftrightarrow> 300 \<le> get_user_level_score p"
  by (simp add: get_adaptive_difficulty_def Let_def)

lemmas difficulty_iffs =
  difficulty_Beginner_iff difficulty_Intermediate_iff difficulty_Advanced_iff

lemma get_adaptive_difficulty_mono:
  assumes "get_user_level_score p \<le> get_user_level_score q"
  shows "get_adaptive_difficulty p \<le> get_adaptive_difficulty q"
  using assms
  by (simp add: get_adaptive_difficulty_def Let_def less_eq_difficulty_def)

lemma level_score_mono:
  assumes "lessons_completed p \<le> lessons_completed q"
    and "conversations_had p \<le> conversations_had q"
    and "length (vocabulary_mastered p) \<le> length (vocabulary_mastered q)"
    and "total_points p \<le> total_points q"
  shows "get_user_level_score p \<le> get_user_level_score q"
  using assms by (simp add: get_user_level_score_def add_mono)

lemma unlocked_badges_iff:
  "x \<in> set (unlocked_badges p) \<longleftrightarrow>
     (x = ''First Steps'' \<and> 1 \<le> lessons_completed p) \<or>
     (x = ''Chatterbox'' \<and> 5 \<le> conversations_had p) \<or>
     (x = ''Word Master'' \<and> 20 \<le> length (vocabulary_mastered p)) \<or>
     (x = ''Pronunciation Pro'' \<and> (\<exists>score \<in> set (pronunciation_scores p). 90 \<le> score)) \<or>
     (x = ''Streak Keeper'' \<and> 7 \<le> streak p) \<or>
     (x = ''Point Collector'' \<and> 500 \<le> total_points p)"
  by (auto simp: unlocked_badges_def achievements_def list_ex_iff)

end
