(* ===== verification/Scoring.thy ===== *)
theory Scoring
  imports Progress
begin

text \<open>
  The pronunciation score simulator (\<open>simulate_pronunciation_score\<close>,
  lines 214--224) and the four reward tables that turn a score into points:
  the conversation page's (lines 465--473), individual words (660--675),
  common phrases (711--716) and tongue twisters (757--766). The random draw
  \<open>random.randint(70, 100)\<close> is the argument \<open>base_score\<close>; a valid draw
  lies in the closed interval [70, 100].
\<close>

section \<open>The simulator\<close>

definition valid_base_score :: "int \<Rightarrow> bool" where
  "valid_base_score b \<longleftrightarrow> 70 \<le> b \<and> b \<le> 100"

definition simulate_pronunciation_score :: "profile \<Rightarrow> int \<Rightarrow> int" where
  "simulate_pronunciation_score p base_score =
     (let user_level = get_adaptive_difficulty p
      in if user_level = Beginner then max 60 (base_score - 10)
         else if user_level = Intermediate then max 70 (base_score - 5)
         else base_score)"

section \<open>Reward tables\<close>

definition conversation_pronunciation_points :: "int \<Rightarrow> nat" where
  "conversation_pronunciation_points score =
     (if score \<ge> 85 then 15 else if score \<ge> 70 then 10 else 5)"

definition word_pronunciation_points :: "int \<Rightarrow> nat" where
  "word_pronunciation_points score =
     (if score \<ge> 90 then 25 else if score \<ge> 80 then 20 else if score \<ge> 70 then 15
      else if score \<ge> 60 then 10 else 5)"

definition phrase_pronunciation_points :: "int \<Rightarrow> nat" where
  "phrase_pronunciation_points score = (if score \<ge> 85 then 30 else 15)"

definition twister_pronunciation_points :: "int \<Rightarrow> nat" where
  "twister_pronunciation_points score =
     (if score \<ge> 90 then 50 else if score \<ge> 80 then 40 else 25)"

section \<open>Lemmas\<close>

lemma simulate_Beginner:
  "get_adaptive_difficulty p = Beginner \<Longrightarrow>
     simulate_pronunciation_score p b = max 60 (b - 10)"
  by (simp add: simulate_pronunciation_score_def)

lemma simulate_Intermediate:
  "get_adaptive_difficulty p = Intermediate \<Longrightarrow>
     simulate_pronunciation_score p b = max 70 (b - 5)"
  by (simp add: simulate_pronunciation_score_def)

lemma simulate_Advanced:
  "get_adaptive_difficulty p = Advanced \<Longrightarrow> simulate_pronunciation_score p b = b"
  by (simp add: simulate_pronunciation_score_def)

lemmas simulate_tiers = simulate_Beginner simulate_Intermediate simulate_Advanced

lemma simulate_cases:
  obtains "get_adaptive_difficulty p = Beginner" "simulate_pronunciation_score p b = max 60 (b - 10)"
  | "get_adaptive_difficulty p = Intermediate" "simulate_pronunciation_score p b = max 70 (b - 5)"
  | "get_adaptive_difficulty p = Advanced" "simulate_pronunciation_score p b = b"
  by (cases "get_adaptive_difficulty p") (auto simp: simulate_tiers)

lemma simulate_range:
  assumes "valid_base_score b"
  shows "60 \<le> simulate_pronunciation_score p b \<and> simulate_pronunciation_score p b \<le> 100"
  using assms by (cases p b rule: simulate_cases) (auto simp: valid_base_score_def)

lemma simulate_mono:
  "b \<le> b' \<Longrightarrow> simulate_pronunciation_score p b \<le> simulate_pronunciation_score p b'"
  by (cases p b rule: simulate_cases; cases p b' rule: simulate_cases) auto

lemma simulate_top_draw: "90 \<le> simulate_pronunciation_score p 100"
  by (cases p "100::int" rule: simulate_cases) simp_all

lemma word_points_at_least_10:
  "60 \<le> score \<Longrightarrow> 10 \<le> word_pronunciation_points score"
  by (simp add: word_pronunciation_points_def)

text \<open>
  C11: The simulator's scores, over the whole range of \<open>random.randint(70, 100)\<close>,
  are exactly the spec's tier ranges: [60, 90] for a beginner, [70, 95] for an
  intermediate learner and [70, 100] for an advanced one.
\<close>

theorem simulate_image:
  "simulate_pronunciation_score p ` {70..100} =
     (case get_adaptive_difficulty p of
        Beginner \<Rightarrow> {60..90} | Intermediate \<Rightarrow> {70..95} | Advanced \<Rightarrow> {70..100})"
proof (cases "get_adaptive_difficulty p")
  case Beginner
  then have "simulate_pronunciation_score p ` {70..100} = (\<lambda>b. max 60 (b - 10)) ` {70..100}"
    by (simp add: simulate_Beginner)
  also have "\<dots> = {60..90}"
  proof
    show "(\<lambda>b. max 60 (b - 10)) ` {70..100::int} \<subseteq> {60..90}" by auto
    show "{60..90} \<subseteq> (\<lambda>b. max 60 (b - 10)) ` {70..100::int}"
    proof
      fix x :: int assume "x \<in> {60..90}"
      then show "x \<in> (\<lambda>b. max 60 (b - 10)) ` {70..100}"
        by (intro image_eqI [of _ _ "x + 10"]) auto
    qed
  qed
  finally show ?thesis using Beginner by simp
next
  case Intermediate
  then have "simulate_pronunciation_score p ` {70..100} = (\<lambda>b. max 70 (b - 5)) ` {70..100}"
    by (simp add: simulate_Intermediate)
  also have "\<dots> = {70..95}"
  proof
    show "(\<lambda>b. max 70 (b - 5)) ` {70..100::int} \<subseteq> {70..95}" by auto
    show "{70..95} \<subseteq> (\<lambda>b. max 70 (b - 5)) ` {70..100::int}"
    proof
      fix x :: int assume "x \<in> {70..95}"
      then show "x \<in> (\<lambda>b. max 70 (b - 5)) ` {70..100}"
        by (intro image_eqI [of _ _ "x + 5"]) auto
    qed
  qed
  finally show ?thesis using Intermediate by simp
next
  case Advanced
  then show ?thesis by (simp add: simulate_Advanced)
qed

text \<open>
  C12: The last band of the word-practice reward table (\<open>else: += 5\<close>, lines
  672--674) is dead code: every simulated score is at least 60, so a recorded
  word earns 10, 15, 20 or 25 points.
\<close>

theorem word_reward_at_least_10:
  assumes "valid_base_score b"
  shows "word_pronunciation_points (simulate_pronunciation_score p b) \<in> {10, 15, 20, 25}"
  using simulate_range [OF assms, of p]
  by (auto simp: word_pronunciation_points_def)

theorem word_reward_at_least_10_witness:
  "word_pronunciation_points (simulate_pronunciation_score (initial_profile ''t'') 70) \<in> {10, 15, 20, 25}"
proof -
  have h: "valid_base_score 70" by (simp add: valid_base_score_def)
  show ?thesis by (rule word_reward_at_least_10 [OF h])
qed

end
