(* ===== verification/Intent.thy ===== *)
theory Intent
  imports Catalog
begin

text \<open>
  The conversation partner's reply (\<open>get_ai_response\<close>, lines 226--257):
  case-insensitive keyword matching of the learner's message against three
  keyword lists, in the order greeting, food, directions, and a lookup of the
  scripted reply in the per-language \<open>responses\<close> dictionary, which raises
  \<open>KeyError\<close> for a target language it does not list. \<open>classify\<close> names
  the intent the code's \<open>if\<close> chain selects. The specification's classifier
  \<open>spec_classify\<close> is stated independently, as an ordered list of keyword
  buckets scanned for the first case-insensitive match, and
  \<open>get_ai_response\<close> is shown to implement it.
\<close>

section \<open>Keywords and replies\<close>

definition greeting_keywords :: "pystr list" where
  "greeting_keywords = [''hello'', ''hi'', ''hola'', ''bonjour'', ''hallo'']"

definition food_keywords :: "pystr list" where
  "food_keywords = [''food'', ''eat'', ''comida'', ''manger'', ''essen'']"

definition direction_keywords :: "pystr list" where
  "direction_keywords = [''direction'', ''where'', ''d'' @ o_acute @ ''nde'', ''o'' @ u_grave, ''wo'']"

text \<open>\<open>any(word in user_input.lower() for word in words)\<close>\<close>

definition mentions_any :: "pystr list \<Rightarrow> pystr \<Rightarrow> bool" where
  "mentions_any words user_input = list_ex (\<lambda>word. py_in word (py_lower user_input)) words"

definition ai_responses :: "(pystr \<times> (pystr \<times> pystr) list) list" where
  "ai_responses =
    [(''Spanish'',
       [(''greeting'', inv_excl @ ''Hola! Me llamo Mar'' @ i_acute @ ''a. '' @ inv_quest @ ''C'' @ o_acute @ ''mo te llamas?''),
        (''food'', inv_excl @ ''Excelente elecci'' @ o_acute @ ''n! '' @ inv_quest @ ''Te gustar'' @ i_acute @ ''a algo de beber tambi'' @ e_acute @ ''n?''),
        (''directions'', inv_excl @ ''Por supuesto! La estaci'' @ o_acute @ ''n de tren est'' @ a_acute @ '' a dos cuadras hacia el norte.''),
        (''general'', ''Interesante. '' @ inv_quest @ ''Puedes contarme m'' @ a_acute @ ''s sobre eso?'')]),
     (''French'',
       [(''greeting'', ''Bonjour! Je m'' @ [apos] @ ''appelle Marie. Comment vous appelez-vous?''),
        (''food'', ''Excellent choix! Voulez-vous quelque chose '' @ a_grave @ '' boire aussi?''),
        (''directions'', ''Bien s'' @ u_circ @ ''r! La gare est '' @ a_grave @ '' deux p'' @ a_circ @ ''t'' @ e_acute @ ''s de maisons vers le nord.''),
        (''general'', ''C'' @ [apos] @ ''est int'' @ e_acute @ ''ressant. Pouvez-vous m'' @ [apos] @ ''en dire plus?'')]),
     (''German'',
       [(''greeting'', ''Hallo! Ich hei'' @ sz @ ''e Maria. Wie hei'' @ sz @ ''en Sie?''),
        (''food'', ''Ausgezeichnete Wahl! M'' @ o_uml @ ''chten Sie auch etwas trinken?''),
        (''directions'', ''Nat'' @ u_uml @ ''rlich! Der Bahnhof ist zwei Blocks nach Norden.''),
        (''general'', ''Das ist interessant. K'' @ o_uml @ ''nnen Sie mir mehr dar'' @ u_uml @ ''ber erz'' @ a_uml @ ''hlen?'')])]"

text \<open>
  \<open>scenario_context\<close> is passed by the caller and not used by the body,
  as in the source.
\<close>

definition get_ai_response :: "pystr \<Rightarrow> pystr \<Rightarrow> pystr \<Rightarrow> py_error + pystr" where
  "get_ai_response user_input scenario_context language =
     (if mentions_any greeting_keywords user_input
      then py_then (py_getitem ai_responses language) (\<lambda>r. py_getitem r ''greeting'')
      else if mentions_any food_keywords user_input
      then py_then (py_getitem ai_responses language) (\<lambda>r. py_getitem r ''food'')
      else if mentions_any direction_keywords user_input
      then py_then (py_getitem ai_responses language) (\<lambda>r. py_getitem r ''directions'')
      else py_then (py_getitem ai_responses language) (\<lambda>r. py_getitem r ''general''))"

section \<open>The intent the code selects\<close>

datatype intent = Greeting | Food | Directions | General

definition classify :: "pystr \<Rightarrow> intent" where
  "classify u =
     (if mentions_any greeting_keywords u then Greeting
      else if mentions_any food_keywords u then Food
      else if mentions_any direction_keywords u then Directions
      else General)"

fun intent_key :: "intent \<Rightarrow> pystr" where
  "intent_key Greeting = ''greeting''"
| "intent_key Food = ''food''"
| "intent_key Directions = ''directions''"
| "intent_key General = ''general''"

text \<open>
  The classifier of the specification (section 4.4): four ordered keyword
  buckets checked by case-insensitive substring match, the first bucket that
  matches wins, the fallback when none does; the reply is the target
  language's scripted reply for the matched intent, and a language without a
  reply table is refused (\<open>ContentUnavailable\<close>, here the \<open>KeyError\<close> the
  code raises).
\<close>

definition spec_buckets :: "(intent \<times> pystr list) list" where
  "spec_buckets = [(Greeting, greeting_keywords), (Food, food_keywords), (Directions, direction_keywords)]"

definition spec_matches :: "pystr \<Rightarrow> pystr \<Rightarrow> bool" where
  "spec_matches keyword utterance \<longleftrightarrow> sublist (py_lower keyword) (py_lower utterance)"

definition spec_classify :: "pystr \<Rightarrow> intent" where
  "spec_classify u =
     (case find (\<lambda>(i, kws). list_ex (\<lambda>k. spec_matches k u) kws) spec_buckets of
        Some (i, kws) \<Rightarrow> i
      | None \<Rightarrow> General)"

definition spec_reply :: "pystr \<Rightarrow> pystr \<Rightarrow> py_error + pystr" where
  "spec_reply lang u =
     (case map_of ai_responses lang of
        None \<Rightarrow> Inl KeyError
      | Some replies \<Rightarrow> py_getitem replies (intent_key (spec_classify u)))"

section \<open>Lemmas\<close>

lemma classify_Greeting_iff: "classify u = Greeting \<longleftrightarrow> mentions_any greeting_keywords u"
  by (simp add: classify_def)

lemma classify_Food_iff:
  "classify u = Food \<longleftrightarrow> \<not> mentions_any greeting_keywords u \<and> mentions_any food_keywords u"
  by (simp add: classify_def)

lemma classify_Directions_iff:
  "classify u = Directions \<longleftrightarrow>
     \<not> mentions_any greeting_keywords u \<and> \<not> mentions_any food_keywords u \<and>
     mentions_any direction_keywords u"
  by (simp add: classify_def)

lemma ai_responses_keys [simp]:
  "map fst ai_responses = [''Spanish'', ''French'', ''German'']"
  by (simp add: ai_responses_def)

lemma ai_responses_complete:
  assumes "map_of ai_responses lang = Some r"
  shows "\<exists>reply. map_of r (intent_key i) = Some reply"
  using assms by (cases i) (auto simp: ai_responses_def split: if_splits)

lemma get_ai_response_supported:
  assumes "map_of ai_responses lang = Some r"
  shows "\<exists>reply. get_ai_response u c lang = Inr reply"
proof -
  obtain g f d x where "map_of r ''greeting'' = Some g" "map_of r ''food'' = Some f"
    "map_of r ''directions'' = Some d" "map_of r ''general'' = Some x"
    using ai_responses_complete [OF assms, of Greeting] ai_responses_complete [OF assms, of Food]
      ai_responses_complete [OF assms, of Directions] ai_responses_complete [OF assms, of General]
    by auto
  then show ?thesis using assms by (simp add: get_ai_response_def)
qed

text \<open>
  C8: The greeting bucket is checked first: a message that contains a greeting
  keyword gets the greeting reply of a supported language, whatever other
  keywords it contains.
\<close>

theorem greeting_has_priority:
  assumes "mentions_any greeting_keywords u" and "map_of ai_responses lang = Some r"
  shows "get_ai_response u ctx lang = py_getitem r ''greeting''"
  using assms by (simp add: get_ai_response_def)

theorem greeting_has_priority_witness:
  "mentions_any food_keywords ''hello, food please'' \<and>
   get_ai_response ''hello, food please'' '''' ''Spanish'' =
     py_getitem (the (map_of ai_responses ''Spanish'')) ''greeting''"
proof -
  have h1: "mentions_any greeting_keywords ''hello, food please''"
    by (simp add: mentions_any_def greeting_keywords_def lower_eval)
  have h2: "map_of ai_responses ''Spanish'' = Some (the (map_of ai_responses ''Spanish''))"
    by (simp add: ai_responses_def)
  have h3: "mentions_any food_keywords ''hello, food please''"
    by (simp add: mentions_any_def food_keywords_def lower_eval)
  show ?thesis using h3 greeting_has_priority [OF h1 h2] by (rule conjI)
qed

lemma keywords_lower_case:
  "list_all (\<lambda>k. py_lower k = k) (greeting_keywords @ food_keywords @ direction_keywords)"
  by (simp add: greeting_keywords_def food_keywords_def direction_keywords_def lower_eval)

lemma mentions_any_spec:
  assumes "list_all (\<lambda>k. py_lower k = k) ws"
  shows "mentions_any ws u \<longleftrightarrow> list_ex (\<lambda>k. spec_matches k u) ws"
  using assms by (induction ws) (auto simp: mentions_any_def spec_matches_def py_in_iff_sublist)

text \<open>
  C7: \<open>get_ai_response\<close> implements the specification's classifier: the
  code lowers only the message, and matches it against every keyword with
  \<open>in\<close> in the fixed order greeting, food, directions; this is the spec's
  case-insensitive first-match classification because every keyword is
  already lower case. Unsupported languages fail, supported ones reply with
  the matched intent's reply.
\<close>

theorem get_ai_response_refines_spec:
  "get_ai_response u ctx lang = spec_reply lang u"
proof -
  have g: "mentions_any greeting_keywords u \<longleftrightarrow> list_ex (\<lambda>k. spec_matches k u) greeting_keywords"
    and f: "mentions_any food_keywords u \<longleftrightarrow> list_ex (\<lambda>k. spec_matches k u) food_keywords"
    and d: "mentions_any direction_keywords u \<longleftrightarrow> list_ex (\<lambda>k. spec_matches k u) direction_keywords"
    using keywords_lower_case by (simp_all add: mentions_any_spec)
  show ?thesis
    by (cases "map_of ai_responses lang")
       (simp_all add: get_ai_response_def spec_reply_def spec_classify_def spec_buckets_def g f d)
qed

end
