(* ===== verification/Quiz.thy ===== *)
theory Quiz
  imports Catalog "HOL-Library.Multiset"
begin

text \<open>
  The two quizzes of src/app.py and the quiz state machine of the
  specification. The vocabulary quiz (lines 548--588) keeps a dictionary
  \<open>current_quiz\<close> with the sampled words, the question cursor and the score;
  the cultural quiz (lines 885--928) keeps three session keys, a started flag,
  a score and a cursor. Both refine the abstract machine \<open>quiz_step\<close>
  (NotStarted, InProgress, Completed) through the views \<open>vocab_view\<close>
  and \<open>cultural_view\<close>.
\<close>

section \<open>Vocabulary quiz\<close>

record vocab_quiz =
  quiz_words :: "pystr list"
  current_question :: nat
  quiz_score :: nat
  answers :: "pystr list"

text \<open>
  \<open>random.sample(words, min(5, len(words)))\<close> picks that many distinct
  positions of \<open>words\<close>: its results are the lists of that length whose
  multiset of elements is contained in that of \<open>words\<close>.
\<close>

definition valid_sample :: "pystr list \<Rightarrow> pystr list \<Rightarrow> bool" where
  "valid_sample words quiz_sample \<longleftrightarrow>
     length quiz_sample = min 5 (length words) \<and> mset quiz_sample \<subseteq># mset words"

definition start_vocab_quiz :: "pystr list \<Rightarrow> vocab_quiz" where
  "start_vocab_quiz quiz_sample =
     \<lparr>quiz_words = quiz_sample, current_question = 0, quiz_score = 0, answers = []\<rparr>"

definition vocab_quiz_options :: "pystr list" where
  "vocab_quiz_options = [''Option A'', ''Option B'', ''Option C'', ''Correct Answer'']"

text \<open>\<open>random.shuffle(options)\<close> yields a permutation of the four labels.\<close>

definition valid_shuffle :: "pystr list \<Rightarrow> bool" where
  "valid_shuffle opts \<longleftrightarrow> mset opts = mset vocab_quiz_options"

text \<open>
  The \<open>Submit Answer\<close> handler (lines 571--580): the quiz part and the
  points it awards.
\<close>

definition submit_vocab_answer :: "pystr \<Rightarrow> vocab_quiz \<Rightarrow> vocab_quiz \<times> nat" where
  "submit_vocab_answer answer quiz =
     (let is_correct = (answer = ''Correct Answer'');
          quiz1 = (if is_correct then quiz\<lparr>quiz_score := quiz_score quiz + 1\<rparr> else quiz)
      in (quiz1\<lparr>current_question := current_question quiz1 + 1\<rparr>, if is_correct then 5 else 2))"

section \<open>Cultural quiz\<close>

record cultural_quiz =
  cultural_quiz_started :: bool
  cultural_quiz_score :: nat
  cultural_quiz_question :: nat

definition cultural_quiz_init :: cultural_quiz where
  "cultural_quiz_init =
     \<lparr>cultural_quiz_started = False, cultural_quiz_score = 0, cultural_quiz_question = 0\<rparr>"

definition start_cultural_quiz :: "cultural_quiz \<Rightarrow> cultural_quiz" where
  "start_cultural_quiz q =
     q\<lparr>cultural_quiz_started := True, cultural_quiz_score := 0, cultural_quiz_question := 0\<rparr>"

text \<open>
  The \<open>Submit Answer\<close> handler (lines 909--917):
  \<open>current_q['options'].index(answer)\<close> raises \<open>ValueError\<close> for an answer
  that is not an option.
\<close>

definition submit_cultural_answer ::
  "quiz_question \<Rightarrow> pystr \<Rightarrow> cultural_quiz \<Rightarrow> py_error + (cultural_quiz \<times> nat)" where
  "submit_cultural_answer current_q answer q =
     py_then (py_list_index (options current_q) answer) (\<lambda>i.
       let ok = (i = correct current_q);
           q1 = (if ok then q\<lparr>cultural_quiz_score := cultural_quiz_score q + 1\<rparr> else q)
       in Inr (q1\<lparr>cultural_quiz_question := cultural_quiz_question q1 + 1\<rparr>, if ok then 15 else 5))"

definition restart_cultural_quiz :: "cultural_quiz \<Rightarrow> cultural_quiz" where
  "restart_cultural_quiz q = q\<lparr>cultural_quiz_started := False\<rparr>"

section \<open>The abstract quiz machine of the specification\<close>

datatype quiz_phase = NotStarted | InProgress | Completed

record quiz_view =
  phase :: quiz_phase
  cursor :: nat
  view_score :: nat

datatype quiz_cmd = QStart | QSubmit bool | QRestart

definition not_started_view :: quiz_view where
  "not_started_view = \<lparr>phase = NotStarted, cursor = 0, view_score = 0\<rparr>"

text \<open>
  One step of the machine over \<open>n\<close> questions; \<open>None\<close> is the
  specification's \<open>InvalidState\<close> (a start with no questions, a submit
  outside \<open>InProgress\<close>, a restart before completion).
\<close>

fun quiz_step :: "nat \<Rightarrow> quiz_cmd \<Rightarrow> quiz_view \<Rightarrow> quiz_view option" where
  "quiz_step n QStart v =
     (if n = 0 then None else Some \<lparr>phase = InProgress, cursor = 0, view_score = 0\<rparr>)"
| "quiz_step n (QSubmit ok) v =
     (if phase v \<noteq> InProgress then None
      else Some \<lparr>phase = (if Suc (cursor v) = n then Completed else InProgress),
                 cursor = Suc (cursor v),
                 view_score = view_score v + (if ok then 1 else 0)\<rparr>)"
| "quiz_step n QRestart v = (if phase v = Completed then Some not_started_view else None)"

definition vocab_view :: "vocab_quiz option \<Rightarrow> quiz_view" where
  "vocab_view qo =
     (case qo of None \<Rightarrow> not_started_view
      | Some q \<Rightarrow> \<lparr>phase = (if current_question q < length (quiz_words q) then InProgress else Completed),
                   cursor = current_question q, view_score = quiz_score q\<rparr>)"

definition cultural_view :: "nat \<Rightarrow> cultural_quiz \<Rightarrow> quiz_view" where
  "cultural_view n q =
     (if \<not> cultural_quiz_started q then not_started_view
      else \<lparr>phase = (if cultural_quiz_question q < n then InProgress else Completed),
            cursor = cultural_quiz_question q, view_score = cultural_quiz_score q\<rparr>)"

section \<open>Lemmas\<close>

lemma submit_vocab_answer_simps:
  "submit_vocab_answer answer quiz =
     (quiz\<lparr>quiz_score := quiz_score quiz + (if answer = ''Correct Answer'' then 1 else 0),
           current_question := Suc (current_question quiz)\<rparr>,
      if answer = ''Correct Answer'' then 5 else 2)"
  by (simp add: submit_vocab_answer_def Let_def)

lemma submit_cultural_answer_distinct:
  assumes "distinct (options current_q)" and "i < length (options current_q)"
  shows "submit_cultural_answer current_q (options current_q ! i) q =
           Inr (q\<lparr>cultural_quiz_score := cultural_quiz_score q + (if i = correct current_q then 1 else 0),
                  cultural_quiz_question := Suc (cultural_quiz_question q)\<rparr>,
                if i = correct current_q then 15 else 5)"
  using assms by (simp add: submit_cultural_answer_def py_list_index_distinct Let_def)

lemma valid_sample_length_pos:
  "words \<noteq> [] \<Longrightarrow> valid_sample words s \<Longrightarrow> 0 < length s"
  by (simp add: valid_sample_def)

lemma valid_sample_set:
  "valid_sample words s \<Longrightarrow> set s \<subseteq> set words"
  by (metis valid_sample_def mset_subset_eqD set_mset_mset subsetI)

lemma valid_sample_take: "valid_sample ws (take 5 ws)"
proof -
  have "mset ws = mset (take 5 ws) + mset (drop 5 ws)"
    by (metis append_take_drop_id mset_append)
  then have "mset (take 5 ws) \<subseteq># mset ws" by (metis mset_subset_eq_add_left)
  then show ?thesis by (simp add: valid_sample_def)
qed

lemma valid_shuffle_set:
  "valid_shuffle opts \<Longrightarrow> set opts = set vocab_quiz_options"
  by (metis valid_shuffle_def set_mset_mset)

lemma valid_shuffle_length:
  assumes "valid_shuffle opts"
  shows "length opts = 4"
proof -
  have "size (mset opts) = size (mset vocab_quiz_options)"
    using assms by (simp add: valid_shuffle_def)
  then show ?thesis by (simp add: vocab_quiz_options_def)
qed

end
