(* ===== verification/Session.thy ===== *)
theory Session
  imports Scoring Intent Quiz
begin

text \<open>
  The state that src/app.py keeps in \<open>st.session_state\<close> (initialised in
  lines 96--121 and by the pages on first use) and the input of one script run:
  the values of the widgets (for a selection widget, the position of the
  selected option), the button that was clicked (Streamlit reports at
  most one click per run), and the values the run draws from \<open>random\<close> and
  \<open>datetime\<close>.
\<close>

section \<open>Session state\<close>

datatype msg_role = User | Assistant

record message =
  role :: msg_role
  content :: pystr

text \<open>An entry of \<open>pronunciation_feedback\<close>: its key names what was practised.\<close>

datatype practice_subject = WordSubject pystr | PhraseSubject pystr | TwisterSubject pystr

record attempt =
  subject :: practice_subject
  attempt_score :: int
  timestamp :: pystr

text \<open>
  \<open>category_index\<close> holds the keys \<open>current_<category>_index\<close>;
  \<open>current_quiz\<close> is the vocabulary quiz (absent after \<open>del\<close>);
  \<open>cultural_quiz\<close> the three \<open>cultural_quiz_*\<close> keys, created together.
  The key \<open>current_lesson\<close> is set to \<open>None\<close> and never read, and is left out.
\<close>

record session =
  user_profile :: profile
  conversation_history :: "message list"
  pronunciation_feedback :: "attempt list"
  category_index :: "pystr \<Rightarrow> nat option"
  current_quiz :: "vocab_quiz option"
  cultural_quiz :: "cultural_quiz option"

definition initial_session :: "pystr \<Rightarrow> session" where
  "initial_session now =
     \<lparr>user_profile = initial_profile now, conversation_history = [], pronunciation_feedback = [],
      category_index = Map.empty, current_quiz = None, cultural_quiz = None\<rparr>"

text \<open>\<open>st.session_state.user_profile['total_points'] += n\<close>\<close>

definition add_points :: "nat \<Rightarrow> session \<Rightarrow> session" where
  "add_points n s = s\<lparr>user_profile := (user_profile s)\<lparr>total_points := total_points (user_profile s) + n\<rparr>\<rparr>"

section \<open>Input of a script run\<close>

datatype page =
    Dashboard | ProfileSetup | ConversationPractice | VocabularyLessons
  | PronunciationPractice | CulturalInsights | ProgressAnalytics

datatype button =
    SaveProfile | SendMessage | PracticePronunciation | ClearChat
  | PreviousWord | NextWord | MarkAsMastered | StartQuiz | SubmitAnswer | StartNewQuiz
  | RecordPronunciation | ListenToPronunciation | RecordPhrase | ChallengeAccepted
  | StartCulturalQuiz | SubmitCulturalAnswer | RestartQuiz

record widgets =
  w_page :: page
  w_name :: pystr
  w_native_language :: nat
  w_target_language :: nat
  w_level :: nat
  w_daily_goal :: nat
  w_interests :: "pystr list"
  w_scenario :: nat
  w_message :: pystr
  w_category :: nat
  w_quiz_choice :: nat
  w_practice_type :: nat
  w_practice_word :: nat
  w_practice_phrase :: nat
  w_twister :: nat
  w_cultural_choice :: nat

record draws =
  d_base_score :: int
  d_quiz_sample :: "pystr list"
  d_quiz_options :: "pystr list"
  d_daily_minutes :: int
  d_now :: pystr

record event =
  ev_widgets :: widgets
  ev_click :: "button option"
  ev_draws :: draws

text \<open>\<open>st.button(label)\<close> is true in the run caused by its click.\<close>

definition clicked :: "event \<Rightarrow> button \<Rightarrow> bool" where
  "clicked ev b \<longleftrightarrow> ev_click ev = Some b"

text \<open>The run that \<open>st.rerun()\<close> starts: the same widget values, no click.\<close>

definition no_click :: "event \<Rightarrow> event" where
  "no_click ev = ev\<lparr>ev_click := None\<rparr>"

text \<open>
  \<open>st.selectbox(label, opts)\<close> and \<open>st.radio(label, opts)\<close> return the
  option at the position the browser reports for the widget; the position is
  read against the options of the current run.
\<close>

definition st_selectbox :: "'a list \<Rightarrow> nat \<Rightarrow> 'a" where
  "st_selectbox opts i = opts ! i"

definition st_radio :: "'a list \<Rightarrow> nat \<Rightarrow> 'a" where
  "st_radio opts i = opts ! i"

section \<open>Concrete inputs for the examples\<close>

text \<open>
  Widget values and draws of a run on the dashboard with nothing typed and
  nothing chosen yet; the examples of the development update the fields they
  need.
\<close>

definition demo_widgets :: widgets where
  "demo_widgets =
     \<lparr>w_page = Dashboard, w_name = '''', w_native_language = 0, w_target_language = 0,
      w_level = 0, w_daily_goal = 20, w_interests = [], w_scenario = 0, w_message = '''',
      w_category = 0, w_quiz_choice = 0, w_practice_type = 0, w_practice_word = 0,
      w_practice_phrase = 0, w_twister = 0, w_cultural_choice = 0\<rparr>"

definition demo_draws :: draws where
  "demo_draws =
     \<lparr>d_base_score = 85, d_quiz_sample = [], d_quiz_options = vocab_quiz_options,
      d_daily_minutes = 5, d_now = ''2025-01-01T00:00:00''\<rparr>"

definition demo_event :: "button option \<Rightarrow> widgets \<Rightarrow> event" where
  "demo_event b w = \<lparr>ev_widgets = w, ev_click = b, ev_draws = demo_draws\<rparr>"

section \<open>Lemmas\<close>

lemma clicked_no_click [simp]: "\<not> clicked (no_click ev) b"
  by (simp add: clicked_def no_click_def)

lemma no_click_widgets [simp]: "ev_widgets (no_click ev) = ev_widgets ev"
  by (simp add: no_click_def)

lemma no_click_draws [simp]: "ev_draws (no_click ev) = ev_draws ev"
  by (simp add: no_click_def)

lemma add_points_profile [simp]:
  "user_profile (add_points n s) = (user_profile s)\<lparr>total_points := total_points (user_profile s) + n\<rparr>"
  by (simp add: add_points_def)

lemma add_points_other [simp]:
  "conversation_history (add_points n s) = conversation_history s"
  "pronunciation_feedback (add_points n s) = pronunciation_feedback s"
  "category_index (add_points n s) = category_index s"
  "current_quiz (add_points n s) = current_quiz s"
  "cultural_quiz (add_points n s) = cultural_quiz s"
  by (simp_all add: add_points_def)

end
