(* ===== verification/ConversationPage.thy ===== *)
theory ConversationPage
  imports Session
begin

text \<open>
  The conversation page (\<open>create_conversation_practice\<close>, lines 388--478):
  the scenario list of the current difficulty (\<open>CONVERSATION_SCENARIOS\<close>,
  lines 172--191) and the three buttons \<open>Send Message\<close>,
  \<open>Practice Pronunciation\<close> and \<open>Clear Chat\<close>, run in the order the
  script reaches them.
\<close>

section \<open>Scenarios\<close>

fun conversation_scenarios :: "difficulty \<Rightarrow> (pystr \<times> pystr) list" where
  "conversation_scenarios Beginner =
    [(''Meeting Someone New'', ''You'' @ [apos] @ ''re at a coffee shop and want to introduce yourself to someone.''),
     (''Ordering Food'', ''You'' @ [apos] @ ''re at a restaurant and need to order your meal.''),
     (''Asking for Directions'', ''You'' @ [apos] @ ''re lost and need to ask someone for help getting to the train station.''),
     (''Shopping'', ''You'' @ [apos] @ ''re at a store and want to buy clothes.'')]"
| "conversation_scenarios Intermediate =
    [(''Job Interview'', ''You'' @ [apos] @ ''re interviewing for a position at a local company.''),
     (''Making Plans'', ''You'' @ [apos] @ ''re trying to coordinate weekend plans with friends.''),
     (''Discussing Hobbies'', ''You'' @ [apos] @ ''re at a social gathering talking about your interests.''),
     (''Traveling'', ''You'' @ [apos] @ ''re at the airport dealing with a flight delay.'')]"
| "conversation_scenarios Advanced =
    [(''Business Meeting'', ''You'' @ [apos] @ ''re presenting a proposal to international clients.''),
     (''Cultural Discussion'', ''You'' @ [apos] @ ''re debating cultural differences with native speakers.''),
     (''Problem Solving'', ''You'' @ [apos] @ ''re working with a team to solve a complex issue.''),
     (''Academic Discussion'', ''You'' @ [apos] @ ''re participating in a university seminar.'')]"

text \<open>\<open>next(s['context'] for s in scenarios if s['scenario'] == selected_scenario)\<close>\<close>

definition scenario_context_of :: "(pystr \<times> pystr) list \<Rightarrow> pystr \<Rightarrow> py_error + pystr" where
  "scenario_context_of scenarios selected_scenario =
     (case find (\<lambda>sc. fst sc = selected_scenario) scenarios of
        None \<Rightarrow> Inl StopIteration
      | Some sc \<Rightarrow> Inr (snd sc))"

section \<open>The buttons\<close>

text \<open>
  \<open>Send Message\<close> (lines 437--456). The learner's message is appended before
  the reply is computed, so a \<open>KeyError\<close> from \<open>get_ai_response\<close> leaves it
  in the transcript.
\<close>

definition send_message :: "event \<Rightarrow> pystr \<Rightarrow> session \<Rightarrow> session outcome" where
  "send_message ev scenario_context s =
     (let user_input = w_message (ev_widgets ev);
          target_language = target_language (user_profile s)
      in if clicked ev SendMessage \<and> user_input \<noteq> [] then
           (let s1 = s\<lparr>conversation_history :=
                        conversation_history s @ [\<lparr>role = User, content = user_input\<rparr>]\<rparr>
            in or_raise (get_ai_response user_input scenario_context target_language) s1
                 (\<lambda>ai_response.
                    let s2 = s1\<lparr>conversation_history :=
                                 conversation_history s1 @ [\<lparr>role = Assistant, content = ai_response\<rparr>]\<rparr>;
                        s3 = s2\<lparr>user_profile := (user_profile s2)\<lparr>conversations_had :=
                                 conversations_had (user_profile s2) + 1\<rparr>\<rparr>
                    in Rerun (add_points 10 s3)))
         else Continue s)"

text \<open>\<open>Practice Pronunciation\<close> (lines 459--473); no rerun.\<close>

definition practice_pronunciation :: "event \<Rightarrow> session \<Rightarrow> session outcome" where
  "practice_pronunciation ev s =
     (if clicked ev PracticePronunciation \<and> w_message (ev_widgets ev) \<noteq> [] then
        (let score = simulate_pronunciation_score (user_profile s) (d_base_score (ev_draws ev));
             s1 = s\<lparr>user_profile := (user_profile s)\<lparr>pronunciation_scores :=
                      pronunciation_scores (user_profile s) @ [score]\<rparr>\<rparr>
         in Continue (add_points (conversation_pronunciation_points score) s1))
      else Continue s)"

text \<open>\<open>Clear Chat\<close> (lines 476--478).\<close>

definition clear_chat :: "event \<Rightarrow> session \<Rightarrow> session outcome" where
  "clear_chat ev s =
     (if clicked ev ClearChat then Rerun (s\<lparr>conversation_history := []\<rparr>) else Continue s)"

definition create_conversation_practice :: "event \<Rightarrow> session \<Rightarrow> session outcome" where
  "create_conversation_practice ev s =
     (let user_level = get_adaptive_difficulty (user_profile s);
          scenarios = conversation_scenarios user_level;
          selected_scenario = st_selectbox (map fst scenarios) (w_scenario (ev_widgets ev))
      in or_raise (scenario_context_of scenarios selected_scenario) s
           (\<lambda>scenario_context.
              then_do (send_message ev scenario_context s)
                (\<lambda>s1. then_do (practice_pronunciation ev s1) (clear_chat ev))))"

section \<open>Lemmas\<close>

lemma scenario_context_of_member:
  "selected \<in> fst ` set scenarios \<Longrightarrow> \<exists>c. scenario_context_of scenarios selected = Inr c"
  by (induction scenarios) (auto simp: scenario_context_of_def)

lemma length_conversation_scenarios [simp]: "length (conversation_scenarios d) = 4"
  by (cases d) simp_all

lemma selected_scenario_context:
  assumes "i < 4"
  shows "\<exists>c. scenario_context_of (conversation_scenarios d)
                (st_selectbox (map fst (conversation_scenarios d)) i) = Inr c"
  using assms by (intro scenario_context_of_member) (simp add: st_selectbox_def)

lemma clicked_unique: "clicked ev a \<Longrightarrow> clicked ev b \<longleftrightarrow> a = b"
  by (auto simp: clicked_def)

lemma practice_pronunciation_idle:
  "\<not> clicked ev PracticePronunciation \<Longrightarrow> practice_pronunciation ev s = Continue s"
  by (simp add: practice_pronunciation_def)

lemma clear_chat_idle: "\<not> clicked ev ClearChat \<Longrightarrow> clear_chat ev s = Continue s"
  by (simp add: clear_chat_def)

lemma send_message_idle: "\<not> clicked ev SendMessage \<Longrightarrow> send_message ev c s = Continue s"
  by (simp add: send_message_def)

lemmas conversation_buttons_idle =
  practice_pronunciation_idle clear_chat_idle send_message_idle

lemma conversation_page_send:
  assumes "clicked ev SendMessage"
    and "scenario_context_of (conversation_scenarios (get_adaptive_difficulty (user_profile s)))
           (st_selectbox (map fst (conversation_scenarios (get_adaptive_difficulty (user_profile s))))
              (w_scenario (ev_widgets ev))) = Inr c"
  shows "create_conversation_practice ev s = send_message ev c s"
proof -
  have "\<not> clicked ev PracticePronunciation" "\<not> clicked ev ClearChat"
    using assms(1) by (simp_all add: clicked_unique)
  then show ?thesis
    using assms(2)
    by (cases "send_message ev c s")
       (simp_all add: create_conversation_practice_def conversation_buttons_idle)
qed

lemma conversation_no_click: "no_rerun (create_conversation_practice (no_click ev) s)"
  unfolding create_conversation_practice_def
  by (auto simp: Let_def conversation_buttons_idle)

lemma conversation_page_no_click:
  assumes "w_scenario (ev_widgets ev) < 4"
  shows "create_conversation_practice (no_click ev) s = Continue s"
proof -
  obtain c where "scenario_context_of (conversation_scenarios (get_adaptive_difficulty (user_profile s)))
      (st_selectbox (map fst (conversation_scenarios (get_adaptive_difficulty (user_profile s))))
         (w_scenario (ev_widgets (no_click ev)))) = Inr c"
    using selected_scenario_context assms by auto
  then show ?thesis
    by (simp add: create_conversation_practice_def conversation_buttons_idle Let_def)
qed

text \<open>
  C5: For a target language without a reply table (the profile page offers
  Italian, Portuguese, Chinese and Japanese), \<open>Send Message\<close> appends the
  learner's message to the transcript and then raises \<open>KeyError\<close>: the
  transcript keeps a message without a reply, and neither the conversation
  counter nor the points change.
\<close>

theorem send_unsupported_language:
  assumes "clicked ev SendMessage" and "w_message (ev_widgets ev) = u" and "u \<noteq> []"
    and "w_scenario (ev_widgets ev) < 4"
    and "map_of ai_responses (target_language (user_profile s)) = None"
  shows "create_conversation_practice ev s =
           Raised KeyError (s\<lparr>conversation_history := conversation_history s @ [\<lparr>role = User, content = u\<rparr>]\<rparr>)"
proof -
  obtain c where c: "scenario_context_of (conversation_scenarios (get_adaptive_difficulty (user_profile s)))
      (st_selectbox (map fst (conversation_scenarios (get_adaptive_difficulty (user_profile s))))
         (w_scenario (ev_widgets ev))) = Inr c"
    using selected_scenario_context [OF assms(4)] by blast
  have "create_conversation_practice ev s = send_message ev c s"
    using assms(1) c by (rule conversation_page_send)
  then show ?thesis
    using assms(1-3,5) by (simp add: send_message_def get_ai_response_def Let_def)
qed

theorem send_unsupported_language_witness:
  "create_conversation_practice (demo_event (Some SendMessage) (demo_widgets\<lparr>w_message := ''hello''\<rparr>))
      ((initial_session ''t'')\<lparr>user_profile := (initial_profile ''t'')\<lparr>target_language := ''Italian''\<rparr>\<rparr>) =
   Raised KeyError (((initial_session ''t'')\<lparr>user_profile := (initial_profile ''t'')\<lparr>target_language := ''Italian''\<rparr>\<rparr>)
      \<lparr>conversation_history := conversation_history ((initial_session ''t'')\<lparr>user_profile :=
         (initial_profile ''t'')\<lparr>target_language := ''Italian''\<rparr>\<rparr>) @ [\<lparr>role = User, content = ''hello''\<rparr>]\<rparr>)"
proof -
  let ?ev = "demo_event (Some SendMessage) (demo_widgets\<lparr>w_message := ''hello''\<rparr>)"
  let ?s = "(initial_session ''t'')\<lparr>user_profile := (initial_profile ''t'')\<lparr>target_language := ''Italian''\<rparr>\<rparr>"
  have h1: "clicked ?ev SendMessage" by (simp add: clicked_def demo_event_def)
  have h2: "w_message (ev_widgets ?ev) = ''hello''" by (simp add: demo_event_def)
  have h3: "''hello'' \<noteq> []" by simp
  have h4: "w_scenario (ev_widgets ?ev) < 4" by (simp add: demo_event_def demo_widgets_def)
  have h5: "map_of ai_responses (target_language (user_profile ?s)) = None"
    by (simp add: ai_responses_def)
  show ?thesis by (rule send_unsupported_language [OF h1 h2 h3 h4 h5])
qed

text \<open>
  C6: On a supported target language, \<open>Send Message\<close> with a non-empty
  message appends the message and the scripted reply of its intent to the
  transcript, counts one conversation, awards 10 points and reruns the script.
\<close>

theorem send_message_replies:
  assumes "clicked ev SendMessage" and "w_message (ev_widgets ev) = u" and "u \<noteq> []"
    and "w_scenario (ev_widgets ev) < 4"
    and "map_of ai_responses (target_language (user_profile s)) = Some r"
  shows "\<exists>reply. map_of r (intent_key (classify u)) = Some reply \<and>
           create_conversation_practice ev s =
             Rerun (add_points 10
               (s\<lparr>conversation_history := conversation_history s @
                     [\<lparr>role = User, content = u\<rparr>, \<lparr>role = Assistant, content = reply\<rparr>],
                  user_profile := (user_profile s)\<lparr>conversations_had :=
                    conversations_had (user_profile s) + 1\<rparr>\<rparr>))"
proof -
  obtain c where c: "scenario_context_of (conversation_scenarios (get_adaptive_difficulty (user_profile s)))
      (st_selectbox (map fst (conversation_scenarios (get_adaptive_difficulty (user_profile s))))
         (w_scenario (ev_widgets ev))) = Inr c"
    using selected_scenario_context [OF assms(4)] by blast
  obtain reply where reply: "map_of r (intent_key (classify u)) = Some reply"
    using assms(5) ai_responses_complete by blast
  have "get_ai_response u c (target_language (user_profile s)) = Inr reply"
    using assms(5) reply by (cases "classify u") (auto simp: get_ai_response_def classify_def)
  then have "create_conversation_practice ev s =
             Rerun (add_points 10
               (s\<lparr>conversation_history := conversation_history s @
                     [\<lparr>role = User, content = u\<rparr>, \<lparr>role = Assistant, content = reply\<rparr>],
                  user_profile := (user_profile s)\<lparr>conversations_had :=
                    conversations_had (user_profile s) + 1\<rparr>\<rparr>))"
    using conversation_page_send [OF assms(1) c] assms(1-3)
    by (simp add: send_message_def Let_def)
  with reply show ?thesis by blast
qed

theorem send_message_replies_witness:
  "\<exists>reply. map_of (the (map_of ai_responses ''Spanish'')) (intent_key (classify ''hello, food please'')) = Some reply \<and>
     create_conversation_practice (demo_event (Some SendMessage) (demo_widgets\<lparr>w_message := ''hello, food please''\<rparr>))
       (initial_session ''t'') =
     Rerun (add_points 10
       ((initial_session ''t'')\<lparr>conversation_history := conversation_history (initial_session ''t'') @
           [\<lparr>role = User, content = ''hello, food please''\<rparr>, \<lparr>role = Assistant, content = reply\<rparr>],
         user_profile := (user_profile (initial_session ''t''))\<lparr>conversations_had :=
           conversations_had (user_profile (initial_session ''t'')) + 1\<rparr>\<rparr>))"
proof -
  let ?ev = "demo_event (Some SendMessage) (demo_widgets\<lparr>w_message := ''hello, food please''\<rparr>)"
  have h1: "clicked ?ev SendMessage" by (simp add: clicked_def demo_event_def)
  have h2: "w_message (ev_widgets ?ev) = ''hello, food please''" by (simp add: demo_event_def)
  have h3: "''hello, food please'' \<noteq> []" by simp
  have h4: "w_scenario (ev_widgets ?ev) < 4" by (simp add: demo_event_def demo_widgets_def)
  have h5: "map_of ai_responses (target_language (user_profile (initial_session ''t''))) =
              Some (the (map_of ai_responses ''Spanish''))"
    by (simp add: initial_session_def initial_profile_def ai_responses_def)
  show ?thesis by (rule send_message_replies [OF h1 h2 h3 h4 h5])
qed

text \<open>
  C9: \<open>Clear Chat\<close> empties the transcript and changes nothing else: the
  profile, with its conversation counter and points, is left as it was.
\<close>

theorem clear_chat_keeps_progress:
  assumes "clicked ev ClearChat" and "w_scenario (ev_widgets ev) < 4"
  shows "create_conversation_practice ev s = Rerun (s\<lparr>conversation_history := []\<rparr>)"
proof -
  obtain c where c: "scenario_context_of (conversation_scenarios (get_adaptive_difficulty (user_profile s)))
      (st_selectbox (map fst (conversation_scenarios (get_adaptive_difficulty (user_profile s))))
         (w_scenario (ev_widgets ev))) = Inr c"
    using selected_scenario_context [OF assms(2)] by blast
  have "\<not> clicked ev SendMessage" "\<not> clicked ev PracticePronunciation"
    using assms(1) by (simp_all add: clicked_unique)
  then show ?thesis
    using assms(1) c
    by (simp add: create_conversation_practice_def conversation_buttons_idle clear_chat_def)
qed

theorem clear_chat_keeps_progress_witness:
  "create_conversation_practice (demo_event (Some ClearChat) demo_widgets) (initial_session ''t'') =
     Rerun ((initial_session ''t'')\<lparr>conversation_history := []\<rparr>)"
proof -
  have h1: "clicked (demo_event (Some ClearChat) demo_widgets) ClearChat" by (simp add: clicked_def demo_event_def)
  have h2: "w_scenario (ev_widgets (demo_event (Some ClearChat) demo_widgets)) < 4"
    by (simp add: demo_event_def demo_widgets_def)
  show ?thesis by (rule clear_chat_keeps_progress [OF h1 h2])
qed

end
