(* ===== verification/VocabularyPage.thy ===== *)
theory VocabularyPage
  imports Session Complex_Main
begin

text \<open>
  The vocabulary page (\<open>create_vocabulary_lessons\<close>, lines 480--604): the
  category selector, the flashcard of the category's current word with the
  buttons \<open>Previous\<close>, \<open>Next\<close> and \<open>Mark as Mastered\<close> (the index of each
  category is kept in the session key \<open>current_<category>_index\<close>), the
  vocabulary quiz, and the progress bar. The page's blocks run in the order
  of the script; a rerun or an exception ends the run.
\<close>

section \<open>The blocks of the page\<close>

text \<open>\<open>categories = list(language_data.keys())\<close> without \<open>cultural_tips\<close> (lines 493--495).\<close>

definition vocab_categories :: "language_data \<Rightarrow> pystr list" where
  "vocab_categories language_data =
     (let categories = map fst language_data
      in if ''cultural_tips'' \<in> set categories then remove1 ''cultural_tips'' categories
         else categories)"

text \<open>\<open>Previous\<close>, disabled on the first word (lines 525--528).\<close>

definition flashcard_previous :: "event \<Rightarrow> pystr \<Rightarrow> nat \<Rightarrow> session \<Rightarrow> session outcome" where
  "flashcard_previous ev category current_index s =
     (if clicked ev PreviousWord \<and> \<not> current_index = 0
      then Rerun (s\<lparr>category_index := (category_index s)(category \<mapsto> max 0 (current_index - 1))\<rparr>)
      else Continue s)"

text \<open>\<open>Next\<close>, disabled on the last word (lines 530--533).\<close>

definition flashcard_next ::
  "event \<Rightarrow> pystr \<Rightarrow> pystr list \<Rightarrow> nat \<Rightarrow> session \<Rightarrow> session outcome" where
  "flashcard_next ev category words current_index s =
     (if clicked ev NextWord \<and> \<not> current_index = length words - 1
      then Rerun (s\<lparr>category_index :=
             (category_index s)(category \<mapsto> min (length words - 1) (current_index + 1))\<rparr>)
      else Continue s)"

text \<open>\<open>Mark as Mastered\<close> (lines 535--542): a word already mastered is not added again.\<close>

definition mark_mastered :: "event \<Rightarrow> pystr \<Rightarrow> session \<Rightarrow> session outcome" where
  "mark_mastered ev current_word s =
     (if clicked ev MarkAsMastered \<and> current_word \<notin> set (vocabulary_mastered (user_profile s))
      then Continue (add_points 20
             (s\<lparr>user_profile := (user_profile s)\<lparr>vocabulary_mastered :=
                 vocabulary_mastered (user_profile s) @ [current_word]\<rparr>\<rparr>))
      else Continue s)"

text \<open>
  The quiz panel (lines 547--588). \<open>Start Quiz\<close> stores a fresh quiz on the
  sampled words; the options are shuffled anew in every run and the radio's
  position is read against this run's order. Every run that finds the quiz
  completed counts a lesson (line 585), before \<open>Start New Quiz\<close> is looked at.
\<close>

definition vocab_quiz_panel :: "event \<Rightarrow> session \<Rightarrow> session outcome" where
  "vocab_quiz_panel ev s =
     (let s1 = (if clicked ev StartQuiz
                then s\<lparr>current_quiz := Some (start_vocab_quiz (d_quiz_sample (ev_draws ev)))\<rparr>
                else s)
      in case current_quiz s1 of
           None \<Rightarrow> Continue s1
         | Some quiz \<Rightarrow>
             if current_question quiz < length (quiz_words quiz) then
               (if clicked ev SubmitAnswer then
                  (let answer = st_radio (d_quiz_options (ev_draws ev)) (w_quiz_choice (ev_widgets ev));
                       result = submit_vocab_answer answer quiz
                   in Rerun (add_points (snd result) (s1\<lparr>current_quiz := Some (fst result)\<rparr>)))
                else Continue s1)
             else
               (let s2 = s1\<lparr>user_profile := (user_profile s1)\<lparr>lessons_completed :=
                            lessons_completed (user_profile s1) + 1\<rparr>\<rparr>
                in if clicked ev StartNewQuiz then Rerun (s2\<lparr>current_quiz := None\<rparr>)
                   else Continue s2))"

text \<open>
  \<open>st.progress(value)\<close> accepts a float in [0.0, 1.0] and raises
  \<open>StreamlitAPIException\<close> otherwise; the ratio is taken exactly.
\<close>

definition st_progress :: "rat \<Rightarrow> py_error + unit" where
  "st_progress v = (if 0 \<le> v \<and> v \<le> 1 then Inr () else Inl StreamlitAPIException)"

text \<open>The progress bar (lines 590--597); every value of the dictionary is a list.\<close>

definition vocab_progress_panel :: "language_data \<Rightarrow> session \<Rightarrow> session outcome" where
  "vocab_progress_panel language_data s =
     (let mastered_count = length (vocabulary_mastered (user_profile s));
          total_words = sum_list (map (length \<circ> snd) language_data);
          progress = (if total_words > 0 then of_nat mastered_count / of_nat total_words else 0 :: rat)
      in or_raise (st_progress progress) s (\<lambda>_. Continue s))"

section \<open>The page\<close>

definition create_vocabulary_lessons :: "event \<Rightarrow> session \<Rightarrow> session outcome" where
  "create_vocabulary_lessons ev s =
     (let target_language = target_language (user_profile s)
      in if \<not> py_has_key LANGUAGES target_language then Continue s
         else or_raise (py_getitem LANGUAGES target_language) s (\<lambda>language_data.
           let categories = vocab_categories language_data;
               selected_category = st_selectbox categories (w_category (ev_widgets ev))
           in or_raise (py_getitem language_data selected_category) s (\<lambda>words.
             let s1 = (if category_index s selected_category = None
                       then s\<lparr>category_index := (category_index s)(selected_category \<mapsto> 0)\<rparr>
                       else s);
                 current_index = (case category_index s1 selected_category of
                                    None \<Rightarrow> 0 | Some i \<Rightarrow> i)
             in or_raise (py_index_get words current_index) s1 (\<lambda>current_word.
                  then_do (flashcard_previous ev selected_category current_index s1) (\<lambda>s2.
                  then_do (flashcard_next ev selected_category words current_index s2) (\<lambda>s3.
                  then_do (mark_mastered ev current_word s3) (\<lambda>s4.
                  then_do (vocab_quiz_panel ev s4) (vocab_progress_panel language_data))))))))"

section \<open>A concrete interaction\<close>

text \<open>
  A click on the vocabulary page with the Spanish greetings selected; the quiz
  sample is a permutation of the category's four words, the options are not
  shuffled and the learner picks the fourth, \<open>Correct Answer\<close>.
\<close>

definition quiz_pass_event :: "button \<Rightarrow> event" where
  "quiz_pass_event b =
     \<lparr>ev_widgets = demo_widgets\<lparr>w_page := VocabularyLessons, w_quiz_choice := 3\<rparr>,
      ev_click = Some b,
      ev_draws = demo_draws\<lparr>d_quiz_sample := [''Buenas noches'', ''Hola'', ''Buenas tardes'', ''Buenos d'' @ i_acute @ ''as'']\<rparr>\<rparr>"

section \<open>The quiz as the specification's machine\<close>

text \<open>
  The command of the quiz machine that a click issues: \<open>Start Quiz\<close> is
  rendered in every phase (line 548), \<open>Submit Answer\<close> while a question is
  open (line 571) and \<open>Start New Quiz\<close> once the quiz is completed (line
  586); the submitted answer is the option at the radio's position in this
  run's shuffle. The machine's question count is that of the sample drawn on
  \<open>Start Quiz\<close>, or of the quiz in progress.
\<close>

definition vocab_cmd :: "event \<Rightarrow> session \<Rightarrow> quiz_cmd option" where
  "vocab_cmd ev s =
     (if clicked ev StartQuiz then Some QStart
      else case phase (vocab_view (current_quiz s)) of
        NotStarted \<Rightarrow> None
      | InProgress \<Rightarrow>
          if clicked ev SubmitAnswer
          then Some (QSubmit (st_radio (d_quiz_options (ev_draws ev)) (w_quiz_choice (ev_widgets ev)) = ''Correct Answer''))
          else None
      | Completed \<Rightarrow> if clicked ev StartNewQuiz then Some QRestart else None)"

definition vocab_quiz_size :: "event \<Rightarrow> session \<Rightarrow> nat" where
  "vocab_quiz_size ev s =
     (if clicked ev StartQuiz then length (d_quiz_sample (ev_draws ev))
      else case current_quiz s of None \<Rightarrow> 0 | Some q \<Rightarrow> length (quiz_words q))"

section \<open>Lemmas\<close>

lemma vocab_quiz_panel_no_click: "no_rerun (vocab_quiz_panel (no_click ev) s)"
  by (simp add: vocab_quiz_panel_def Let_def split: option.split)

lemma vocab_progress_panel_no_rerun: "no_rerun (vocab_progress_panel ld s)"
  by (auto simp: vocab_progress_panel_def Let_def intro!: no_rerun_or_raise)

lemma flashcards_no_click:
  "flashcard_previous (no_click ev) c i s = Continue s"
  "flashcard_next (no_click ev) c ws i s = Continue s"
  "mark_mastered (no_click ev) w s = Continue s"
  by (simp_all add: flashcard_previous_def flashcard_next_def mark_mastered_def)

lemma vocabulary_no_click: "no_rerun (create_vocabulary_lessons (no_click ev) s)"
  unfolding create_vocabulary_lessons_def
  by (auto simp: Let_def flashcards_no_click vocab_quiz_panel_no_click
      vocab_progress_panel_no_rerun intro!: no_rerun_or_raise no_rerun_then_do)

text \<open>
  C10: Every run that renders a completed vocabulary quiz counts a completed
  lesson, whether it is a rerun, an unrelated interaction on the page, or the
  click on \<open>Start New Quiz\<close>; the spec asks for one count per completion.
\<close>

theorem completed_quiz_counts_every_run:
  assumes "current_quiz s = Some q" and "length (quiz_words q) \<le> current_question q"
    and "\<not> clicked ev StartQuiz"
  shows "lessons_completed (user_profile (outcome_state (vocab_quiz_panel ev s))) =
           Suc (lessons_completed (user_profile s))"
  using assms by (simp add: vocab_quiz_panel_def Let_def)

theorem completed_quiz_counts_every_run_witness:
  "lessons_completed (user_profile (outcome_state (vocab_quiz_panel (demo_event None demo_widgets)
      ((initial_session ''t'')\<lparr>current_quiz := Some \<lparr>quiz_words = [''Hola''], current_question = 1, quiz_score = 1, answers = []\<rparr>\<rparr>)))) =
   Suc (lessons_completed (user_profile ((initial_session ''t'')\<lparr>current_quiz := Some \<lparr>quiz_words = [''Hola''], current_question = 1, quiz_score = 1, answers = []\<rparr>\<rparr>)))"
proof -
  have h1: "current_quiz ((initial_session ''t'')\<lparr>current_quiz := Some \<lparr>quiz_words = [''Hola''], current_question = 1, quiz_score = 1, answers = []\<rparr>\<rparr>) =
     Some \<lparr>quiz_words = [''Hola''], current_question = 1, quiz_score = 1, answers = []\<rparr>" by simp
  have h2: "length (quiz_words \<lparr>quiz_words = [''Hola''], current_question = 1, quiz_score = 1, answers = []\<rparr>)
     \<le> current_question \<lparr>quiz_words = [''Hola''], current_question = 1, quiz_score = 1, answers = []\<rparr>" by simp
  have h3: "\<not> clicked (demo_event None demo_widgets) StartQuiz" by (simp add: clicked_def demo_event_def)
  show ?thesis by (rule completed_quiz_counts_every_run [OF h1 h2 h3])
qed

text \<open>
  C17: The vocabulary quiz refines the specification's quiz machine, with
  one difference of interface: \<open>Start Quiz\<close> is offered in every phase. A run
  whose click is a command moves the quiz's view (phase, cursor, score) as
  \<open>quiz_step\<close> does; any other run leaves it unchanged.
\<close>

theorem vocab_quiz_refines:
  assumes "d_quiz_sample (ev_draws ev) \<noteq> []"
    and "current_quiz s = Some q \<longrightarrow> current_question q \<le> length (quiz_words q)"
  shows "case vocab_cmd ev s of
           None \<Rightarrow> vocab_view (current_quiz (outcome_state (vocab_quiz_panel ev s))) = vocab_view (current_quiz s)
         | Some c \<Rightarrow> quiz_step (vocab_quiz_size ev s) c (vocab_view (current_quiz s))
                     = Some (vocab_view (current_quiz (outcome_state (vocab_quiz_panel ev s))))"
proof (cases "clicked ev StartQuiz")
  case True
  then show ?thesis using assms(1)
    by (simp add: vocab_cmd_def vocab_quiz_size_def vocab_quiz_panel_def vocab_view_def start_vocab_quiz_def
        clicked_def Let_def)
next
  case False
  show ?thesis
  proof (cases "current_quiz s")
    case None
    then show ?thesis using False
      by (simp add: vocab_cmd_def vocab_quiz_panel_def vocab_view_def not_started_view_def Let_def)
  next
    case (Some q)
    then show ?thesis using False assms(2)
      by (auto simp: vocab_cmd_def vocab_quiz_size_def vocab_quiz_panel_def vocab_view_def
          not_started_view_def submit_vocab_answer_simps Let_def)
  qed
qed

theorem vocab_quiz_refines_witness:
  "case vocab_cmd (quiz_pass_event SubmitAnswer) ((initial_session ''t'')\<lparr>current_quiz := Some (start_vocab_quiz [''Hola''])\<rparr>) of
     None \<Rightarrow> vocab_view (current_quiz (outcome_state (vocab_quiz_panel (quiz_pass_event SubmitAnswer) ((initial_session ''t'')\<lparr>current_quiz := Some (start_vocab_quiz [''Hola''])\<rparr>)))) = vocab_view (current_quiz ((initial_session ''t'')\<lparr>current_quiz := Some (start_vocab_quiz [''Hola''])\<rparr>))
   | Some c \<Rightarrow> quiz_step (vocab_quiz_size (quiz_pass_event SubmitAnswer) ((initial_session ''t'')\<lparr>current_quiz := Some (start_vocab_quiz [''Hola''])\<rparr>)) c (vocab_view (current_quiz ((initial_session ''t'')\<lparr>current_quiz := Some (start_vocab_quiz [''Hola''])\<rparr>)))
               = Some (vocab_view (current_quiz (outcome_state (vocab_quiz_panel (quiz_pass_event SubmitAnswer) ((initial_session ''t'')\<lparr>current_quiz := Some (start_vocab_quiz [''Hola''])\<rparr>)))))"
proof -
  have h1: "d_quiz_sample (ev_draws (quiz_pass_event SubmitAnswer)) \<noteq> []" by (simp add: quiz_pass_event_def)
  have h2: "current_quiz ((initial_session ''t'')\<lparr>current_quiz := Some (start_vocab_quiz [''Hola''])\<rparr>) = Some (start_vocab_quiz [''Hola'']) \<longrightarrow>
      current_question (start_vocab_quiz [''Hola'']) \<le> length (quiz_words (start_vocab_quiz [''Hola'']))"
    by (simp add: start_vocab_quiz_def)
  show ?thesis by (rule vocab_quiz_refines [OF h1 h2])
qed

text \<open>
  C18: Whether an answer is judged correct is decided by the shuffle of the
  run of the click, not by the option the learner saw: the options are
  reshuffled on every run (line 567) and the radio's position is read against
  the new order, so for every position there are shuffles under which the
  submission scores and shuffles under which it does not. The spec asks for
  one shuffle per question, fixed for the question's lifetime.
\<close>

theorem vocab_answer_decided_by_reshuffle:
  assumes "current_quiz s = Some q" and "current_question q < length (quiz_words q)"
    and "clicked ev SubmitAnswer" and "w_quiz_choice (ev_widgets ev) < 4"
  shows "\<exists>o1 o2. valid_shuffle o1 \<and> valid_shuffle o2 \<and>
    current_quiz (outcome_state (vocab_quiz_panel (ev\<lparr>ev_draws := (ev_draws ev)\<lparr>d_quiz_options := o1\<rparr>\<rparr>) s))
      = Some (q\<lparr>quiz_score := Suc (quiz_score q), current_question := Suc (current_question q)\<rparr>) \<and>
    current_quiz (outcome_state (vocab_quiz_panel (ev\<lparr>ev_draws := (ev_draws ev)\<lparr>d_quiz_options := o2\<rparr>\<rparr>) s))
      = Some (q\<lparr>current_question := Suc (current_question q)\<rparr>)"
proof -
  define i where "i = w_quiz_choice (ev_widgets ev)"
  have "\<not> clicked ev StartQuiz" using assms(3) by (simp add: clicked_def)
  obtain o1 o2 where o1: "valid_shuffle o1" "o1 ! i = ''Correct Answer''"
    and o2: "valid_shuffle o2" "o2 ! i \<noteq> ''Correct Answer''"
  proof -
    have "i < 4" using assms(4) by (simp add: i_def)
    then consider "i = 0" | "i = 1" | "i = 2" | "i = 3" by arith
    then show ?thesis
    proof cases
      case 1
      then show ?thesis
        by (intro that [of "[''Correct Answer'', ''Option B'', ''Option C'', ''Option A'']" vocab_quiz_options])
           (simp_all add: valid_shuffle_def vocab_quiz_options_def)
    next
      case 2
      then show ?thesis
        by (intro that [of "[''Option A'', ''Correct Answer'', ''Option C'', ''Option B'']" vocab_quiz_options])
           (simp_all add: valid_shuffle_def vocab_quiz_options_def)
    next
      case 3
      then show ?thesis
        by (intro that [of "[''Option A'', ''Option B'', ''Correct Answer'', ''Option C'']" vocab_quiz_options])
           (simp_all add: valid_shuffle_def vocab_quiz_options_def)
    next
      case 4
      then show ?thesis
        by (intro that [of vocab_quiz_options "[''Correct Answer'', ''Option B'', ''Option C'', ''Option A'']"])
           (simp_all add: valid_shuffle_def vocab_quiz_options_def)
    qed
  qed
  show ?thesis
    using o1 o2 assms \<open>\<not> clicked ev StartQuiz\<close>
    by (intro exI [of _ o1] exI [of _ o2])
       (simp add: vocab_quiz_panel_def submit_vocab_answer_simps st_radio_def clicked_def i_def Let_def)
qed

theorem vocab_answer_decided_by_reshuffle_witness:
  "\<exists>o1 o2. valid_shuffle o1 \<and> valid_shuffle o2 \<and>
    current_quiz (outcome_state (vocab_quiz_panel ((quiz_pass_event SubmitAnswer)\<lparr>ev_draws := (ev_draws (quiz_pass_event SubmitAnswer))\<lparr>d_quiz_options := o1\<rparr>\<rparr>) ((initial_session ''t'')\<lparr>current_quiz := Some (start_vocab_quiz [''Hola''])\<rparr>)))
      = Some ((start_vocab_quiz [''Hola''])\<lparr>quiz_score := Suc (quiz_score (start_vocab_quiz [''Hola''])),
                 current_question := Suc (current_question (start_vocab_quiz [''Hola'']))\<rparr>) \<and>
    current_quiz (outcome_state (vocab_quiz_panel ((quiz_pass_event SubmitAnswer)\<lparr>ev_draws := (ev_draws (quiz_pass_event SubmitAnswer))\<lparr>d_quiz_options := o2\<rparr>\<rparr>) ((initial_session ''t'')\<lparr>current_quiz := Some (start_vocab_quiz [''Hola''])\<rparr>)))
      = Some ((start_vocab_quiz [''Hola''])\<lparr>current_question := Suc (current_question (start_vocab_quiz [''Hola'']))\<rparr>)"
proof -
  have h1: "current_quiz ((initial_session ''t'')\<lparr>current_quiz := Some (start_vocab_quiz [''Hola''])\<rparr>) = Some (start_vocab_quiz [''Hola''])" by simp
  have h2: "current_question (start_vocab_quiz [''Hola'']) < length (quiz_words (start_vocab_quiz [''Hola'']))"
    by (simp add: start_vocab_quiz_def)
  have h3: "clicked (quiz_pass_event SubmitAnswer) SubmitAnswer" by (simp add: quiz_pass_event_def clicked_def)
  have h4: "w_quiz_choice (ev_widgets (quiz_pass_event SubmitAnswer)) < 4" by (simp add: quiz_pass_event_def)
  show ?thesis by (rule vocab_answer_decided_by_reshuffle [OF h1 h2 h3 h4])
qed

text \<open>
  C21: A category index that is out of range for the selected category's word
  list makes the page raise \<open>IndexError\<close> at \<open>words[current_index]\<close>
  (line 511), before any button is looked at, whatever is clicked: nothing on
  the page can repair the index while that category is selected.
\<close>

theorem stale_index_raises:
  assumes "map_of LANGUAGES (target_language (user_profile s)) = Some ld"
    and "st_selectbox (vocab_categories ld) (w_category (ev_widgets ev)) = c"
    and "map_of ld c = Some words"
    and "category_index s c = Some i" and "length words \<le> i"
  shows "create_vocabulary_lessons ev s = Raised IndexError s"
  using assms by (simp add: create_vocabulary_lessons_def py_has_key_map_of Let_def)

theorem stale_index_raises_witness:
  "create_vocabulary_lessons (demo_event (Some PreviousWord) (demo_widgets\<lparr>w_category := 2\<rparr>))
     ((initial_session ''t'')\<lparr>user_profile := (initial_profile ''t'')\<lparr>target_language := ''French''\<rparr>,
        category_index := [''questions'' \<mapsto> 3]\<rparr>) =
   Raised IndexError ((initial_session ''t'')\<lparr>user_profile := (initial_profile ''t'')\<lparr>target_language := ''French''\<rparr>,
        category_index := [''questions'' \<mapsto> 3]\<rparr>)"
proof -
  let ?s = "(initial_session ''t'')\<lparr>user_profile := (initial_profile ''t'')\<lparr>target_language := ''French''\<rparr>,
        category_index := [''questions'' \<mapsto> 3]\<rparr>"
  let ?ev = "demo_event (Some PreviousWord) (demo_widgets\<lparr>w_category := 2\<rparr>)"
  have h1: "map_of LANGUAGES (target_language (user_profile ?s)) = Some french_data"
    by (simp add: LANGUAGES_def)
  have h2: "st_selectbox (vocab_categories french_data) (w_category (ev_widgets ?ev)) = ''questions''"
    by (simp add: vocab_categories_def french_data_def st_selectbox_def demo_event_def)
  have h3: "map_of french_data ''questions'' = Some (the (map_of french_data ''questions''))"
    by (simp add: french_data_def)
  have h4: "category_index ?s ''questions'' = Some 3" by simp
  have h5: "length (the (map_of french_data ''questions'')) \<le> 3" by (simp add: french_data_def)
  show ?thesis by (rule stale_index_raises [OF h1 h2 h3 h4 h5])
qed

text \<open>
  C26: The progress bar raises \<open>StreamlitAPIException\<close> exactly when more
  words are mastered than the language's dictionary holds: the numerator counts
  the mastered words of every language (the list is kept per profile), the
  denominator the current language's lists, cultural tips included (lines
  592--596), and \<open>st.progress\<close> refuses a value above 1.
\<close>

theorem vocab_progress_raises_iff:
  assumes "0 < sum_list (map (length \<circ> snd) ld)"
  shows "vocab_progress_panel ld s =
           (if length (vocabulary_mastered (user_profile s)) \<le> sum_list (map (length \<circ> snd) ld)
            then Continue s else Raised StreamlitAPIException s)"
proof -
  let ?m = "length (vocabulary_mastered (user_profile s))"
  let ?t = "sum_list (map (length \<circ> snd) ld)"
  have pos: "(0::rat) < of_nat ?t" using assms by simp
  have "(of_nat ?m / of_nat ?t \<le> (1::rat)) \<longleftrightarrow> ?m \<le> ?t"
    using pos by (simp add: divide_le_eq)
  then show ?thesis
    using assms by (simp add: vocab_progress_panel_def st_progress_def Let_def)
qed

theorem vocab_progress_raises_iff_witness:
  "vocab_progress_panel spanish_data
     ((initial_session ''t'')\<lparr>user_profile := (initial_profile ''t'')\<lparr>vocabulary_mastered :=
        map (\<lambda>n. replicate n CHR ''a'') [1..<51]\<rparr>\<rparr>) =
   (if length (vocabulary_mastered (user_profile ((initial_session ''t'')\<lparr>user_profile := (initial_profile ''t'')\<lparr>vocabulary_mastered :=
        map (\<lambda>n. replicate n CHR ''a'') [1..<51]\<rparr>\<rparr>))) \<le> sum_list (map (length \<circ> snd) spanish_data)
    then Continue ((initial_session ''t'')\<lparr>user_profile := (initial_profile ''t'')\<lparr>vocabulary_mastered :=
        map (\<lambda>n. replicate n CHR ''a'') [1..<51]\<rparr>\<rparr>)
    else Raised StreamlitAPIException ((initial_session ''t'')\<lparr>user_profile := (initial_profile ''t'')\<lparr>vocabulary_mastered :=
        map (\<lambda>n. replicate n CHR ''a'') [1..<51]\<rparr>\<rparr>))"
proof -
  have h: "0 < sum_list (map (length \<circ> snd) spanish_data)" by (simp add: spanish_data_def)
  show ?thesis by (rule vocab_progress_raises_iff [OF h])
qed

text \<open>
  C28: Marking a word as mastered is idempotent, as the spec's
  \<open>recordVocabularyMastery\<close> requires: a second click on the same word
  changes nothing, and one click adds at most one word.
\<close>

theorem mark_mastered_idempotent:
  "outcome_state (mark_mastered ev w (outcome_state (mark_mastered ev w s))) = outcome_state (mark_mastered ev w s) \<and>
   length (vocabulary_mastered (user_profile (outcome_state (mark_mastered ev w s)))) \<le>
     Suc (length (vocabulary_mastered (user_profile s)))"
  by (simp add: mark_mastered_def)

end
