(* ===== verification/PronunciationPage.thy ===== *)
theory PronunciationPage
  imports Session
begin

text \<open>
  The pronunciation page (\<open>create_pronunciation_practice\<close>, lines 606--766).
  Its three practice types are the branches of an \<open>if\<close>/\<open>elif\<close> whose
  indentation in the source differs from its intent: the assignment
  \<open>phrases = [...]\<close> sits in an \<open>elif\<close> of the \<open>Listen\<close> button inside the
  \<open>Individual Words\<close> branch (line 680), and the phrase practice that uses
  \<open>phrases\<close> (lines 692--716) follows in the same branch, while the
  \<open>Tongue Twisters\<close> branch is an \<open>elif\<close> of the outer test (line 718).
  The model follows the code as Python runs it: the local variable
  \<open>phrases\<close> is a value of \<open>py_error + pystr list\<close>, unbound
  (\<open>Inl UnboundLocalError\<close>) unless the assignment ran.
\<close>

definition practice_types :: "pystr list" where
  "practice_types = [''Individual Words'', ''Common Phrases'', ''Tongue Twisters'']"

text \<open>One recorded attempt: \<open>pronunciation_feedback.append({key: text, 'score': score, 'timestamp': now})\<close>.\<close>

definition log_attempt :: "practice_subject \<Rightarrow> int \<Rightarrow> pystr \<Rightarrow> session \<Rightarrow> session" where
  "log_attempt subj score now s =
     s\<lparr>pronunciation_feedback := pronunciation_feedback s @
        [\<lparr>subject = subj, attempt_score = score, timestamp = now\<rparr>]\<rparr>"

text \<open>\<open>Record Pronunciation\<close> of the word practice (lines 649--675).\<close>

definition word_practice :: "event \<Rightarrow> pystr \<Rightarrow> session \<Rightarrow> session outcome" where
  "word_practice ev practice_word s =
     (if clicked ev RecordPronunciation then
        (let score = simulate_pronunciation_score (user_profile s) (d_base_score (ev_draws ev));
             s1 = log_attempt (WordSubject practice_word) score (d_now (ev_draws ev)) s
         in Continue (add_points (word_pronunciation_points score) s1))
      else Continue s)"

text \<open>
  The \<open>Listen\<close> button and its \<open>elif\<close> (lines 677--690): the binding of
  \<open>phrases\<close> after the block.
\<close>

definition listen_block :: "event \<Rightarrow> pystr \<Rightarrow> py_error + pystr list" where
  "listen_block ev practice_type =
     (if clicked ev ListenToPronunciation then Inl UnboundLocalError
      else if practice_type = ''Common Phrases'' then Inr phrases
      else Inl UnboundLocalError)"

text \<open>The phrase practice (lines 692--716), given the bound list of phrases.\<close>

definition phrase_practice :: "event \<Rightarrow> pystr list \<Rightarrow> session \<Rightarrow> session outcome" where
  "phrase_practice ev phrase_options s =
     (let practice_phrase = st_selectbox phrase_options (w_practice_phrase (ev_widgets ev))
      in if clicked ev RecordPhrase then
           (let score = simulate_pronunciation_score (user_profile s) (d_base_score (ev_draws ev));
                s1 = log_attempt (PhraseSubject practice_phrase) score (d_now (ev_draws ev)) s
            in Continue (add_points (phrase_pronunciation_points score) s1))
         else Continue s)"

text \<open>
  The tongue twisters (lines 718--766); \<open>twisters.get(target, twisters['Spanish'])\<close>
  evaluates its default first.
\<close>

definition twister_practice :: "event \<Rightarrow> pystr \<Rightarrow> session \<Rightarrow> session outcome" where
  "twister_practice ev target s =
     or_raise (py_getitem twisters ''Spanish'') s (\<lambda>default.
       let language_twisters = (case map_of twisters target of
                                  None \<Rightarrow> default | Some ts \<Rightarrow> ts);
           practice_twister = st_selectbox language_twisters (w_twister (ev_widgets ev))
       in if clicked ev ChallengeAccepted then
            (let score = simulate_pronunciation_score (user_profile s) (d_base_score (ev_draws ev));
                 s1 = log_attempt (TwisterSubject practice_twister) score (d_now (ev_draws ev)) s
             in Continue (add_points (twister_pronunciation_points score) s1))
          else Continue s)"

text \<open>The words offered for practice: every list of the language's dictionary (lines 631--634).\<close>

definition practice_words :: "language_data \<Rightarrow> pystr list" where
  "practice_words language_data = concat (map snd language_data)"

definition create_pronunciation_practice :: "event \<Rightarrow> session \<Rightarrow> session outcome" where
  "create_pronunciation_practice ev s =
     (let target_language = target_language (user_profile s)
      in if \<not> py_has_key LANGUAGES target_language then Continue s
         else or_raise (py_getitem LANGUAGES target_language) s (\<lambda>language_data.
           let practice_type = st_selectbox practice_types (w_practice_type (ev_widgets ev))
           in if practice_type = ''Individual Words'' then
                (let all_words = practice_words language_data
                 in then_do
                      (if all_words \<noteq> []
                       then word_practice ev (st_selectbox all_words (w_practice_word (ev_widgets ev))) s
                       else Continue s)
                      (\<lambda>s1. let phrases_binding = (if all_words \<noteq> [] then listen_block ev practice_type
                                                   else Inl UnboundLocalError)
                            in or_raise phrases_binding s1 (\<lambda>phrase_options. phrase_practice ev phrase_options s1)))
              else if practice_type = ''Tongue Twisters'' then twister_practice ev target_language s
              else Continue s))"

section \<open>Lemmas\<close>

lemma practice_words_nonempty:
  "map_of LANGUAGES t = Some ld \<Longrightarrow> practice_words ld \<noteq> []"
  by (auto simp: LANGUAGES_def practice_words_def spanish_data_def french_data_def german_data_def
      split: if_splits)

lemma word_practice_then_raise:
  "then_do (word_practice ev w s) (Raised e) = Raised e (outcome_state (word_practice ev w s))"
  by (simp add: word_practice_def Let_def)

lemma pronunciation_no_click: "no_rerun (create_pronunciation_practice (no_click ev) s)"
  unfolding create_pronunciation_practice_def
  by (auto simp: Let_def word_practice_def phrase_practice_def twister_practice_def
      intro!: no_rerun_or_raise no_rerun_then_do)

text \<open>
  C13: The \<open>Individual Words\<close> practice always ends in
  \<open>UnboundLocalError\<close>: after the word block, which on \<open>Record
  Pronunciation\<close> logs the attempt and awards its points, the script reads
  \<open>phrases\<close>, which is only assigned in a branch that cannot run there
  (line 680). The session keeps the word block's updates.
\<close>

theorem individual_words_always_raises:
  assumes "map_of LANGUAGES (target_language (user_profile s)) = Some ld"
    and "w_practice_type (ev_widgets ev) = 0"
  shows "create_pronunciation_practice ev s =
           Raised UnboundLocalError
             (outcome_state (word_practice ev (st_selectbox (practice_words ld) (w_practice_word (ev_widgets ev))) s))"
proof -
  have ne: "practice_words ld \<noteq> []" using assms(1) by (rule practice_words_nonempty)
  show ?thesis
    using assms ne word_practice_then_raise
    by (simp add: create_pronunciation_practice_def py_has_key_map_of practice_types_def
        st_selectbox_def listen_block_def Let_def)
qed

theorem individual_words_always_raises_witness:
  "create_pronunciation_practice (demo_event (Some RecordPronunciation) demo_widgets) (initial_session ''t'') =
     Raised UnboundLocalError
       (outcome_state (word_practice (demo_event (Some RecordPronunciation) demo_widgets)
          (st_selectbox (practice_words spanish_data)
             (w_practice_word (ev_widgets (demo_event (Some RecordPronunciation) demo_widgets))))
          (initial_session ''t'')))"
proof -
  have h1: "map_of LANGUAGES (target_language (user_profile (initial_session ''t''))) = Some spanish_data"
    by (simp add: LANGUAGES_def initial_session_def initial_profile_def)
  have h2: "w_practice_type (ev_widgets (demo_event (Some RecordPronunciation) demo_widgets)) = 0"
    by (simp add: demo_event_def demo_widgets_def)
  show ?thesis by (rule individual_words_always_raises [OF h1 h2])
qed

text \<open>
  C14: Choosing \<open>Common Phrases\<close> does nothing: the page's \<open>if\<close>/\<open>elif\<close>
  tests only \<open>Individual Words\<close> and \<open>Tongue Twisters\<close>, so the run
  leaves the session unchanged whatever is clicked.
\<close>

theorem common_phrases_does_nothing:
  assumes "w_practice_type (ev_widgets ev) = 1"
  shows "create_pronunciation_practice ev s = Continue s"
  using assms
  by (cases "map_of LANGUAGES (target_language (user_profile s))")
     (simp_all add: create_pronunciation_practice_def practice_types_def st_selectbox_def Let_def
      py_has_key_map_of)

theorem common_phrases_does_nothing_witness:
  "create_pronunciation_practice (demo_event (Some RecordPhrase) (demo_widgets\<lparr>w_practice_type := 1\<rparr>))
     (initial_session ''t'') = Continue (initial_session ''t'')"
proof -
  have h: "w_practice_type (ev_widgets (demo_event (Some RecordPhrase) (demo_widgets\<lparr>w_practice_type := 1\<rparr>))) = 1"
    by (simp add: demo_event_def)
  show ?thesis by (rule common_phrases_does_nothing [OF h])
qed

text \<open>
  C15: The pronunciation page never records a score in the profile: its
  attempts go to \<open>pronunciation_feedback\<close> only, so the \<open>Pronunciation
  Pro\<close> badge, which reads the profile's \<open>pronunciation_scores\<close>, counts only
  the practice on the conversation page.
\<close>

theorem pronunciation_page_keeps_profile_scores:
  "pronunciation_scores (user_profile (outcome_state (create_pronunciation_practice ev s))) =
   pronunciation_scores (user_profile s)"
  unfolding create_pronunciation_practice_def
  by (auto simp: Let_def word_practice_def phrase_practice_def twister_practice_def log_attempt_def
      or_raise_def split: sum.split if_splits)

end
