(* ===== verification/CulturalPage.thy ===== *)
theory CulturalPage
  imports Session
begin

text \<open>
  The cultural-insights page (\<open>create_cultural_insights\<close>, lines 814--928):
  the tips of the target language and the cultural quiz, whose state is the
  three session keys \<open>cultural_quiz_started\<close>, \<open>cultural_quiz_score\<close> and
  \<open>cultural_quiz_question\<close>, created on the first visit (lines 888--891).
\<close>

definition cultural_quiz_panel :: "event \<Rightarrow> quiz_question list \<Rightarrow> session \<Rightarrow> session outcome" where
  "cultural_quiz_panel ev questions s =
     (let q0 = (case cultural_quiz s of None \<Rightarrow> cultural_quiz_init | Some q \<Rightarrow> q);
          s1 = s\<lparr>cultural_quiz := Some q0\<rparr>
      in if \<not> cultural_quiz_started q0 then
           (if clicked ev StartCulturalQuiz
            then Rerun (s1\<lparr>cultural_quiz := Some (start_cultural_quiz q0)\<rparr>)
            else Continue s1)
         else if cultural_quiz_question q0 < length questions then
           (if clicked ev SubmitCulturalAnswer then
              (let current_q = questions ! cultural_quiz_question q0;
                   answer = st_radio (options current_q) (w_cultural_choice (ev_widgets ev))
               in or_raise (submit_cultural_answer current_q answer q0) s1
                    (\<lambda>result. Rerun (add_points (snd result) (s1\<lparr>cultural_quiz := Some (fst result)\<rparr>))))
            else Continue s1)
         else
           (if clicked ev RestartQuiz
            then Rerun (s1\<lparr>cultural_quiz := Some (restart_cultural_quiz q0)\<rparr>)
            else Continue s1))"

definition create_cultural_insights :: "event \<Rightarrow> session \<Rightarrow> session outcome" where
  "create_cultural_insights ev s =
     (let target_language = target_language (user_profile s)
      in if \<not> py_has_key LANGUAGES target_language then Continue s
         else or_raise (py_getitem LANGUAGES target_language) s (\<lambda>language_data.
           or_raise (py_getitem language_data ''cultural_tips'') s (\<lambda>cultural_tips.
             if py_has_key quiz_questions target_language
             then or_raise (py_getitem quiz_questions target_language) s
                    (\<lambda>questions. cultural_quiz_panel ev questions s)
             else Continue s)))"

section \<open>The quiz as the specification's machine\<close>

text \<open>
  The cultural quiz the panel works on (lines 888--891 create it on first use), and
  the command of the quiz machine that a click issues: each phase renders one
  button (lines 894, 908, 926), and a click on it is that phase's command; the
  radio's position is the submitted answer index.
\<close>

definition current_cultural_quiz :: "session \<Rightarrow> cultural_quiz" where
  "current_cultural_quiz s = (case cultural_quiz s of None \<Rightarrow> cultural_quiz_init | Some q \<Rightarrow> q)"

definition cultural_cmd :: "event \<Rightarrow> quiz_question list \<Rightarrow> cultural_quiz \<Rightarrow> quiz_cmd option" where
  "cultural_cmd ev qs q =
     (case phase (cultural_view (length qs) q) of
        NotStarted \<Rightarrow> if clicked ev StartCulturalQuiz then Some QStart else None
      | InProgress \<Rightarrow>
          if clicked ev SubmitCulturalAnswer
          then Some (QSubmit (w_cultural_choice (ev_widgets ev) = correct (qs ! cultural_quiz_question q)))
          else None
      | Completed \<Rightarrow> if clicked ev RestartQuiz then Some QRestart else None)"

section \<open>Lemmas\<close>

lemma cultural_panel_no_click: "no_rerun (cultural_quiz_panel (no_click ev) qs s)"
  by (simp add: cultural_quiz_panel_def Let_def)

lemma cultural_no_click: "no_rerun (create_cultural_insights (no_click ev) s)"
  unfolding create_cultural_insights_def
  by (auto simp: Let_def cultural_panel_no_click intro!: no_rerun_or_raise)

lemma quiz_question_options:
  assumes "map_of quiz_questions t = Some qs" and "q \<in> set qs"
  shows "distinct (options q) \<and> length (options q) = 4"
  using assms by (auto simp: quiz_questions_def split: if_splits)

lemma languages_cultural_tips:
  "map_of LANGUAGES t = Some ld \<Longrightarrow> \<exists>tips. map_of ld ''cultural_tips'' = Some tips"
  by (auto simp: LANGUAGES_def spanish_data_def french_data_def german_data_def split: if_splits)

lemma cultural_quiz_panel_never_raises:
  assumes "\<forall>q \<in> set qs. distinct (options q) \<and> w_cultural_choice (ev_widgets ev) < length (options q)"
  shows "cultural_quiz_panel ev qs s \<noteq> Raised e s'"
proof -
  define q0 where "q0 = (case cultural_quiz s of None \<Rightarrow> cultural_quiz_init | Some q \<Rightarrow> q)"
  show ?thesis
  proof (cases "cultural_quiz_started q0 \<and> cultural_quiz_question q0 < length qs \<and> clicked ev SubmitCulturalAnswer")
    case True
    let ?cq = "qs ! cultural_quiz_question q0"
    have "?cq \<in> set qs" using True by simp
    then have d: "distinct (options ?cq)" and i: "w_cultural_choice (ev_widgets ev) < length (options ?cq)"
      using assms by auto
    show ?thesis
      using True submit_cultural_answer_distinct [OF d i, of q0]
      by (simp add: cultural_quiz_panel_def q0_def [symmetric] st_radio_def Let_def)
  next
    case False
    then show ?thesis
      by (auto simp: cultural_quiz_panel_def q0_def [symmetric] Let_def)
  qed
qed

text \<open>
  C16: The cultural quiz refines the specification's quiz machine: for a
  non-empty question list with distinct options, a run whose click is the
  command of the current phase moves the quiz's view (phase, cursor, score)
  exactly as \<open>quiz_step\<close> does, answer checked against the options as shown,
  and any other run leaves the view unchanged.
\<close>

theorem cultural_quiz_refines:
  assumes "qs \<noteq> []"
    and "\<forall>x \<in> set qs. distinct (options x) \<and> w_cultural_choice (ev_widgets ev) < length (options x)"
    and "cultural_quiz_question (current_cultural_quiz s) \<le> length qs"
  shows "case cultural_cmd ev qs (current_cultural_quiz s) of
           None \<Rightarrow> cultural_view (length qs) (current_cultural_quiz (outcome_state (cultural_quiz_panel ev qs s)))
                   = cultural_view (length qs) (current_cultural_quiz s)
         | Some c \<Rightarrow> quiz_step (length qs) c (cultural_view (length qs) (current_cultural_quiz s))
                   = Some (cultural_view (length qs) (current_cultural_quiz (outcome_state (cultural_quiz_panel ev qs s))))"
proof -
  define q0 where "q0 = current_cultural_quiz s"
  define n where "n = length qs"
  have q0: "(case cultural_quiz s of None \<Rightarrow> cultural_quiz_init | Some q \<Rightarrow> q) = q0"
    by (simp add: q0_def current_cultural_quiz_def)
  consider (ns) "\<not> cultural_quiz_started q0"
    | (ip) "cultural_quiz_started q0" "cultural_quiz_question q0 < n"
    | (cmp) "cultural_quiz_started q0" "\<not> cultural_quiz_question q0 < n"
    by blast
  then show ?thesis
  proof cases
    case ns
    then show ?thesis using assms(1)
      by (auto simp: cultural_cmd_def cultural_view_def cultural_quiz_panel_def q0 n_def
          current_cultural_quiz_def start_cultural_quiz_def not_started_view_def Let_def
          simp flip: q0_def)
  next
    case ip
    let ?cq = "qs ! cultural_quiz_question q0"
    have mem: "?cq \<in> set qs" using ip by (simp add: n_def)
    then have d: "distinct (options ?cq)" and i: "w_cultural_choice (ev_widgets ev) < length (options ?cq)"
      using assms(2) by auto
    show ?thesis
      using ip submit_cultural_answer_distinct [OF d i, of q0]
      by (auto simp: cultural_cmd_def cultural_view_def cultural_quiz_panel_def q0 n_def st_radio_def
          current_cultural_quiz_def Let_def simp flip: q0_def)
  next
    case cmp
    then have "cultural_quiz_question q0 = n" using assms(3) by (simp add: q0_def n_def)
    then show ?thesis using cmp
      by (auto simp: cultural_cmd_def cultural_view_def cultural_quiz_panel_def q0 n_def
          current_cultural_quiz_def restart_cultural_quiz_def not_started_view_def Let_def
          simp flip: q0_def)
  qed
qed

theorem cultural_quiz_refines_witness:
  "case cultural_cmd (demo_event (Some SubmitCulturalAnswer) (demo_widgets\<lparr>w_cultural_choice := 2\<rparr>))
          (snd (hd quiz_questions))
          (current_cultural_quiz ((initial_session ''t'')\<lparr>cultural_quiz := Some (start_cultural_quiz cultural_quiz_init)\<rparr>)) of
     None \<Rightarrow> cultural_view (length (snd (hd quiz_questions)))
              (current_cultural_quiz (outcome_state (cultural_quiz_panel
                 (demo_event (Some SubmitCulturalAnswer) (demo_widgets\<lparr>w_cultural_choice := 2\<rparr>))
                 (snd (hd quiz_questions))
                 ((initial_session ''t'')\<lparr>cultural_quiz := Some (start_cultural_quiz cultural_quiz_init)\<rparr>))))
            = cultural_view (length (snd (hd quiz_questions)))
                (current_cultural_quiz ((initial_session ''t'')\<lparr>cultural_quiz := Some (start_cultural_quiz cultural_quiz_init)\<rparr>))
   | Some c \<Rightarrow> quiz_step (length (snd (hd quiz_questions))) c
                (cultural_view (length (snd (hd quiz_questions)))
                  (current_cultural_quiz ((initial_session ''t'')\<lparr>cultural_quiz := Some (start_cultural_quiz cultural_quiz_init)\<rparr>)))
            = Some (cultural_view (length (snd (hd quiz_questions)))
                (current_cultural_quiz (outcome_state (cultural_quiz_panel
                   (demo_event (Some SubmitCulturalAnswer) (demo_widgets\<lparr>w_cultural_choice := 2\<rparr>))
                   (snd (hd quiz_questions))
                   ((initial_session ''t'')\<lparr>cultural_quiz := Some (start_cultural_quiz cultural_quiz_init)\<rparr>)))))"
proof -
  have h1: "snd (hd quiz_questions) \<noteq> []" by (simp add: quiz_questions_def)
  have h2: "\<forall>x \<in> set (snd (hd quiz_questions)). distinct (options x) \<and>
      w_cultural_choice (ev_widgets (demo_event (Some SubmitCulturalAnswer) (demo_widgets\<lparr>w_cultural_choice := 2\<rparr>)))
        < length (options x)"
    by (simp add: quiz_questions_def demo_event_def)
  have h3: "cultural_quiz_question (current_cultural_quiz ((initial_session ''t'')\<lparr>cultural_quiz :=
      Some (start_cultural_quiz cultural_quiz_init)\<rparr>)) \<le> length (snd (hd quiz_questions))"
    by (simp add: current_cultural_quiz_def start_cultural_quiz_def)
  show ?thesis by (rule cultural_quiz_refines [OF h1 h2 h3])
qed

text \<open>
  C32: The cultural page never raises for a radio position within the four
  options: every language with a quiz has cultural tips, every question's
  options are distinct (so \<open>list.index\<close> finds the chosen one), and the
  question is read only while the cursor is below the number of questions.
\<close>

theorem cultural_page_never_raises:
  assumes "w_cultural_choice (ev_widgets ev) < 4"
  shows "create_cultural_insights ev s \<noteq> Raised e s'"
proof (cases "map_of LANGUAGES (target_language (user_profile s))")
  case None
  then show ?thesis by (simp add: create_cultural_insights_def py_has_key_map_of Let_def)
next
  case (Some ld)
  obtain tips where tips: "map_of ld ''cultural_tips'' = Some tips"
    using languages_cultural_tips [OF Some] by blast
  show ?thesis
  proof (cases "map_of quiz_questions (target_language (user_profile s))")
    case None
    then show ?thesis using Some tips
      by (simp add: create_cultural_insights_def py_has_key_map_of Let_def)
  next
    case (Some qs)
    have "\<forall>q \<in> set qs. distinct (options q) \<and> w_cultural_choice (ev_widgets ev) < length (options q)"
      using quiz_question_options [OF Some] assms by simp
    then show ?thesis
      using Some \<open>map_of LANGUAGES (target_language (user_profile s)) = Some ld\<close> tips
        cultural_quiz_panel_never_raises
      by (simp add: create_cultural_insights_def py_has_key_map_of Let_def)
  qed
qed

theorem cultural_page_never_raises_witness:
  "create_cultural_insights (demo_event (Some SubmitCulturalAnswer) demo_widgets)
     ((initial_session ''t'')\<lparr>cultural_quiz := Some (start_cultural_quiz cultural_quiz_init)\<rparr>) \<noteq>
   Raised ValueError ((initial_session ''t'')\<lparr>cultural_quiz := Some (start_cultural_quiz cultural_quiz_init)\<rparr>)"
proof -
  have h: "w_cultural_choice (ev_widgets (demo_event (Some SubmitCulturalAnswer) demo_widgets)) < 4"
    by (simp add: demo_event_def demo_widgets_def)
  show ?thesis by (rule cultural_page_never_raises [OF h])
qed

end
