(* ===== verification/ProfilePage.thy ===== *)
theory ProfilePage
  imports Session
begin

text \<open>
  The profile page (\<open>create_profile_setup\<close>, lines 344--386). The widgets
  check their arguments as Streamlit does: \<open>list.index\<close> raises
  \<open>ValueError\<close> for a level that is not listed, a slider value outside its
  range and a multiselect default that is not an option raise
  \<open>StreamlitAPIException\<close>. \<open>profile_form_positions\<close> gives the positions
  the three selectors show when the page is opened: the source computes the
  native and target positions as \<open>0 if ... else 0\<close>.
\<close>

definition native_language_options :: "pystr list" where
  "native_language_options =
     [''English'', ''Spanish'', ''French'', ''German'', ''Chinese'', ''Japanese'', ''Arabic'']"

definition target_language_options :: "pystr list" where
  "target_language_options =
     [''Spanish'', ''French'', ''German'', ''Italian'', ''Portuguese'', ''Chinese'', ''Japanese'']"

definition profile_levels :: "pystr list" where
  "profile_levels = [''Beginner'', ''Intermediate'', ''Advanced'']"

definition interest_options :: "pystr list" where
  "interest_options =
     [''Travel'', ''Business'', ''Culture'', ''Food'', ''Sports'', ''Technology'', ''Arts'', ''Music'']"

definition profile_form_positions :: "profile \<Rightarrow> py_error + (nat \<times> nat \<times> nat)" where
  "profile_form_positions p =
     py_then (py_list_index profile_levels (level p)) (\<lambda>level_index.
       Inr (if native_language p = ''English'' then 0 else 0,
            if target_language p = ''Spanish'' then 0 else 0,
            level_index))"

definition create_profile_setup :: "event \<Rightarrow> session \<Rightarrow> session outcome" where
  "create_profile_setup ev s =
     (let p = user_profile s; w = ev_widgets ev
      in or_raise (profile_form_positions p) s (\<lambda>positions.
           if daily_goal p < 10 \<or> 120 < daily_goal p then Raised StreamlitAPIException s
           else if \<not> set (interests p) \<subseteq> set interest_options then Raised StreamlitAPIException s
           else if clicked ev SaveProfile then
             Rerun (s\<lparr>user_profile := p\<lparr>
                      name := w_name w,
                      native_language := st_selectbox native_language_options (w_native_language w),
                      target_language := st_selectbox target_language_options (w_target_language w),
                      level := st_selectbox profile_levels (w_level w),
                      daily_goal := w_daily_goal w,
                      interests := w_interests w\<rparr>\<rparr>)
           else Continue s))"

section \<open>Lemmas\<close>

lemma profile_no_click: "no_rerun (create_profile_setup (no_click ev) s)"
  unfolding create_profile_setup_def
  by (auto simp: Let_def)

text \<open>
  C19: Saving the profile form untouched is not a round trip: the level
  selector opens at the saved level's position and saves it back, but the
  language selectors open at position 0 whatever was saved (\<open>0 if ... else
  0\<close>, lines 355 and 360), so the save resets the native language to English
  and the target language to Spanish, and changes nothing else.
\<close>

theorem untouched_profile_save:
  assumes "profile_form_positions (user_profile s) = Inr (n, t, l)"
    and "ev_click ev = Some SaveProfile"
    and "ev_widgets ev = w"
    and "w_native_language w = n" and "w_target_language w = t" and "w_level w = l"
    and "w_name w = name (user_profile s)" and "w_daily_goal w = daily_goal (user_profile s)"
    and "w_interests w = interests (user_profile s)"
    and "10 \<le> daily_goal (user_profile s)" and "daily_goal (user_profile s) \<le> 120"
    and "set (interests (user_profile s)) \<subseteq> set interest_options"
  shows "create_profile_setup ev s =
           Rerun (s\<lparr>user_profile := (user_profile s)\<lparr>native_language := ''English'', target_language := ''Spanish''\<rparr>\<rparr>)"
proof -
  obtain l' where l': "py_list_index profile_levels (level (user_profile s)) = Inr l'"
    and pos: "profile_form_positions (user_profile s) = Inr (0, 0, l')"
    using assms(1) by (cases "py_list_index profile_levels (level (user_profile s))")
      (auto simp: profile_form_positions_def)
  then have "n = 0" "t = 0" "l = l'" using assms(1) by simp_all
  moreover have "profile_levels ! l' = level (user_profile s)"
    using py_list_index_Inr [OF l'] by simp
  ultimately show ?thesis
    using assms pos
    by (simp add: create_profile_setup_def clicked_def st_selectbox_def native_language_options_def
        target_language_options_def)
qed

theorem untouched_profile_save_witness:
  "create_profile_setup (demo_event (Some SaveProfile) demo_widgets)
     ((initial_session ''t'')\<lparr>user_profile := (initial_profile ''t'')\<lparr>target_language := ''French''\<rparr>\<rparr>) =
   Rerun (((initial_session ''t'')\<lparr>user_profile := (initial_profile ''t'')\<lparr>target_language := ''French''\<rparr>\<rparr>)
     \<lparr>user_profile := (user_profile ((initial_session ''t'')\<lparr>user_profile := (initial_profile ''t'')\<lparr>target_language := ''French''\<rparr>\<rparr>))
        \<lparr>native_language := ''English'', target_language := ''Spanish''\<rparr>\<rparr>)"
proof -
  let ?s = "(initial_session ''t'')\<lparr>user_profile := (initial_profile ''t'')\<lparr>target_language := ''French''\<rparr>\<rparr>"
  let ?ev = "demo_event (Some SaveProfile) demo_widgets"
  have h1: "profile_form_positions (user_profile ?s) = Inr (0, 0, 0)"
    by (simp add: profile_form_positions_def profile_levels_def initial_profile_def)
  have h2: "ev_click ?ev = Some SaveProfile" by (simp add: demo_event_def)
  have h3: "ev_widgets ?ev = demo_widgets" by (simp add: demo_event_def)
  have h4: "w_native_language demo_widgets = 0" "w_target_language demo_widgets = 0" "w_level demo_widgets = 0"
    "w_name demo_widgets = name (user_profile ?s)" "w_daily_goal demo_widgets = daily_goal (user_profile ?s)"
    "w_interests demo_widgets = interests (user_profile ?s)"
    by (simp_all add: demo_widgets_def initial_profile_def)
  have h5: "10 \<le> daily_goal (user_profile ?s)" "daily_goal (user_profile ?s) \<le> 120"
    "set (interests (user_profile ?s)) \<subseteq> set interest_options"
    by (simp_all add: initial_profile_def)
  show ?thesis by (rule untouched_profile_save [OF h1 h2 h3 h4 h5])
qed

end
