(* ===== verification/App.thy ===== *)
theory App
  imports ConversationPage VocabularyPage PronunciationPage CulturalPage ProfilePage
begin

text \<open>
  The script as a whole: the sidebar (lines 1027--1067), the dispatch of
  \<open>main()\<close> to the selected page (lines 1069--1083), and Streamlit's runtime
  around it, which reruns the script without a click whenever a run ends in
  \<open>st.rerun()\<close>. The runtime loop has fuel; \<open>run_script_settles\<close> shows
  that two runs are always enough. \<open>reachable\<close> is the set of sessions that
  a learner can produce from the first run by any sequence of valid
  interactions.
\<close>

section \<open>One run of the script\<close>

text \<open>
  The sidebar (lines 1026--1067) draws \<open>random.randint(5, daily_goal)\<close> for
  its mock daily progress and shows \<open>min(daily_minutes / daily_goal, 1.0)\<close>
  with \<open>st.progress\<close>; the page selector is the widget \<open>w_page\<close>, and
  nothing else of it reads or writes the session.
\<close>

definition sidebar :: "event \<Rightarrow> session \<Rightarrow> session outcome" where
  "sidebar ev s =
     (let daily_goal = daily_goal (user_profile s)
      in or_raise (py_randint 5 (int daily_goal) (d_daily_minutes (ev_draws ev))) s
           (\<lambda>daily_minutes.
              let progress = min (of_int daily_minutes / of_nat daily_goal) (1 :: rat)
              in or_raise (st_progress progress) s (\<lambda>_. Continue s)))"

text \<open>The dashboard and the analytics page only display the session.\<close>

definition main_run :: "event \<Rightarrow> session \<Rightarrow> session outcome" where
  "main_run ev s =
     then_do (sidebar ev s) (\<lambda>s1.
       case w_page (ev_widgets ev) of
         Dashboard \<Rightarrow> Continue s1
       | ProfileSetup \<Rightarrow> create_profile_setup ev s1
       | ConversationPractice \<Rightarrow> create_conversation_practice ev s1
       | VocabularyLessons \<Rightarrow> create_vocabulary_lessons ev s1
       | PronunciationPractice \<Rightarrow> create_pronunciation_practice ev s1
       | CulturalInsights \<Rightarrow> create_cultural_insights ev s1
       | ProgressAnalytics \<Rightarrow> Continue s1)"

section \<open>Streamlit's runtime loop\<close>

text \<open>
  The result of an interaction: the session after the last run, and the
  exception that ended it, if any; \<open>None\<close> when the fuel runs out.
\<close>

fun run_script :: "nat \<Rightarrow> event \<Rightarrow> session \<Rightarrow> (session \<times> py_error option) option" where
  "run_script 0 ev s = None"
| "run_script (Suc n) ev s =
     (case main_run ev s of
        Continue s' \<Rightarrow> Some (s', None)
      | Raised e s' \<Rightarrow> Some (s', Some e)
      | Rerun s' \<Rightarrow> run_script n (no_click ev) s')"

text \<open>
  A sequence of interactions of one learner, each settled by the runtime
  loop; an exception ends its run but not the session, so the next
  interaction starts from the state the exception left. The result lists what
  each interaction raised.
\<close>

fun run_interactions :: "event list \<Rightarrow> session \<Rightarrow> (session \<times> py_error option list) option" where
  "run_interactions [] s = Some (s, [])"
| "run_interactions (ev # evs) s =
     (case run_script 2 ev s of
        None \<Rightarrow> None
      | Some (s', e) \<Rightarrow> map_option (\<lambda>(s'', es). (s'', e # es)) (run_interactions evs s'))"

section \<open>Lemmas\<close>

lemma main_run_no_click: "no_rerun (main_run (no_click ev) s)"
  unfolding main_run_def sidebar_def Let_def
  by (auto intro!: no_rerun_then_do no_rerun_or_raise split: page.split
      simp: conversation_no_click vocabulary_no_click pronunciation_no_click
      cultural_no_click profile_no_click)

lemma sidebar_Continue:
  assumes "5 \<le> daily_goal (user_profile s)" and "5 \<le> d_daily_minutes (ev_draws ev)"
  shows "sidebar ev s = Continue s"
proof -
  have "(0::rat) \<le> of_int (d_daily_minutes (ev_draws ev)) / of_nat (daily_goal (user_profile s))"
    using assms(2) by simp
  then show ?thesis using assms(1) by (simp add: sidebar_def py_randint_def st_progress_def Let_def)
qed

text \<open>
  C1: Every interaction settles: for any input and any session, Streamlit's
  loop of script runs ends within two runs (the run of the click and at most
  one rerun), because a run without a click never calls \<open>st.rerun()\<close>.
\<close>

theorem run_script_settles: "\<exists>r. run_script 2 ev s = Some r"
proof (cases "main_run ev s")
  case (Rerun s')
  have "no_rerun (main_run (no_click ev) s')" by (rule main_run_no_click)
  then show ?thesis using Rerun
    by (cases "main_run (no_click ev) s'") (simp_all add: numeral_2_eq_2)
qed (simp_all add: numeral_2_eq_2)


end
