(* ===== verification/Invariants.thy ===== *)
theory Invariants
  imports App
begin

text \<open>
  What a learner can do to the session, and what stays true of it. A valid
  interaction has widget positions within their option lists, random draws
  within the ranges of \<open>random.randint\<close>, \<open>random.sample\<close> and
  \<open>random.shuffle\<close>, and a slider value and multiselect choice that
  Streamlit can return. \<open>reachable\<close> closes the first session under valid
  interactions. The invariant \<open>session_inv\<close> (the profile's fields in range,
  no word mastered twice, every pronunciation score in [60, 100], both quiz
  cursors within their question lists) holds after the first run and is kept by
  every block of every page, hence by every settled interaction
  (\<open>reachable_session_inv\<close>). The proofs compose one lemma per block through
  \<open>outcome_state_then_do\<close> and \<open>outcome_state_or_raise\<close>, the two ways the
  script sequences its blocks.
\<close>

section \<open>Valid interactions\<close>

text \<open>The inputs whose ranges do not depend on the session.\<close>

definition valid_input :: "event \<Rightarrow> bool" where
  "valid_input ev \<longleftrightarrow>
     (let w = ev_widgets ev; d = ev_draws ev
      in valid_base_score (d_base_score d) \<and> valid_shuffle (d_quiz_options d) \<and>
         w_quiz_choice w < 4 \<and> w_cultural_choice w < 4 \<and> w_scenario w < 4 \<and>
         w_native_language w < length native_language_options \<and>
         w_target_language w < length target_language_options \<and>
         w_level w < length profile_levels \<and>
         10 \<le> w_daily_goal w \<and> w_daily_goal w \<le> 120 \<and>
         set (w_interests w) \<subseteq> set interest_options \<and> distinct (w_interests w) \<and>
         w_practice_type w < length practice_types \<and> w_practice_phrase w < length phrases)"

text \<open>
  The choices whose ranges depend on the session: the positions of the
  selectors of the target language's content, the sample that
  \<open>random.sample\<close> draws from the selected category, and the sidebar's
  \<open>random.randint(5, daily_goal)\<close>.
\<close>

definition valid_choices :: "session \<Rightarrow> event \<Rightarrow> bool" where
  "valid_choices s ev \<longleftrightarrow>
     (let w = ev_widgets ev; d = ev_draws ev; p = user_profile s
      in 5 \<le> d_daily_minutes d \<and> d_daily_minutes d \<le> int (daily_goal p) \<and>
         (case map_of LANGUAGES (target_language p) of
            None \<Rightarrow> True
          | Some ld \<Rightarrow>
              w_category w < length (vocab_categories ld) \<and>
              (case map_of ld (st_selectbox (vocab_categories ld) (w_category w)) of
                 None \<Rightarrow> True
               | Some words \<Rightarrow> valid_sample words (d_quiz_sample d)) \<and>
              w_practice_word w < length (practice_words ld) \<and>
              w_twister w < length (case map_of twisters (target_language p) of
                                      None \<Rightarrow> [] | Some ts \<Rightarrow> ts)))"

definition valid_event :: "session \<Rightarrow> event \<Rightarrow> bool" where
  "valid_event s ev \<longleftrightarrow> valid_input ev \<and> valid_choices s ev"

section \<open>Reachable sessions\<close>

text \<open>
  The sessions a learner can produce: the first run creates the session
  (\<open>now\<close> is the login time), and every interaction is one settled run of
  the script on valid inputs.
\<close>

inductive reachable :: "session \<Rightarrow> bool" where
  start: "reachable (initial_session now)"
| step: "reachable s \<Longrightarrow> valid_event s ev \<Longrightarrow> run_script 2 ev s = Some (s', err) \<Longrightarrow> reachable s'"

text \<open>A sequence of interactions each of which is valid in the state it starts from.\<close>

fun valid_trace :: "event list \<Rightarrow> session \<Rightarrow> bool" where
  "valid_trace [] s = True"
| "valid_trace (ev # evs) s =
     (valid_event s ev \<and>
      (case run_script 2 ev s of None \<Rightarrow> False | Some (s', e) \<Rightarrow> valid_trace evs s'))"

section \<open>The session invariant\<close>

definition profile_inv :: "profile \<Rightarrow> bool" where
  "profile_inv p \<longleftrightarrow>
     streak p = 0 \<and> distinct (vocabulary_mastered p) \<and>
     (\<forall>x \<in> set (pronunciation_scores p). 60 \<le> x \<and> x \<le> 100) \<and>
     10 \<le> daily_goal p \<and> daily_goal p \<le> 120 \<and>
     level p \<in> set profile_levels \<and> set (interests p) \<subseteq> set interest_options"

definition feedback_inv :: "attempt list \<Rightarrow> bool" where
  "feedback_inv as \<longleftrightarrow> (\<forall>a \<in> set as. 60 \<le> attempt_score a \<and> attempt_score a \<le> 100)"

definition quiz_inv :: "cultural_quiz option \<Rightarrow> vocab_quiz option \<Rightarrow> bool" where
  "quiz_inv cq vq \<longleftrightarrow>
     (\<forall>q. cq = Some q \<longrightarrow> cultural_quiz_question q \<le> 2) \<and>
     (\<forall>q. vq = Some q \<longrightarrow> current_question q \<le> length (quiz_words q))"

definition session_inv :: "session \<Rightarrow> bool" where
  "session_inv s \<longleftrightarrow>
     profile_inv (user_profile s) \<and> feedback_inv (pronunciation_feedback s) \<and>
     quiz_inv (cultural_quiz s) (current_quiz s)"

section \<open>Lemmas\<close>

lemma outcome_state_then_do:
  assumes "P (outcome_state r)" and "\<And>s. r = Continue s \<Longrightarrow> P s \<Longrightarrow> P (outcome_state (f s))"
  shows "P (outcome_state (then_do r f))"
  using assms by (cases r) auto

lemma outcome_state_or_raise:
  assumes "P s" and "\<And>a. x = Inr a \<Longrightarrow> P (outcome_state (f a))"
  shows "P (outcome_state (or_raise x s f))"
  using assms by (cases x) auto

lemma profile_inv_counters [simp]:
  "profile_inv (p\<lparr>total_points := n\<rparr>) = profile_inv p"
  "profile_inv (p\<lparr>conversations_had := n\<rparr>) = profile_inv p"
  "profile_inv (p\<lparr>lessons_completed := n\<rparr>) = profile_inv p"
  by (simp_all add: profile_inv_def)

lemma profile_inv_append_score:
  "profile_inv p \<Longrightarrow> 60 \<le> x \<Longrightarrow> x \<le> 100 \<Longrightarrow>
     profile_inv (p\<lparr>pronunciation_scores := pronunciation_scores p @ [x]\<rparr>)"
  by (auto simp: profile_inv_def)

lemma profile_inv_append_word:
  "profile_inv p \<Longrightarrow> w \<notin> set (vocabulary_mastered p) \<Longrightarrow>
     profile_inv (p\<lparr>vocabulary_mastered := vocabulary_mastered p @ [w]\<rparr>)"
  by (auto simp: profile_inv_def)

lemma feedback_inv_append:
  "feedback_inv as \<Longrightarrow> 60 \<le> attempt_score a \<Longrightarrow> attempt_score a \<le> 100 \<Longrightarrow>
     feedback_inv (as @ [a])"
  by (auto simp: feedback_inv_def)

lemma session_inv_updates [simp]:
  "session_inv (s\<lparr>conversation_history := h\<rparr>) = session_inv s"
  "session_inv (s\<lparr>category_index := m\<rparr>) = session_inv s"
  "session_inv (add_points n s) = session_inv s"
  by (simp_all add: session_inv_def add_points_def)

lemma session_inv_score:
  assumes "session_inv s" and "valid_input ev"
  shows "60 \<le> simulate_pronunciation_score (user_profile s) (d_base_score (ev_draws ev)) \<and>
         simulate_pronunciation_score (user_profile s) (d_base_score (ev_draws ev)) \<le> 100"
  using assms by (intro simulate_range) (simp add: valid_input_def Let_def)

lemma session_inv_profile_update:
  "session_inv (s\<lparr>user_profile := p\<rparr>) \<longleftrightarrow>
     profile_inv p \<and> feedback_inv (pronunciation_feedback s) \<and> quiz_inv (cultural_quiz s) (current_quiz s)"
  by (simp add: session_inv_def)

lemma send_message_inv:
  assumes "session_inv s"
  shows "session_inv (outcome_state (send_message ev c s))"
proof (cases "clicked ev SendMessage \<and> w_message (ev_widgets ev) \<noteq> []")
  case True
  then show ?thesis
    using assms
    by (cases "get_ai_response (w_message (ev_widgets ev)) c (target_language (user_profile s))")
       (simp_all add: send_message_def Let_def session_inv_def)
next
  case False
  then have "send_message ev c s = Continue s" by (auto simp: send_message_def Let_def)
  then show ?thesis using assms by simp
qed

lemma practice_pronunciation_inv:
  assumes "session_inv s" and "valid_input ev"
  shows "session_inv (outcome_state (practice_pronunciation ev s))"
proof (cases "clicked ev PracticePronunciation \<and> w_message (ev_widgets ev) \<noteq> []")
  case True
  let ?x = "simulate_pronunciation_score (user_profile s) (d_base_score (ev_draws ev))"
  let ?p = "(user_profile s)\<lparr>pronunciation_scores := pronunciation_scores (user_profile s) @ [?x]\<rparr>"
  have eq: "practice_pronunciation ev s =
              Continue (add_points (conversation_pronunciation_points ?x) (s\<lparr>user_profile := ?p\<rparr>))"
    using True by (simp add: practice_pronunciation_def Let_def)
  have "60 \<le> ?x \<and> ?x \<le> 100" using assms by (rule session_inv_score)
  then have "profile_inv ?p"
    using assms(1) by (simp add: session_inv_def profile_inv_append_score)
  then show ?thesis
    using assms(1) by (simp only: eq outcome_state.simps session_inv_updates)
      (simp add: session_inv_profile_update session_inv_def)
next
  case False
  then have "practice_pronunciation ev s = Continue s" by (auto simp: practice_pronunciation_def)
  then show ?thesis using assms by simp
qed

lemma clear_chat_inv:
  assumes "session_inv s"
  shows "session_inv (outcome_state (clear_chat ev s))"
  using assms by (simp add: clear_chat_def)

lemma conversation_inv:
  assumes "session_inv s" and "valid_input ev"
  shows "session_inv (outcome_state (create_conversation_practice ev s))"
  unfolding create_conversation_practice_def Let_def
  using assms(1)
  by (intro outcome_state_or_raise [where P = session_inv]
      outcome_state_then_do [where P = session_inv] send_message_inv
      practice_pronunciation_inv [OF _ assms(2)] clear_chat_inv)

lemma flashcard_previous_inv:
  "session_inv s \<Longrightarrow> session_inv (outcome_state (flashcard_previous ev c i s))"
  by (simp add: flashcard_previous_def)

lemma flashcard_next_inv:
  "session_inv s \<Longrightarrow> session_inv (outcome_state (flashcard_next ev c ws i s))"
  by (simp add: flashcard_next_def)

lemma mark_mastered_inv:
  assumes "session_inv s"
  shows "session_inv (outcome_state (mark_mastered ev w s))"
proof (cases "clicked ev MarkAsMastered \<and> w \<notin> set (vocabulary_mastered (user_profile s))")
  case True
  let ?p = "(user_profile s)\<lparr>vocabulary_mastered := vocabulary_mastered (user_profile s) @ [w]\<rparr>"
  have eq: "mark_mastered ev w s = Continue (add_points 20 (s\<lparr>user_profile := ?p\<rparr>))"
    using True by (simp add: mark_mastered_def)
  have "profile_inv ?p"
    using assms True by (simp add: session_inv_def profile_inv_append_word)
  then show ?thesis
    using assms by (simp only: eq outcome_state.simps session_inv_updates)
      (simp add: session_inv_profile_update session_inv_def)
next
  case False
  then have "mark_mastered ev w s = Continue s" by (auto simp: mark_mastered_def)
  then show ?thesis using assms by simp
qed

lemma quiz_inv_start:
  "quiz_inv cq vq \<Longrightarrow> quiz_inv cq (Some (start_vocab_quiz ws))"
  by (simp add: quiz_inv_def start_vocab_quiz_def)

lemma quiz_inv_submit_vocab:
  "quiz_inv cq (Some q) \<Longrightarrow> current_question q < length (quiz_words q) \<Longrightarrow>
     quiz_inv cq (Some (fst (submit_vocab_answer a q)))"
  by (simp add: quiz_inv_def submit_vocab_answer_simps)

lemma quiz_inv_no_vocab_quiz: "quiz_inv cq vq \<Longrightarrow> quiz_inv cq None"
  by (simp add: quiz_inv_def)

lemma session_inv_quiz_update:
  "session_inv (s\<lparr>current_quiz := vq\<rparr>) \<longleftrightarrow>
     profile_inv (user_profile s) \<and> feedback_inv (pronunciation_feedback s) \<and> quiz_inv (cultural_quiz s) vq"
  "session_inv (s\<lparr>cultural_quiz := cq\<rparr>) \<longleftrightarrow>
     profile_inv (user_profile s) \<and> feedback_inv (pronunciation_feedback s) \<and> quiz_inv cq (current_quiz s)"
  by (simp_all add: session_inv_def)


lemma session_inv_lessons:
  "session_inv (s\<lparr>user_profile := (user_profile s)\<lparr>lessons_completed := n\<rparr>\<rparr>) = session_inv s"
  by (simp add: session_inv_def)

lemma vocab_quiz_panel_inv:
  assumes "session_inv s"
  shows "session_inv (outcome_state (vocab_quiz_panel ev s))"
proof -
  define s1 where "s1 = (if clicked ev StartQuiz
                then s\<lparr>current_quiz := Some (start_vocab_quiz (d_quiz_sample (ev_draws ev)))\<rparr> else s)"
  have inv1: "session_inv s1"
    using assms quiz_inv_start by (auto simp: s1_def session_inv_quiz_update session_inv_def)
  have panel: "vocab_quiz_panel ev s =
     (case current_quiz s1 of None \<Rightarrow> Continue s1
      | Some quiz \<Rightarrow>
          if current_question quiz < length (quiz_words quiz) then
            (if clicked ev SubmitAnswer then
               Rerun (add_points (snd (submit_vocab_answer
                   (st_radio (d_quiz_options (ev_draws ev)) (w_quiz_choice (ev_widgets ev))) quiz))
                 (s1\<lparr>current_quiz := Some (fst (submit_vocab_answer
                   (st_radio (d_quiz_options (ev_draws ev)) (w_quiz_choice (ev_widgets ev))) quiz))\<rparr>))
             else Continue s1)
          else
            (if clicked ev StartNewQuiz
             then Rerun (s1\<lparr>user_profile := (user_profile s1)\<lparr>lessons_completed :=
                           lessons_completed (user_profile s1) + 1\<rparr>, current_quiz := None\<rparr>)
             else Continue (s1\<lparr>user_profile := (user_profile s1)\<lparr>lessons_completed :=
                           lessons_completed (user_profile s1) + 1\<rparr>\<rparr>)))"
    unfolding vocab_quiz_panel_def Let_def s1_def [symmetric] by (simp split: option.split)
  show ?thesis
  proof (cases "current_quiz s1")
    case None
    then show ?thesis using inv1 by (simp add: panel)
  next
    case (Some quiz)
    then have q: "quiz_inv (cultural_quiz s1) (Some quiz)"
      using inv1 by (simp add: session_inv_def)
    show ?thesis
    proof (cases "current_question quiz < length (quiz_words quiz)")
      case True
      then show ?thesis
        using inv1 q Some
        by (simp add: panel session_inv_quiz_update quiz_inv_submit_vocab)
           (simp add: session_inv_def)
    next
      case False
      have "quiz_inv (cultural_quiz s1) None" using q by (rule quiz_inv_no_vocab_quiz)
      then show ?thesis
        using inv1 Some False
        by (simp add: panel session_inv_lessons session_inv_def)
    qed
  qed
qed

lemma vocab_progress_panel_inv:
  "session_inv s \<Longrightarrow> session_inv (outcome_state (vocab_progress_panel ld s))"
  unfolding vocab_progress_panel_def Let_def
  by (rule outcome_state_or_raise [where P = session_inv]) simp_all

lemma vocabulary_inv:
  assumes "session_inv s"
  shows "session_inv (outcome_state (create_vocabulary_lessons ev s))"
  unfolding create_vocabulary_lessons_def Let_def
  using assms
  by (auto intro!: outcome_state_or_raise [where P = session_inv]
      outcome_state_then_do [where P = session_inv] flashcard_previous_inv flashcard_next_inv
      mark_mastered_inv vocab_quiz_panel_inv vocab_progress_panel_inv)

lemma log_attempt_inv:
  "session_inv s \<Longrightarrow> 60 \<le> x \<Longrightarrow> x \<le> 100 \<Longrightarrow> session_inv (log_attempt subj x now s)"
  by (simp add: log_attempt_def session_inv_def feedback_inv_append)

lemma word_practice_inv:
  assumes "session_inv s" and "valid_input ev"
  shows "session_inv (outcome_state (word_practice ev w s))"
  using assms session_inv_score [OF assms]
  by (simp add: word_practice_def Let_def log_attempt_inv)

lemma phrase_practice_inv:
  assumes "session_inv s" and "valid_input ev"
  shows "session_inv (outcome_state (phrase_practice ev ps s))"
  using assms session_inv_score [OF assms]
  by (simp add: phrase_practice_def Let_def log_attempt_inv)

lemma twister_practice_inv:
  assumes "session_inv s" and "valid_input ev"
  shows "session_inv (outcome_state (twister_practice ev t s))"
  unfolding twister_practice_def Let_def
  using assms session_inv_score [OF assms]
  by (intro outcome_state_or_raise [where P = session_inv]) (simp_all add: log_attempt_inv)

lemma pronunciation_inv:
  assumes "session_inv s" and "valid_input ev"
  shows "session_inv (outcome_state (create_pronunciation_practice ev s))"
  unfolding create_pronunciation_practice_def Let_def
  using assms(1)
  by (auto intro!: outcome_state_or_raise [where P = session_inv]
      outcome_state_then_do [where P = session_inv] word_practice_inv [OF _ assms(2)]
      phrase_practice_inv [OF _ assms(2)] twister_practice_inv [OF _ assms(2)])

lemma quiz_questions_length:
  "map_of quiz_questions l = Some qs \<Longrightarrow> length qs = 2"
  by (auto simp: quiz_questions_def split: if_splits)

lemma submit_cultural_answer_question:
  "submit_cultural_answer cq a q = Inr r \<Longrightarrow>
     cultural_quiz_question (fst r) = Suc (cultural_quiz_question q)"
  by (cases "py_list_index (options cq) a")
     (auto simp: submit_cultural_answer_def Let_def)

lemma cultural_quiz_panel_inv:
  assumes "session_inv s" and "length questions = 2"
  shows "session_inv (outcome_state (cultural_quiz_panel ev questions s))"
proof -
  define q0 where "q0 = (case cultural_quiz s of None \<Rightarrow> cultural_quiz_init | Some q \<Rightarrow> q)"
  have q0: "cultural_quiz_question q0 \<le> 2"
    using assms(1) by (cases "cultural_quiz s") (auto simp: q0_def session_inv_def quiz_inv_def cultural_quiz_init_def)
  have base: "session_inv (s\<lparr>cultural_quiz := Some q\<rparr>)" if "cultural_quiz_question q \<le> 2" for q
    using assms(1) that by (simp add: session_inv_quiz_update session_inv_def quiz_inv_def)
  have sub: "session_inv (add_points (snd r) (s\<lparr>cultural_quiz := Some q0, cultural_quiz := Some (fst r)\<rparr>))"
    if "submit_cultural_answer cq a q0 = Inr r" and "cultural_quiz_question q0 < 2" for cq a r
    using base [of "fst r"] that submit_cultural_answer_question [OF that(1)] by simp
  show ?thesis
    unfolding cultural_quiz_panel_def Let_def q0_def [symmetric]
    using q0 base [OF q0] assms(2)
    by (auto simp: start_cultural_quiz_def restart_cultural_quiz_def
        intro!: outcome_state_or_raise [where P = session_inv] base sub split: prod.split
        dest!: submit_cultural_answer_question)
qed

lemma cultural_inv:
  assumes "session_inv s"
  shows "session_inv (outcome_state (create_cultural_insights ev s))"
  unfolding create_cultural_insights_def Let_def
  using assms
  by (auto intro!: outcome_state_or_raise [where P = session_inv] cultural_quiz_panel_inv
      quiz_questions_length simp: py_getitem_def split: option.splits)

lemma profile_inv_save:
  assumes "profile_inv p" and "valid_input ev"
  shows "profile_inv (p\<lparr>name := n, native_language := nat_l, target_language := tgt_l,
           level := st_selectbox profile_levels (w_level (ev_widgets ev)),
           daily_goal := w_daily_goal (ev_widgets ev), interests := w_interests (ev_widgets ev)\<rparr>)"
  using assms by (auto simp: profile_inv_def valid_input_def Let_def st_selectbox_def)

lemma profile_page_inv:
  assumes "session_inv s" and "valid_input ev"
  shows "session_inv (outcome_state (create_profile_setup ev s))"
  unfolding create_profile_setup_def Let_def
  using assms profile_inv_save [OF _ assms(2)]
  by (intro outcome_state_or_raise [where P = session_inv])
     (auto simp: session_inv_profile_update session_inv_def)

lemma sidebar_inv: "session_inv s \<Longrightarrow> session_inv (outcome_state (sidebar ev s))"
  unfolding sidebar_def Let_def
  by (intro outcome_state_or_raise [where P = session_inv]) simp_all

lemma main_run_inv:
  assumes "session_inv s" and "valid_input ev"
  shows "session_inv (outcome_state (main_run ev s))"
  unfolding main_run_def
  using assms(1)
  by (intro outcome_state_then_do [where P = session_inv] sidebar_inv)
     (auto split: page.split intro: profile_page_inv [OF _ assms(2)] conversation_inv [OF _ assms(2)]
        vocabulary_inv pronunciation_inv [OF _ assms(2)] cultural_inv)

lemma valid_input_no_click [simp]: "valid_input (no_click ev) = valid_input ev"
  by (simp add: valid_input_def)

lemma run_script_inv:
  assumes "session_inv s" and "valid_input ev" and "run_script n ev s = Some (s', e)"
  shows "session_inv s'"
  using assms
proof (induction n arbitrary: ev s)
  case 0
  then show ?case by simp
next
  case (Suc n)
  have inv: "session_inv (outcome_state (main_run ev s))"
    using Suc.prems(1,2) by (rule main_run_inv)
  show ?case
  proof (cases "main_run ev s")
    case (Rerun s1)
    then show ?thesis using Suc.IH [of s1 "no_click ev"] Suc.prems inv by simp
  qed (use Suc.prems inv in auto)
qed

lemma initial_session_inv: "session_inv (initial_session now)"
  by (simp add: initial_session_def initial_profile_def session_inv_def profile_inv_def
      feedback_inv_def quiz_inv_def profile_levels_def)

lemma reachable_session_inv: "reachable s \<Longrightarrow> session_inv s"
proof (induction rule: reachable.induct)
  case (start now)
  show ?case by (rule initial_session_inv)
next
  case (step s ev s' err)
  then show ?case by (auto simp: valid_event_def intro: run_script_inv)
qed

text \<open>The state after a valid sequence of interactions is reachable.\<close>

lemma run_interactions_reachable:
  "reachable s \<Longrightarrow> valid_trace evs s \<Longrightarrow> run_interactions evs s = Some (s', es) \<Longrightarrow> reachable s'"
proof (induction evs arbitrary: s es)
  case Nil
  then show ?case by simp
next
  case (Cons ev evs)
  then obtain s1 e where r: "run_script 2 ev s = Some (s1, e)"
    by (auto split: option.splits)
  with Cons.prems have "reachable s1" by (auto intro: reachable.step)
  with Cons r show ?case by (auto split: option.splits)
qed

end
