(* ===== verification/Liveness.thy ===== *)
theory Liveness
  imports Invariants
begin

text \<open>
  What a learner can always still achieve. From every reachable session whose
  target language has content, repeating one valid interaction (typing
  \<open>hello\<close> on the conversation page and clicking \<open>Send Message\<close>) counts
  one conversation per interaction, so five of them unlock \<open>Chatterbox\<close>;
  one Practice Pronunciation with the highest random draw unlocks
  \<open>Pronunciation Pro\<close>.
  The event's quiz sample is a valid \<open>random.sample\<close> of the first vocabulary
  category of the target language, as \<open>valid_event\<close> requires of every
  interaction.
\<close>

section \<open>The repeated interaction\<close>

definition chat_sample :: "pystr \<Rightarrow> pystr list" where
  "chat_sample t =
     (case map_of LANGUAGES t of
        None \<Rightarrow> []
      | Some ld \<Rightarrow> (case map_of ld (vocab_categories ld ! 0) of None \<Rightarrow> [] | Some ws \<Rightarrow> take 5 ws))"

definition chat_event :: "pystr \<Rightarrow> event" where
  "chat_event t =
     \<lparr>ev_widgets = demo_widgets\<lparr>w_page := ConversationPractice, w_message := ''hello''\<rparr>,
      ev_click = Some SendMessage, ev_draws = demo_draws\<lparr>d_quiz_sample := chat_sample t\<rparr>\<rparr>"

text \<open>
  Practising pronunciation on the conversation page with the draw
  \<open>random.randint(70, 100) = 100\<close>.
\<close>

definition pro_event :: "pystr \<Rightarrow> event" where
  "pro_event t =
     (chat_event t)\<lparr>ev_click := Some PracticePronunciation,
                    ev_draws := (ev_draws (chat_event t))\<lparr>d_base_score := 100\<rparr>\<rparr>"

section \<open>Lemmas\<close>

lemma valid_event_click_score:
  assumes "valid_event s ev" and "valid_base_score b"
  shows "valid_event s (ev\<lparr>ev_click := c, ev_draws := (ev_draws ev)\<lparr>d_base_score := b\<rparr>\<rparr>)"
  using assms by (auto simp: valid_event_def valid_input_def valid_choices_def Let_def split: option.splits)


lemma supported_language_content:
  assumes "t \<in> {''Spanish'', ''French'', ''German''}"
  shows "\<exists>ld ts r. map_of LANGUAGES t = Some ld \<and> vocab_categories ld \<noteq> [] \<and> practice_words ld \<noteq> [] \<and>
           map_of twisters t = Some ts \<and> ts \<noteq> [] \<and> map_of ai_responses t = Some r"
  using assms
  by (auto simp: LANGUAGES_def twisters_def ai_responses_def vocab_categories_def practice_words_def
      spanish_data_def french_data_def german_data_def)

lemma chat_event_valid:
  assumes "session_inv s" and "target_language (user_profile s) \<in> {''Spanish'', ''French'', ''German''}"
  shows "valid_event s (chat_event (target_language (user_profile s)))"
proof -
  let ?t = "target_language (user_profile s)"
  have goal: "10 \<le> daily_goal (user_profile s)"
    using assms(1) by (simp add: session_inv_def profile_inv_def)
  obtain ld ts r where ld: "map_of LANGUAGES ?t = Some ld" "vocab_categories ld \<noteq> []"
    "practice_words ld \<noteq> []" "map_of twisters ?t = Some ts" "ts \<noteq> []"
    using supported_language_content [OF assms(2)] by blast
  have sample: "case map_of ld (vocab_categories ld ! 0) of None \<Rightarrow> True
                  | Some words \<Rightarrow> valid_sample words (chat_sample ?t)"
    using ld(1) by (simp add: chat_sample_def valid_sample_take split: option.split)
  have "valid_input (chat_event ?t)"
    by (simp add: valid_input_def chat_event_def demo_widgets_def demo_draws_def valid_base_score_def
        valid_shuffle_def native_language_options_def target_language_options_def profile_levels_def
        practice_types_def phrases_def)
  moreover have "valid_choices s (chat_event ?t)"
    using goal ld sample
    by (simp add: valid_choices_def chat_event_def demo_widgets_def demo_draws_def st_selectbox_def
        split: option.splits)
  ultimately show ?thesis by (simp add: valid_event_def)
qed

lemma chat_event_step:
  assumes "session_inv s" and "target_language (user_profile s) \<in> {''Spanish'', ''French'', ''German''}"
  shows "\<exists>s'. run_script 2 (chat_event (target_language (user_profile s))) s = Some (s', None) \<and>
           user_profile s' = (user_profile s)\<lparr>conversations_had := Suc (conversations_had (user_profile s)),
                                           total_points := total_points (user_profile s) + 10\<rparr>"
proof -
  let ?t = "target_language (user_profile s)"
  let ?ev = "chat_event ?t"
  have goal: "5 \<le> daily_goal (user_profile s)"
    using assms(1) by (simp add: session_inv_def profile_inv_def)
  obtain r where r: "map_of ai_responses ?t = Some r"
    using supported_language_content [OF assms(2)] by blast
  obtain c where c: "scenario_context_of (conversation_scenarios (get_adaptive_difficulty (user_profile s)))
      (st_selectbox (map fst (conversation_scenarios (get_adaptive_difficulty (user_profile s))))
         (w_scenario (ev_widgets ?ev))) = Inr c"
  proof -
    have "w_scenario (ev_widgets ?ev) < 4" by (simp add: chat_event_def demo_widgets_def)
    then show ?thesis
      using selected_scenario_context that by blast
  qed
  obtain reply where reply: "get_ai_response ''hello'' c ?t = Inr reply"
    using get_ai_response_supported [OF r] by blast
  have click: "clicked ?ev SendMessage" by (simp add: chat_event_def clicked_def)
  have minutes: "5 \<le> d_daily_minutes (ev_draws ?ev)" by (simp add: chat_event_def demo_draws_def)
  define s3 where "s3 = add_points 10
     (s\<lparr>conversation_history := conversation_history s @ [\<lparr>role = User, content = ''hello''\<rparr>,
                                                         \<lparr>role = Assistant, content = reply\<rparr>],
        user_profile := (user_profile s)\<lparr>conversations_had := Suc (conversations_had (user_profile s))\<rparr>\<rparr>)"
  have "send_message ?ev c s = Rerun s3"
    using click reply by (simp add: send_message_def s3_def chat_event_def Let_def)
  then have run1: "main_run ?ev s = Rerun s3"
    using conversation_page_send [OF click c] sidebar_Continue [OF goal minutes]
    by (simp add: main_run_def chat_event_def)
  have goal3: "5 \<le> daily_goal (user_profile s3)" using goal by (simp add: s3_def)
  have "main_run (no_click ?ev) s3 = Continue s3"
    using sidebar_Continue [OF goal3, of "no_click ?ev"] minutes conversation_page_no_click [of ?ev s3]
    by (simp add: main_run_def chat_event_def demo_widgets_def)
  then have "run_script 2 ?ev s = Some (s3, None)"
    using run1 by (simp add: numeral_2_eq_2)
  moreover have "user_profile s3 = (user_profile s)\<lparr>conversations_had := Suc (conversations_had (user_profile s)),
                                           total_points := total_points (user_profile s) + 10\<rparr>"
    by (simp add: s3_def)
  ultimately show ?thesis by blast
qed

lemma chat_events:
  assumes "reachable s" and "target_language (user_profile s) = t"
    and "t \<in> {''Spanish'', ''French'', ''German''}"
  shows "\<exists>s' es. valid_trace (replicate k (chat_event t)) s \<and>
           run_interactions (replicate k (chat_event t)) s = Some (s', es) \<and>
           conversations_had (user_profile s') = conversations_had (user_profile s) + k"
  using assms
proof (induction k arbitrary: s)
  case 0
  then show ?case by simp
next
  case (Suc k)
  have inv: "session_inv s" using Suc.prems(1) by (rule reachable_session_inv)
  obtain s1 where run: "run_script 2 (chat_event t) s = Some (s1, None)"
    and p1: "user_profile s1 = (user_profile s)\<lparr>conversations_had := Suc (conversations_had (user_profile s)),
                                           total_points := total_points (user_profile s) + 10\<rparr>"
    using chat_event_step [OF inv] Suc.prems(2,3) by blast
  have valid: "valid_event s (chat_event t)"
    using chat_event_valid [OF inv] Suc.prems(2,3) by simp
  have "reachable s1" using Suc.prems(1) valid run by (rule reachable.step)
  moreover have "target_language (user_profile s1) = t" using p1 Suc.prems(2) by simp
  ultimately obtain s' es where "valid_trace (replicate k (chat_event t)) s1"
    "run_interactions (replicate k (chat_event t)) s1 = Some (s', es)"
    "conversations_had (user_profile s') = conversations_had (user_profile s1) + k"
    using Suc.IH Suc.prems(3) by blast
  then show ?case using valid run p1 by simp
qed

text \<open>
  C22: Chatterbox can always still be unlocked: from every reachable session
  with Spanish, French or German as target language there is a sequence of
  valid interactions, each settled by the runtime, after which the session is
  reachable and the badge is unlocked.
\<close>

theorem chatterbox_reachable:
  assumes "reachable s" and "target_language (user_profile s) \<in> {''Spanish'', ''French'', ''German''}"
  shows "\<exists>evs s' es. valid_trace evs s \<and> run_interactions evs s = Some (s', es) \<and> reachable s' \<and>
           ''Chatterbox'' \<in> set (unlocked_badges (user_profile s'))"
proof -
  obtain s' es where tr: "valid_trace (replicate 5 (chat_event (target_language (user_profile s)))) s"
    "run_interactions (replicate 5 (chat_event (target_language (user_profile s)))) s = Some (s', es)"
    "conversations_had (user_profile s') = conversations_had (user_profile s) + 5"
    using chat_events [OF assms(1) refl assms(2)] by blast
  have "reachable s'" using run_interactions_reachable [OF assms(1) tr(1,2)] .
  moreover have "''Chatterbox'' \<in> set (unlocked_badges (user_profile s'))"
    using tr(3) by (simp add: unlocked_badges_def achievements_def)
  ultimately show ?thesis using tr(1,2) by blast
qed

theorem chatterbox_reachable_witness:
  "\<exists>evs s' es. valid_trace evs (initial_session ''t'') \<and> run_interactions evs (initial_session ''t'') = Some (s', es) \<and>
     reachable s' \<and> ''Chatterbox'' \<in> set (unlocked_badges (user_profile s'))"
proof -
  have h: "target_language (user_profile (initial_session ''t'')) \<in> {''Spanish'', ''French'', ''German''}"
    by (simp add: initial_session_def initial_profile_def)
  show ?thesis by (rule chatterbox_reachable [OF reachable.start h])
qed

text \<open>
  C31: Pronunciation Pro can always still be unlocked: from every reachable
  session with Spanish, French or German as target language, one valid
  interaction (Practice Pronunciation with the highest draw of
  \<open>random.randint(70, 100)\<close>) records a score of at least 90 in every tier.
\<close>

theorem pronunciation_pro_reachable:
  assumes "reachable s" and "target_language (user_profile s) \<in> {''Spanish'', ''French'', ''German''}"
  shows "\<exists>ev s' e. valid_event s ev \<and> run_script 2 ev s = Some (s', e) \<and> reachable s' \<and>
           ''Pronunciation Pro'' \<in> set (unlocked_badges (user_profile s'))"
proof -
  let ?t = "target_language (user_profile s)"
  let ?ev = "pro_event ?t"
  have inv: "session_inv s" using assms(1) by (rule reachable_session_inv)
  have valid: "valid_event s ?ev"
    unfolding pro_event_def
    by (rule valid_event_click_score [OF chat_event_valid [OF inv assms(2)]]) (simp add: valid_base_score_def)
  have goal: "5 \<le> daily_goal (user_profile s)" using inv by (simp add: session_inv_def profile_inv_def)
  have minutes: "5 \<le> d_daily_minutes (ev_draws ?ev)" by (simp add: pro_event_def chat_event_def demo_draws_def)
  have click: "clicked ?ev PracticePronunciation" by (simp add: pro_event_def clicked_def)
  have others: "\<not> clicked ?ev SendMessage" "\<not> clicked ?ev ClearChat"
    using click by (simp_all add: clicked_unique)
  obtain c where c: "scenario_context_of (conversation_scenarios (get_adaptive_difficulty (user_profile s)))
      (st_selectbox (map fst (conversation_scenarios (get_adaptive_difficulty (user_profile s))))
         (w_scenario (ev_widgets ?ev))) = Inr c"
  proof -
    have "w_scenario (ev_widgets ?ev) < 4" by (simp add: pro_event_def chat_event_def demo_widgets_def)
    then show ?thesis using selected_scenario_context that by blast
  qed
  define score where "score = simulate_pronunciation_score (user_profile s) 100"
  define s1 where "s1 = add_points (conversation_pronunciation_points score)
     (s\<lparr>user_profile := (user_profile s)\<lparr>pronunciation_scores := pronunciation_scores (user_profile s) @ [score]\<rparr>\<rparr>)"
  have page: "create_conversation_practice ?ev s = Continue s1"
    using c click others
    by (simp add: create_conversation_practice_def conversation_buttons_idle practice_pronunciation_def
        s1_def score_def pro_event_def chat_event_def Let_def)
  have "main_run ?ev s = Continue s1"
    using page sidebar_Continue [OF goal minutes] by (simp add: main_run_def pro_event_def chat_event_def)
  then have run: "run_script 2 ?ev s = Some (s1, None)" by (simp add: numeral_2_eq_2)
  have "reachable s1" using assms(1) valid run by (rule reachable.step)
  moreover have "''Pronunciation Pro'' \<in> set (unlocked_badges (user_profile s1))"
    using simulate_top_draw [of "user_profile s"]
    by (auto simp: unlocked_badges_iff s1_def score_def)
  ultimately show ?thesis using valid run by blast
qed

theorem pronunciation_pro_reachable_witness:
  "\<exists>ev s' e. valid_event (initial_session ''t'') ev \<and> run_script 2 ev (initial_session ''t'') = Some (s', e) \<and>
     reachable s' \<and> ''Pronunciation Pro'' \<in> set (unlocked_badges (user_profile s'))"
proof -
  have h: "target_language (user_profile (initial_session ''t'')) \<in> {''Spanish'', ''French'', ''German''}"
    by (simp add: initial_session_def initial_profile_def)
  show ?thesis by (rule pronunciation_pro_reachable [OF reachable.start h])
qed

end
