(* ===== verification/Display.thy ===== *)
theory Display
  imports Invariants
begin

text \<open>
  What the pages that only display show: the dashboard
  (\<open>create_dashboard\<close>, lines 259--342), the analytics column of the
  pronunciation page (lines 769--798) and the progress analytics page
  (\<open>create_progress_analytics\<close>, lines 930--1021). None of them writes the
  session; each is modelled as a function from the session to a record of the
  values it renders. The mock values that the code draws from \<open>random\<close>
  for the radar chart are inputs; the mock time series (weekly points, the
  activity heat map) and the chart styling are not modelled.
\<close>

section \<open>The dashboard\<close>

record dashboard_view =
  dash_total_points :: nat
  dash_streak :: nat
  dash_lessons :: nat
  dash_conversations :: nat
  dash_skill_scores :: "int list"
  dash_recent_achievements :: "pystr list"

definition valid_mock_scores :: "int \<times> int \<times> int \<Rightarrow> bool" where
  "valid_mock_scores m \<longleftrightarrow>
     (case m of (g, l, r) \<Rightarrow> 5 \<le> g \<and> g \<le> 10 \<and> 5 \<le> l \<and> l \<le> 10 \<and> 5 \<le> r \<and> r \<le> 10)"

definition dashboard_skill_scores :: "profile \<Rightarrow> int \<times> int \<times> int \<Rightarrow> int list" where
  "dashboard_skill_scores p m =
     (case m of (grammar, listening, reading) \<Rightarrow>
       [int (min (length (vocabulary_mastered p)) 10), grammar,
        if pronunciation_scores p \<noteq> [] then 8 else 5,
        int (min (conversations_had p) 10), listening, reading])"

definition dashboard_achievements :: "pystr list" where
  "dashboard_achievements =
     [''First Conversation Complete'', ''10 Words Mastered'', ''Perfect Pronunciation'', ''3-Day Streak'']"

definition create_dashboard :: "int \<times> int \<times> int \<Rightarrow> session \<Rightarrow> dashboard_view" where
  "create_dashboard m s =
     (let p = user_profile s
      in \<lparr>dash_total_points = total_points p, dash_streak = streak p,
          dash_lessons = lessons_completed p, dash_conversations = conversations_had p,
          dash_skill_scores = dashboard_skill_scores p m,
          dash_recent_achievements = dashboard_achievements\<rparr>)"

section \<open>The pronunciation analytics column\<close>

text \<open>
  The last ten attempts (\<open>pronunciation_feedback[-10:]\<close>), their average and
  the tip chosen by it (lines 769--798); \<open>None\<close> when there is no attempt.
\<close>

datatype pronunciation_tip = ExcellentPronunciation | GoodProgress | FocusOnPronunciation

definition pronunciation_analytics :: "attempt list \<Rightarrow> (int list \<times> rat \<times> pronunciation_tip) option" where
  "pronunciation_analytics feedback =
     (if feedback = [] then None
      else let recent_scores = map attempt_score (drop (length feedback - 10) feedback);
               avg_score = of_int (sum_list recent_scores) / of_nat (length recent_scores)
           in Some (recent_scores, avg_score,
                    if avg_score \<ge> 85 then ExcellentPronunciation
                    else if avg_score \<ge> 70 then GoodProgress else FocusOnPronunciation))"

section \<open>The progress analytics page\<close>

text \<open>
  The metrics, the points-by-skill pie (shown when its values sum to more than
  0), the recommendation and the achievements (lines 936--1020).
\<close>

record analytics_view =
  an_total_points :: nat
  an_lessons :: nat
  an_conversations :: nat
  an_words_mastered :: nat
  an_skill_points :: "nat list"
  an_show_pie :: bool
  an_recommendation :: recommendation
  an_badges :: "pystr list"

definition skill_points :: "session \<Rightarrow> nat list" where
  "skill_points s =
     (let p = user_profile s
      in [length (vocabulary_mastered p) * 20, length (pronunciation_feedback s) * 15,
          conversations_had p * 10, lessons_completed p * 25])"

definition create_progress_analytics :: "session \<Rightarrow> analytics_view" where
  "create_progress_analytics s =
     (let p = user_profile s; points = skill_points s
      in \<lparr>an_total_points = total_points p, an_lessons = lessons_completed p,
          an_conversations = conversations_had p, an_words_mastered = length (vocabulary_mastered p),
          an_skill_points = points, an_show_pie = (sum_list points > 0),
          an_recommendation = recommendation_for p, an_badges = unlocked_badges p\<rparr>)"

text \<open>One tongue-twister attempt in the first session.\<close>

definition twister_event :: event where
  "twister_event =
     \<lparr>ev_widgets = demo_widgets\<lparr>w_page := PronunciationPractice, w_practice_type := 2\<rparr>,
      ev_click = Some ChallengeAccepted,
      ev_draws = demo_draws\<lparr>d_quiz_sample := the (map_of spanish_data ''greetings'')\<rparr>\<rparr>"

section \<open>Lemmas\<close>

lemma sum_list_bounds:
  assumes "xs \<noteq> []" and "set xs \<subseteq> {lo..hi}"
  shows "of_nat (length xs) * lo \<le> sum_list xs \<and> sum_list xs \<le> of_nat (length xs) * (hi :: int)"
  using assms
proof (induction xs)
  case Nil
  then show ?case by simp
next
  case (Cons x xs)
  then show ?case by (cases "xs = []") (auto simp: algebra_simps)
qed

text \<open>
  C23: The radar chart's axis is [0, 10] (line 308), and every value the
  dashboard plots lies in it, given the mock scores of
  \<open>random.randint(5, 10)\<close>.
\<close>

theorem dashboard_scores_in_axis:
  assumes "valid_mock_scores m"
  shows "set (dash_skill_scores (create_dashboard m s)) \<subseteq> {0..10}"
  using assms
  by (auto simp: create_dashboard_def dashboard_skill_scores_def valid_mock_scores_def Let_def
      split: prod.splits)

theorem dashboard_scores_in_axis_witness:
  "set (dash_skill_scores (create_dashboard (5, 7, 10) (initial_session ''t''))) \<subseteq> {0..10}"
proof -
  have h: "valid_mock_scores (5, 7, 10)" by (simp add: valid_mock_scores_def)
  show ?thesis by (rule dashboard_scores_in_axis [OF h])
qed

text \<open>
  C24: The "Cultural Knowledge" slice of the analytics pie is
  \<open>lessons_completed * 25\<close> (lines 976--981), which only the vocabulary quiz
  increments: no run of the cultural page changes any slice of the pie,
  although its quiz awards points.
\<close>

theorem cultural_page_keeps_skill_points:
  "an_skill_points (create_progress_analytics (outcome_state (create_cultural_insights ev s))) =
   an_skill_points (create_progress_analytics s)"
  by (auto simp: create_progress_analytics_def skill_points_def create_cultural_insights_def
      cultural_quiz_panel_def or_raise_def Let_def split: sum.splits option.splits)

text \<open>
  C25: In every reachable session the average pronunciation score the
  analytics column shows lies in [60, 100].
\<close>

theorem pronunciation_average_in_range:
  assumes "reachable s" and "pronunciation_analytics (pronunciation_feedback s) = Some (recent, avg, tip)"
  shows "60 \<le> avg \<and> avg \<le> 100"
proof -
  have fb: "attempt_score ` set (pronunciation_feedback s) \<subseteq> {60..100}"
    using reachable_session_inv [OF assms(1)] by (auto simp: session_inv_def feedback_inv_def)
  define fb where "fb = pronunciation_feedback s"
  have ne: "fb \<noteq> []"
    using assms(2) by (cases "fb = []") (simp_all add: pronunciation_analytics_def fb_def)
  define r where "r = map attempt_score (drop (length fb - 10) fb)"
  have rne: "r \<noteq> []" using ne by (cases fb) (simp_all add: r_def)
  have "set r \<subseteq> {60..100}" using fb
    by (auto simp: r_def fb_def dest: in_set_dropD)
  then have b: "of_nat (length r) * 60 \<le> sum_list r \<and> sum_list r \<le> of_nat (length r) * 100"
    using sum_list_bounds [OF rne] by blast
  have avg: "avg = of_int (sum_list r) / of_nat (length r)"
    using assms(2) ne
    unfolding pronunciation_analytics_def fb_def [symmetric] r_def [symmetric] Let_def by auto
  have pos: "(0::rat) < of_nat (length r)" using rne by simp
  have "of_nat (length r) * 60 \<le> (of_int (sum_list r) :: rat)"
    using b by (metis of_int_le_iff of_int_mult of_int_of_nat_eq of_int_numeral)
  moreover have "(of_int (sum_list r) :: rat) \<le> of_nat (length r) * 100"
    using b by (metis of_int_le_iff of_int_mult of_int_of_nat_eq of_int_numeral)
  ultimately show ?thesis using pos by (simp add: avg pos_le_divide_eq pos_divide_le_eq mult.commute)
qed

theorem pronunciation_average_in_range_witness:
  "reachable (fst (the (run_interactions [twister_event] (initial_session ''t'')))) \<and>
   pronunciation_analytics (pronunciation_feedback (fst (the (run_interactions [twister_event] (initial_session ''t''))))) =
     Some ([75], 75, GoodProgress) \<and>
   60 \<le> (75::rat) \<and> (75::rat) \<le> 100"
proof -
  have tr: "valid_trace [twister_event] (initial_session ''t'')" by code_simp
  have "map_option (\<lambda>_. ()) (run_interactions [twister_event] (initial_session ''t'')) = Some ()"
    by code_simp
  then have run: "run_interactions [twister_event] (initial_session ''t'') =
      Some (fst (the (run_interactions [twister_event] (initial_session ''t''))),
            snd (the (run_interactions [twister_event] (initial_session ''t''))))"
    by (cases "run_interactions [twister_event] (initial_session ''t'')") auto
  have h1: "reachable (fst (the (run_interactions [twister_event] (initial_session ''t''))))"
    by (rule run_interactions_reachable [OF reachable.start tr run])
  have h2: "pronunciation_analytics (pronunciation_feedback (fst (the (run_interactions [twister_event] (initial_session ''t''))))) =
     Some ([75], 75, GoodProgress)"
    by code_simp
  show ?thesis using pronunciation_average_in_range [OF h1 h2] h1 h2 by simp
qed

end
