(* ===== verification/Monotone.thy ===== *)
theory Monotone
  imports Invariants
begin

text \<open>
  The learner's progress never goes back. \<open>progress_le p q\<close> says that every
  counter of the level score (points, completed lessons, conversations,
  mastered words) is at least as large in \<open>q\<close> as in \<open>p\<close>. Every block of
  every page keeps a lower bound on these counters, whatever it raises, so
  every settled interaction does; hence the level score and the adaptive
  difficulty that the conversation page and the pronunciation simulator use
  never decrease. The proofs compose one lemma per block as the invariant
  proofs of \<open>Invariants\<close> do, with the predicate
  \<open>\<lambda>s. progress_le p0 (user_profile s)\<close>.
\<close>

definition progress_le :: "profile \<Rightarrow> profile \<Rightarrow> bool" where
  "progress_le p q \<longleftrightarrow>
     total_points p \<le> total_points q \<and> lessons_completed p \<le> lessons_completed q \<and>
     conversations_had p \<le> conversations_had q \<and>
     length (vocabulary_mastered p) \<le> length (vocabulary_mastered q)"

section \<open>Lemmas\<close>

lemma progress_le_refl [simp]: "progress_le p p"
  by (simp add: progress_le_def)

lemma send_message_mono:
  "progress_le p0 (user_profile s) \<Longrightarrow> progress_le p0 (user_profile (outcome_state (send_message ev c s)))"
  by (auto simp: send_message_def Let_def progress_le_def or_raise_def split: sum.split)

lemma practice_pronunciation_mono:
  "progress_le p0 (user_profile s) \<Longrightarrow> progress_le p0 (user_profile (outcome_state (practice_pronunciation ev s)))"
  by (auto simp: practice_pronunciation_def Let_def progress_le_def)

lemma clear_chat_mono:
  "progress_le p0 (user_profile s) \<Longrightarrow> progress_le p0 (user_profile (outcome_state (clear_chat ev s)))"
  by (simp add: clear_chat_def)

lemma conversation_mono:
  assumes "progress_le p0 (user_profile s)"
  shows "progress_le p0 (user_profile (outcome_state (create_conversation_practice ev s)))"
  unfolding create_conversation_practice_def Let_def
  using assms
  by (auto intro!: outcome_state_or_raise [where P = "\<lambda>s. progress_le p0 (user_profile s)"]
      outcome_state_then_do [where P = "\<lambda>s. progress_le p0 (user_profile s)"]
      send_message_mono practice_pronunciation_mono clear_chat_mono)

lemma flashcards_mono:
  "progress_le p0 (user_profile s) \<Longrightarrow> progress_le p0 (user_profile (outcome_state (flashcard_previous ev c i s)))"
  "progress_le p0 (user_profile s) \<Longrightarrow> progress_le p0 (user_profile (outcome_state (flashcard_next ev c ws i s)))"
  "progress_le p0 (user_profile s) \<Longrightarrow> progress_le p0 (user_profile (outcome_state (mark_mastered ev w s)))"
  by (auto simp: flashcard_previous_def flashcard_next_def mark_mastered_def progress_le_def)

lemma vocab_quiz_panel_mono:
  "progress_le p0 (user_profile s) \<Longrightarrow> progress_le p0 (user_profile (outcome_state (vocab_quiz_panel ev s)))"
  by (auto simp: vocab_quiz_panel_def Let_def progress_le_def split: option.split)

lemma vocab_progress_panel_mono:
  "progress_le p0 (user_profile s) \<Longrightarrow> progress_le p0 (user_profile (outcome_state (vocab_progress_panel ld s)))"
  unfolding vocab_progress_panel_def Let_def
  by (rule outcome_state_or_raise [where P = "\<lambda>s. progress_le p0 (user_profile s)"]) simp_all

lemma vocabulary_mono:
  assumes "progress_le p0 (user_profile s)"
  shows "progress_le p0 (user_profile (outcome_state (create_vocabulary_lessons ev s)))"
  unfolding create_vocabulary_lessons_def Let_def
  using assms
  by (auto intro!: outcome_state_or_raise [where P = "\<lambda>s. progress_le p0 (user_profile s)"]
      outcome_state_then_do [where P = "\<lambda>s. progress_le p0 (user_profile s)"]
      flashcards_mono vocab_quiz_panel_mono vocab_progress_panel_mono)

lemma pronunciation_blocks_mono:
  "progress_le p0 (user_profile s) \<Longrightarrow> progress_le p0 (user_profile (outcome_state (word_practice ev w s)))"
  "progress_le p0 (user_profile s) \<Longrightarrow> progress_le p0 (user_profile (outcome_state (phrase_practice ev ps s)))"
  "progress_le p0 (user_profile s) \<Longrightarrow> progress_le p0 (user_profile (outcome_state (twister_practice ev t s)))"
  by (auto simp: word_practice_def phrase_practice_def twister_practice_def log_attempt_def Let_def
      progress_le_def or_raise_def split: sum.split)

lemma pronunciation_mono:
  assumes "progress_le p0 (user_profile s)"
  shows "progress_le p0 (user_profile (outcome_state (create_pronunciation_practice ev s)))"
  unfolding create_pronunciation_practice_def Let_def
  using assms
  by (auto intro!: outcome_state_or_raise [where P = "\<lambda>s. progress_le p0 (user_profile s)"]
      outcome_state_then_do [where P = "\<lambda>s. progress_le p0 (user_profile s)"]
      pronunciation_blocks_mono)

lemma cultural_mono:
  assumes "progress_le p0 (user_profile s)"
  shows "progress_le p0 (user_profile (outcome_state (create_cultural_insights ev s)))"
  using assms
  by (auto simp: create_cultural_insights_def cultural_quiz_panel_def Let_def progress_le_def or_raise_def
      split: sum.split option.split)

lemma profile_page_mono:
  assumes "progress_le p0 (user_profile s)"
  shows "progress_le p0 (user_profile (outcome_state (create_profile_setup ev s)))"
  using assms
  by (auto simp: create_profile_setup_def Let_def progress_le_def or_raise_def split: sum.split)

lemma sidebar_mono:
  "progress_le p0 (user_profile s) \<Longrightarrow> progress_le p0 (user_profile (outcome_state (sidebar ev s)))"
  unfolding sidebar_def Let_def
  by (intro outcome_state_or_raise [where P = "\<lambda>s. progress_le p0 (user_profile s)"]) simp_all

lemma main_run_mono:
  assumes "progress_le p0 (user_profile s)"
  shows "progress_le p0 (user_profile (outcome_state (main_run ev s)))"
  unfolding main_run_def
  using assms
  by (intro outcome_state_then_do [where P = "\<lambda>s. progress_le p0 (user_profile s)"] sidebar_mono)
     (auto split: page.split intro: profile_page_mono conversation_mono vocabulary_mono
        pronunciation_mono cultural_mono)

lemma run_script_mono:
  assumes "progress_le p0 (user_profile s)" and "run_script n ev s = Some (s', e)"
  shows "progress_le p0 (user_profile s')"
  using assms
proof (induction n arbitrary: ev s)
  case 0
  then show ?case by simp
next
  case (Suc n)
  have m: "progress_le p0 (user_profile (outcome_state (main_run ev s)))"
    using Suc.prems(1) by (rule main_run_mono)
  show ?case
  proof (cases "main_run ev s")
    case (Rerun s1)
    then show ?thesis using Suc.IH [of s1 "no_click ev"] Suc.prems m by simp
  qed (use Suc.prems m in auto)
qed

text \<open>
  C27: No interaction lowers the learner's level score or adaptive
  difficulty: every counter it sums only grows, on every path of every page,
  including the runs that end in an exception.
\<close>

theorem difficulty_never_decreases:
  assumes "run_script n ev s = Some (s', e)"
  shows "get_user_level_score (user_profile s) \<le> get_user_level_score (user_profile s') \<and>
         get_adaptive_difficulty (user_profile s) \<le> get_adaptive_difficulty (user_profile s')"
proof -
  have "progress_le (user_profile s) (user_profile s')"
    using run_script_mono [OF progress_le_refl assms] .
  then have "get_user_level_score (user_profile s) \<le> get_user_level_score (user_profile s')"
    by (intro level_score_mono) (simp_all add: progress_le_def)
  then show ?thesis by (simp add: get_adaptive_difficulty_mono)
qed

theorem difficulty_never_decreases_witness:
  "get_user_level_score (user_profile (initial_session ''t'')) \<le>
     get_user_level_score (user_profile (fst (the (run_script 2 (demo_event (Some MarkAsMastered)
        (demo_widgets\<lparr>w_page := VocabularyLessons\<rparr>)) (initial_session ''t''))))) \<and>
   get_adaptive_difficulty (user_profile (initial_session ''t'')) \<le>
     get_adaptive_difficulty (user_profile (fst (the (run_script 2 (demo_event (Some MarkAsMastered)
        (demo_widgets\<lparr>w_page := VocabularyLessons\<rparr>)) (initial_session ''t'')))))"
proof -
  let ?r = "run_script 2 (demo_event (Some MarkAsMastered) (demo_widgets\<lparr>w_page := VocabularyLessons\<rparr>))
              (initial_session ''t'')"
  have "map_option (\<lambda>_. ()) ?r = Some ()" by code_simp
  then have h: "?r = Some (fst (the ?r), snd (the ?r))" by (cases ?r) auto
  show ?thesis by (rule difficulty_never_decreases [OF h])
qed

text \<open>
  C29: Once unlocked, Word Master stays unlocked: no interaction removes a
  mastered word.
\<close>

theorem word_master_stays_unlocked:
  assumes "''Word Master'' \<in> set (unlocked_badges (user_profile s))"
    and "run_script n ev s = Some (s', e)"
  shows "''Word Master'' \<in> set (unlocked_badges (user_profile s'))"
proof -
  have "progress_le (user_profile s) (user_profile s')"
    using run_script_mono [OF progress_le_refl assms(2)] .
  then show ?thesis using assms(1)
    by (simp add: unlocked_badges_iff progress_le_def)
qed

theorem word_master_stays_unlocked_witness:
  "''Word Master'' \<in> set (unlocked_badges (user_profile (fst (the (run_script 2 (demo_event None demo_widgets)
      ((initial_session ''t'')\<lparr>user_profile := (initial_profile ''t'')\<lparr>vocabulary_mastered :=
         map (\<lambda>n. replicate n CHR ''a'') [1..<21]\<rparr>\<rparr>))))))"
proof -
  let ?s = "(initial_session ''t'')\<lparr>user_profile := (initial_profile ''t'')\<lparr>vocabulary_mastered :=
         map (\<lambda>n. replicate n CHR ''a'') [1..<21]\<rparr>\<rparr>"
  let ?r = "run_script 2 (demo_event None demo_widgets) ?s"
  have h1: "''Word Master'' \<in> set (unlocked_badges (user_profile ?s))"
    by (simp add: unlocked_badges_def achievements_def)
  have "map_option (\<lambda>_. ()) ?r = Some ()" by code_simp
  then have h2: "?r = Some (fst (the ?r), snd (the ?r))" by (cases ?r) auto
  show ?thesis by (rule word_master_stays_unlocked [OF h1 h2])
qed

end
