(* ===== verification/Frames.thy ===== *)
theory Frames
  imports Invariants
begin

text \<open>
  Parts of the session that the script never writes in a certain way. The
  phrase practice of the pronunciation page (lines 692--716) is only reached
  after the unbound local \<open>phrases\<close> has been read, so no run ever logs a
  phrase attempt: the \<open>Record Phrase\<close> button is dead code. The proof shows
  that every page keeps the absence of phrase attempts, composing the blocks
  as \<open>Invariants\<close> does.
\<close>

definition is_phrase_attempt :: "attempt \<Rightarrow> bool" where
  "is_phrase_attempt a = (case subject a of PhraseSubject _ \<Rightarrow> True | _ \<Rightarrow> False)"

definition no_phrase_attempts :: "session \<Rightarrow> bool" where
  "no_phrase_attempts s \<longleftrightarrow> list_all (\<lambda>a. \<not> is_phrase_attempt a) (pronunciation_feedback s)"

section \<open>Lemmas\<close>

lemma no_phrase_attempts_simps [simp]:
  "no_phrase_attempts (s\<lparr>user_profile := p\<rparr>) = no_phrase_attempts s"
  "no_phrase_attempts (s\<lparr>conversation_history := h\<rparr>) = no_phrase_attempts s"
  "no_phrase_attempts (s\<lparr>category_index := ci\<rparr>) = no_phrase_attempts s"
  "no_phrase_attempts (s\<lparr>current_quiz := vq\<rparr>) = no_phrase_attempts s"
  "no_phrase_attempts (s\<lparr>cultural_quiz := cq\<rparr>) = no_phrase_attempts s"
  "no_phrase_attempts (add_points n s) = no_phrase_attempts s"
  by (simp_all add: no_phrase_attempts_def)

lemma pronunciation_no_phrase:
  assumes "no_phrase_attempts s"
  shows "no_phrase_attempts (outcome_state (create_pronunciation_practice ev s))"
  using assms
  by (auto simp: create_pronunciation_practice_def word_practice_def twister_practice_def
      listen_block_def log_attempt_def practice_types_def no_phrase_attempts_def is_phrase_attempt_def
      Let_def or_raise_def split: sum.split)

lemma conversation_no_phrase:
  assumes "no_phrase_attempts s"
  shows "no_phrase_attempts (outcome_state (create_conversation_practice ev s))"
  unfolding create_conversation_practice_def Let_def
  using assms
  by (auto intro!: outcome_state_or_raise [where P = no_phrase_attempts]
      outcome_state_then_do [where P = no_phrase_attempts]
      simp: send_message_def practice_pronunciation_def clear_chat_def Let_def or_raise_def split: sum.split)

lemma vocabulary_blocks_no_phrase:
  assumes "no_phrase_attempts s"
  shows "no_phrase_attempts (outcome_state (flashcard_previous ev c i s))"
    "no_phrase_attempts (outcome_state (flashcard_next ev c ws i s))"
    "no_phrase_attempts (outcome_state (mark_mastered ev w s))"
    "no_phrase_attempts (outcome_state (vocab_quiz_panel ev s))"
    "no_phrase_attempts (outcome_state (vocab_progress_panel ld s))"
  using assms
  by (simp_all add: flashcard_previous_def flashcard_next_def mark_mastered_def vocab_quiz_panel_def
      vocab_progress_panel_def Let_def or_raise_def split: sum.split option.split)

lemma vocabulary_no_phrase:
  assumes "no_phrase_attempts s"
  shows "no_phrase_attempts (outcome_state (create_vocabulary_lessons ev s))"
  unfolding create_vocabulary_lessons_def Let_def
  using assms
  by (auto intro!: outcome_state_or_raise [where P = no_phrase_attempts]
      outcome_state_then_do [where P = no_phrase_attempts] vocabulary_blocks_no_phrase)

lemma cultural_profile_sidebar_no_phrase:
  assumes "no_phrase_attempts s"
  shows "no_phrase_attempts (outcome_state (create_cultural_insights ev s))"
    "no_phrase_attempts (outcome_state (create_profile_setup ev s))"
    "no_phrase_attempts (outcome_state (sidebar ev s))"
  using assms
  by (simp_all add: create_cultural_insights_def cultural_quiz_panel_def create_profile_setup_def sidebar_def
      Let_def or_raise_def split: sum.split option.split)

lemma main_run_no_phrase:
  assumes "no_phrase_attempts s"
  shows "no_phrase_attempts (outcome_state (main_run ev s))"
  unfolding main_run_def
  using assms
  by (intro outcome_state_then_do [where P = no_phrase_attempts] cultural_profile_sidebar_no_phrase)
     (auto split: page.split intro: conversation_no_phrase vocabulary_no_phrase pronunciation_no_phrase
      cultural_profile_sidebar_no_phrase)

lemma run_script_no_phrase:
  assumes "no_phrase_attempts s" and "run_script n ev s = Some (s', e)"
  shows "no_phrase_attempts s'"
  using assms
proof (induction n arbitrary: ev s)
  case 0
  then show ?case by simp
next
  case (Suc n)
  have m: "no_phrase_attempts (outcome_state (main_run ev s))"
    using Suc.prems(1) by (rule main_run_no_phrase)
  show ?case
  proof (cases "main_run ev s")
    case (Rerun s1)
    then show ?thesis using Suc.IH [of s1 "no_click ev"] Suc.prems m by simp
  qed (use Suc.prems m in auto)
qed

text \<open>
  C30: No reachable session contains a phrase attempt: the \<open>Record Phrase\<close>
  handler never runs.
\<close>

theorem phrase_practice_never_logged:
  assumes "reachable s"
  shows "no_phrase_attempts s"
  using assms
proof (induction rule: reachable.induct)
  case (start now)
  then show ?case by (simp add: no_phrase_attempts_def initial_session_def)
next
  case (step s ev s' err)
  then show ?case by (blast intro: run_script_no_phrase)
qed

theorem phrase_practice_never_logged_witness:
  "no_phrase_attempts (initial_session ''t'')"
  by (rule phrase_practice_never_logged [OF reachable.start])

end
