(* ===== verification/Spec2Isabelle.thy ===== *)
theory Spec2Isabelle
  imports Liveness Display Monotone Frames
begin

text \<open>
  \<^bold>\<open>Verification library for the AI Language Learning Companion.\<close>
  The program is one Streamlit script, src/app.py. Every interaction with the
  browser runs the whole script from the top: \<open>main()\<close> (lines 1023--1095)
  draws the sidebar and calls the function of the selected page, which reads
  the widget values of the run, mutates \<open>st.session_state\<close>, and may end
  the run with \<open>st.rerun()\<close>, after which Streamlit runs the script again
  with the same widget values and no click. An uncaught exception ends the run
  and keeps the mutations made before it.

  \<^bold>\<open>Theories.\<close>
  \<^item> \<open>Prelude\<close>: Python strings as UTF-8 byte lists with \<open>str.lower\<close> and
    the substring test; dictionary and list access with their exceptions as
    values of \<open>py_error + 'a\<close>; the outcome of a run (\<open>Continue\<close>,
    \<open>Rerun\<close>, \<open>Raised\<close>, each with the state at that point) and its
    sequencing \<open>then_do\<close> / \<open>or_raise\<close>.
  \<^item> \<open>Catalog\<close>: the literal content of the app, generated character by
    character from the source: \<open>LANGUAGES\<close> (lines 124--170), the tongue
    twisters, the phrases and the cultural quiz questions.
  \<^item> \<open>Progress\<close>: the user profile (lines 97--112), \<open>get_user_level_score\<close>,
    \<open>get_adaptive_difficulty\<close> (lines 193--212) and the recommendation and the six
    achievements of the analytics page (lines 997--1015).
  \<^item> \<open>Scoring\<close>: \<open>simulate_pronunciation_score\<close> (lines 214--224), with
    the random base score as an input, and the point rewards of the pages.
  \<^item> \<open>Intent\<close>: \<open>get_ai_response\<close> (lines 226--257) and an abstract
    intent classifier that it refines.
  \<^item> \<open>Quiz\<close>: the vocabulary quiz and the cultural quiz as records, and an
    abstract quiz machine \<open>quiz_step\<close> of the spec.
  \<^item> \<open>Session\<close>: the session state record (the keys of
    \<open>st.session_state\<close>), and the input of a run: the widget values (for a
    selection widget, the position of the chosen option), the clicked button,
    and the draws from \<open>random\<close> and \<open>datetime\<close>.
  \<^item> One theory per page, each with one definition per handler of a button
    and one for the whole page function: \<open>ProfilePage\<close>
    (\<open>create_profile_setup\<close>), \<open>ConversationPage\<close>
    (\<open>create_conversation_practice\<close>), \<open>VocabularyPage\<close>
    (\<open>create_vocabulary_lessons\<close>), \<open>PronunciationPage\<close>
    (\<open>create_pronunciation_practice\<close>), \<open>CulturalPage\<close>
    (\<open>create_cultural_insights\<close>).
  \<^item> \<open>App\<close>: the sidebar, \<open>main()\<close> as \<open>main_run\<close>, and Streamlit's
    rerun loop as \<open>run_script\<close> with fuel.
  \<^item> \<open>Invariants\<close>: the valid inputs of a run, the inductive set
    \<open>reachable\<close> of sessions a learner can produce, the session invariant
    \<open>session_inv\<close>, and its preservation by every handler of every page.
  \<^item> \<open>Monotone\<close>: the counters of the level score never decrease along a
    run of the script, so neither does the adaptive difficulty.
  \<^item> \<open>Display\<close>: the dashboard, the pronunciation analytics column and the
    progress analytics page as functions from the session to what they show.
  \<^item> \<open>Frames\<close>: parts of the session no run writes; the phrase practice
    never logs an attempt.
  \<^item> \<open>Liveness\<close>: what a learner can always still achieve from a reachable
    session, by sequences of valid interactions (\<open>run_interactions\<close>).

  \<^bold>\<open>Fuel.\<close> \<open>run_script n\<close> performs at most \<open>n\<close> runs; \<open>None\<close> means
  the fuel ran out. Two runs are always enough (\<open>App.run_script_settles\<close>):
  only a click leads to \<open>st.rerun()\<close>, and the rerun has no click, so
  the run with fuel 2 is the whole interaction.
  Sequences of interactions (\<open>run_interactions\<close>) are lists of events, each
  settled with fuel 2; \<open>valid_trace\<close> checks each event against the state
  it starts from, so a valid trace from a reachable session ends in one.

  \<^bold>\<open>What the lemmas show.\<close>
  \<^item> Termination of every interaction within two runs.
  \<^item> Invariants of every reachable session: the streak stays 0, mastered words
    are distinct, recorded scores and their average lie in [60, 100], the
    daily goal stays in [10, 120] so the sidebar never raises, no phrase
    attempt is ever logged; the level score and the difficulty never decrease,
    and Word Master stays unlocked.
  \<^item> The functional behaviour of the handlers on their branches, errors
    included: the reply and rewards of Send Message and its \<open>KeyError\<close> for
    languages without replies, Clear Chat, lesson counting, mastery
    idempotence, the three practice types, the profile form, the stale
    flashcard index, the progress bars, the cultural page's error freedom.
  \<^item> Refinement: \<open>get_ai_response\<close> implements the spec's classifier
    (ordered buckets, case-insensitive first match), which relies on every
    keyword being lower case; both quiz panels implement the spec's quiz
    machine \<open>quiz_step\<close>.
  \<^item> Liveness: Chatterbox and Pronunciation Pro can be unlocked from every
    reachable session with a supported language.
  Several theorems document defects of the code; they are the findings of the
  manifest.

  \<^bold>\<open>Not modelled.\<close> The CSS, \<open>st.set_page_config\<close>, the plotly styling and
  the mock time series that are drawn from \<open>random\<close> and only plotted (the
  dashboard's weekly points, the analytics page's 30-day activity heat map) are
  presentation and are left out; the dashboard's three mock skill scores are
  inputs. \<open>time.sleep\<close>, spinners, balloons and messages have no effect on
  the state. Randomness and the clock are inputs of a run, not modelled
  distributions: a theorem holds for every draw in the range the code asks for.
\<close>

section \<open>Properties of every reachable session\<close>

text \<open>
  C2: The Streak Keeper badge is never unlocked: no part of the application
  ever changes the profile's streak, which stays at 0 in every reachable session.
\<close>

theorem streak_keeper_never_unlocked:
  assumes "reachable s"
  shows "''Streak Keeper'' \<notin> set (unlocked_badges (user_profile s))"
proof -
  have "streak (user_profile s) = 0"
    using reachable_session_inv [OF assms] by (simp add: session_inv_def profile_inv_def)
  then show ?thesis by (simp add: unlocked_badges_def achievements_def)
qed

theorem streak_keeper_never_unlocked_witness:
  "''Streak Keeper'' \<notin> set (unlocked_badges (user_profile (initial_session ''2025-01-01'')))"
  by (rule streak_keeper_never_unlocked [OF reachable.start])

text \<open>
  C3: No word is ever recorded as mastered twice: in every reachable session the
  list \<open>vocabulary_mastered\<close> has no duplicates.
\<close>

theorem mastered_words_distinct:
  assumes "reachable s"
  shows "distinct (vocabulary_mastered (user_profile s))"
  using reachable_session_inv [OF assms] by (simp add: session_inv_def profile_inv_def)

theorem mastered_words_distinct_witness:
  "distinct (vocabulary_mastered (user_profile (initial_session ''2025-01-01'')))"
  by (rule mastered_words_distinct [OF reachable.start])

text \<open>
  C4: Every pronunciation score the profile records, and every score in the
  attempt log, lies between 60 and 100.
\<close>

theorem pronunciation_scores_bounded:
  assumes "reachable s"
  shows "set (pronunciation_scores (user_profile s)) \<subseteq> {60..100} \<and>
         attempt_score ` set (pronunciation_feedback s) \<subseteq> {60..100}"
  using reachable_session_inv [OF assms]
  by (auto simp: session_inv_def profile_inv_def feedback_inv_def)

theorem pronunciation_scores_bounded_witness:
  "set (pronunciation_scores (user_profile (initial_session ''2025-01-01''))) \<subseteq> {60..100} \<and>
   attempt_score ` set (pronunciation_feedback (initial_session ''2025-01-01'')) \<subseteq> {60..100}"
  by (rule pronunciation_scores_bounded [OF reachable.start])

section \<open>The sidebar\<close>

text \<open>
  C20: The sidebar never raises: \<open>random.randint(5, daily_goal)\<close> needs a
  goal of at least 5, and every reachable profile's goal lies in [10, 120]
  because the profile page only saves a slider value of that range; with a
  draw of that \<open>randint\<close>, the progress value lies in [0, 1].
\<close>

theorem sidebar_never_raises:
  assumes "reachable s" and "5 \<le> d_daily_minutes (ev_draws ev)"
  shows "sidebar ev s = Continue s"
proof -
  have "5 \<le> daily_goal (user_profile s)"
    using reachable_session_inv [OF assms(1)] by (simp add: session_inv_def profile_inv_def)
  then show ?thesis using assms(2) by (rule sidebar_Continue)
qed

theorem sidebar_never_raises_witness:
  "sidebar (demo_event None demo_widgets) (initial_session ''t'') = Continue (initial_session ''t'')"
proof -
  have h: "5 \<le> d_daily_minutes (ev_draws (demo_event None demo_widgets))"
    by (simp add: demo_event_def demo_draws_def)
  show ?thesis by (rule sidebar_never_raises [OF reachable.start h])
qed


end
